theory Spec2Isabelle
  imports Complex_Main
begin

section \<open>Exceptions and calls\<close>

text \<open>
  Every exception the modelled code can raise is a value; a function that may raise
  returns \<open>error + 'a\<close>, with \<open>Inl\<close> for the exception. Only subclasses of Python's
  \<open>Exception\<close> are modelled, which is what the \<open>except Exception\<close> handlers catch.
\<close>

datatype error =
    TypeError string
  | ValueError string
  | AttributeError string
  | KeyError string
  | OverflowError string
  | ValidationError string
  | TripPlanningError string
  | HTTPException nat string
  | Raised string

text \<open>\<open>str(e)\<close>: the text of an exception.\<close>

fun str_of_error :: "error \<Rightarrow> string" where
  "str_of_error (TypeError m) = m"
| "str_of_error (ValueError m) = m"
| "str_of_error (AttributeError m) = m"
| "str_of_error (KeyError k) = k"
| "str_of_error (OverflowError m) = m"
| "str_of_error (ValidationError m) = m"
| "str_of_error (TripPlanningError m) = m"
| "str_of_error (HTTPException c m) = m"
| "str_of_error (Raised m) = m"

text \<open>
  Python binds the arguments of a call to the parameters of the callee before the body
  runs. For a function of two required parameters \<open>params\<close>: \<open>a\<close> and \<open>b\<close> are the
  values the call gives them, by position or by keyword (\<open>None\<close> when it gives none),
  and \<open>keywords\<close> are the names of all keyword arguments of the call, in its order. The
  first keyword that names no parameter raises \<open>TypeError\<close>, and so does a parameter left
  without a value.
\<close>

definition quoted :: "string \<Rightarrow> string" where
  "quoted s = [CHR 0x27] @ s @ [CHR 0x27]"

definition call2 ::
  "string \<Rightarrow> string \<times> string \<Rightarrow> ('a \<Rightarrow> 'b \<Rightarrow> 'c) \<Rightarrow> 'a option \<Rightarrow> 'b option \<Rightarrow> string list
     \<Rightarrow> error + 'c" where
  "call2 fname params f a b keywords =
     (case filter (\<lambda>k. k \<noteq> fst params \<and> k \<noteq> snd params) keywords of
        k # _ \<Rightarrow>
          Inl (TypeError (fname @ ''() got an unexpected keyword argument '' @ quoted k))
      | [] \<Rightarrow>
          (case (a, b) of
             (Some x, Some y) \<Rightarrow> Inr (f x y)
           | (Some x, None) \<Rightarrow>
               Inl (TypeError (fname @ ''() missing 1 required positional argument: ''
                                @ quoted (snd params)))
           | (None, Some y) \<Rightarrow>
               Inl (TypeError (fname @ ''() missing 1 required positional argument: ''
                                @ quoted (fst params)))
           | (None, None) \<Rightarrow>
               Inl (TypeError (fname @ ''() missing 2 required positional arguments: ''
                                @ quoted (fst params) @ '' and '' @ quoted (snd params)))))"

section \<open>Values\<close>

text \<open>
  Text is a list of 8-bit characters: ASCII text as written, any other text as its UTF-8
  encoding. The values that flow through untyped fields (decoded JSON, keyword arguments of
  the schema classes) are Python values; a float is the real number it stands for (the
  rounding of float arithmetic is not modelled).
\<close>

datatype pyval =
    PNone
  | PBool bool
  | PInt int
  | PFloat real
  | PStr string
  | PList "pyval list"
  | PDict "(string \<times> pyval) list"

section \<open>The planning state (app/agents/state.py)\<close>

text \<open>
  Modelled from the spec: the class \<open>TripRequest\<close> of app/models/schemas.py, which is
  missing. It has the trip parameters of the specification (destination, date range, day
  count, transport mode, lodging preference, preference list), under the names by which
  the code reads them.
\<close>

record TripRequest =
  city :: string
  start_date :: string
  end_date :: string
  travel_days :: int
  transportation :: string
  accommodation :: string
  preferences :: "string list"

section \<open>The schema classes (app/models/schemas.py)\<close>

text \<open>
  Modelled from the spec: the itinerary classes of app/models/schemas.py, which is missing
  (the itinerary, its day plans and budget, and the results of the data-gathering steps,
  as the specification's data model lists them). Each class is a record of the keyword
  arguments that the code passes to its constructor; the constructor is taken to accept
  them and to store them unchanged. A field of type \<open>pyval option\<close> is one that some
  call leaves out: \<open>None\<close> stands for the default of the class.
\<close>

record Location =
  longitude :: pyval
  latitude :: pyval

record Attraction =
  a_name :: pyval
  a_address :: pyval
  a_location :: Location
  a_visit_duration :: pyval
  a_description :: pyval
  a_category :: "pyval option"
  a_poi_id :: "pyval option"
  a_ticket_price :: "pyval option"

record Hotel =
  h_name :: pyval
  h_address :: pyval
  h_location :: "Location option"
  h_type :: "pyval option"
  h_price_range :: "pyval option"
  h_rating :: "pyval option"
  h_distance :: "pyval option"
  h_estimated_cost :: "pyval option"

record Meal =
  m_type :: pyval
  m_name :: pyval
  m_description :: "pyval option"
  m_estimated_cost :: pyval

record WeatherInfo =
  w_date :: pyval
  w_day_weather :: pyval
  w_night_weather :: pyval
  w_day_temp :: pyval
  w_night_temp :: pyval
  w_wind_direction :: pyval
  w_wind_power :: pyval

record DayPlan =
  d_date :: pyval
  d_day_index :: pyval
  d_description :: pyval
  d_transportation :: pyval
  d_accommodation :: pyval
  d_hotel :: Hotel
  d_attractions :: "Attraction list"
  d_meals :: "Meal list"

record Budget =
  total_attractions :: pyval
  total_hotels :: pyval
  total_meals :: pyval
  total_transportation :: pyval
  total :: pyval

record TripPlan =
  p_city :: pyval
  p_start_date :: string
  p_end_date :: string
  days :: "DayPlan list"
  weather_info :: "WeatherInfo list"
  overall_suggestions :: pyval
  budget :: Budget
  p_execution_time_ms :: "int option"

text \<open>
  The result lists of the data-gathering steps, and the values the cache holds, are Python
  lists; an element is an object of one of three classes.
\<close>

datatype item = IAttraction Attraction | IWeather WeatherInfo | IHotel Hotel

text \<open>
  \<open>TripPlanningState\<close> is a \<open>TypedDict\<close> with \<open>total=False\<close>, and a step returns a dict
  with some of its keys. Both are records of options: \<open>None\<close> is a key that is absent (or,
  for the keys \<open>create_initial_state\<close> sets to \<open>None\<close>, holds \<open>None\<close>; the code reads these
  with \<open>.get\<close> and treats both alike).
\<close>

record TripPlanningState =
  request :: "TripRequest option"
  user_id :: "string option"
  attractions :: "item list option"
  weather :: "item list option"
  hotels :: "item list option"
  node_status :: "(string \<rightharpoonup> string) option"
  node_errors :: "(string \<rightharpoonup> string) option"
  trip_plan :: "TripPlan option"
  error :: "string option"
  fallback_activated :: "bool option"
  execution_time_ms :: "int option"
  retry_count :: "int option"
  trace_id :: "string option"
  checkpoint_id :: "string option"
  node_timings :: "(string \<rightharpoonup> int) option"

text \<open>The dict with no key, and \<open>state.get(key, {})\<close> for the three maps.\<close>

definition no_keys :: TripPlanningState where
  "no_keys = \<lparr> request = None, user_id = None, attractions = None, weather = None,
     hotels = None, node_status = None, node_errors = None, trip_plan = None, error = None,
     fallback_activated = None, execution_time_ms = None, retry_count = None,
     trace_id = None, checkpoint_id = None, node_timings = None \<rparr>"

definition get_map :: "('k \<rightharpoonup> 'v) option \<Rightarrow> ('k \<rightharpoonup> 'v)" where
  "get_map d = (case d of None \<Rightarrow> Map.empty | Some m \<Rightarrow> m)"

definition create_initial_state :: "string option \<Rightarrow> TripRequest \<Rightarrow> TripPlanningState" where
  "create_initial_state uid req =
     no_keys \<lparr> request := Some req, user_id := uid, attractions := Some [],
       hotels := Some [], node_status := Some Map.empty, node_errors := Some Map.empty,
       fallback_activated := Some False, retry_count := Some 0,
       node_timings := Some Map.empty \<rparr>"

definition is_all_parallel_nodes_completed :: "TripPlanningState \<Rightarrow> string list \<Rightarrow> bool" where
  "is_all_parallel_nodes_completed state nodes =
     (let statuses = get_map (node_status state)
      in list_all (\<lambda>n. statuses n = Some ''completed'') nodes)"

text \<open>
  The reading of the gate that the specification asks for: every required step has a
  terminal status, \<open>completed\<close> or \<open>failed\<close>.
\<close>

definition all_terminal :: "TripPlanningState \<Rightarrow> string list \<Rightarrow> bool" where
  "all_terminal state nodes =
     list_all (\<lambda>n. get_map (node_status state) n = Some ''completed''
                  \<or> get_map (node_status state) n = Some ''failed'') nodes"

text \<open>The steps that precede synthesis, and a state in which the weather step failed.\<close>

definition required_steps :: "string list" where
  "required_steps = [''search_attractions'', ''query_weather'', ''search_hotels'']"

definition weather_failed_status :: "string \<rightharpoonup> string" where
  "weather_failed_status =
     [''search_attractions'' \<mapsto> ''completed'', ''query_weather'' \<mapsto> ''failed'',
      ''search_hotels'' \<mapsto> ''completed'']"

definition all_completed_status :: "string \<rightharpoonup> string" where
  "all_completed_status =
     [''search_attractions'' \<mapsto> ''completed'', ''query_weather'' \<mapsto> ''completed'',
      ''search_hotels'' \<mapsto> ''completed'']"

section \<open>Library functions: numbers, text, dates\<close>

text \<open>\<open>str\<close> of an integer: its decimal digits.\<close>

fun digit_char :: "nat \<Rightarrow> char" where
  "digit_char n = char_of (48 + n)"

function str_of_nat :: "nat \<Rightarrow> string" where
  "str_of_nat n = (if n < 10 then [digit_char n] else str_of_nat (n div 10) @ [digit_char (n mod 10)])"
  by pat_completeness auto
termination
  by (relation "measure id") auto

definition str_of_int :: "int \<Rightarrow> string" where
  "str_of_int i = (if i < 0 then CHR ''-'' # str_of_nat (nat (- i)) else str_of_nat (nat i))"

text \<open>\<open>range(n)\<close> for an integer \<open>n\<close>: empty when \<open>n\<close> is not positive.\<close>

definition py_range :: "int \<Rightarrow> nat list" where
  "py_range n = [0 ..< nat n]"

text \<open>
  \<open>+\<close> on numbers, and \<open>sum\<close>, which adds the elements to 0 from the left. A \<open>bool\<close> counts
  as 0 or 1; anything that is not a number raises \<open>TypeError\<close>.
\<close>

fun py_add :: "pyval \<Rightarrow> pyval \<Rightarrow> error + pyval" where
  "py_add (PInt a) (PInt b) = Inr (PInt (a + b))"
| "py_add (PInt a) (PBool b) = Inr (PInt (a + of_bool b))"
| "py_add (PBool a) (PInt b) = Inr (PInt (of_bool a + b))"
| "py_add (PBool a) (PBool b) = Inr (PInt (of_bool a + of_bool b))"
| "py_add (PInt a) (PFloat b) = Inr (PFloat (of_int a + b))"
| "py_add (PFloat a) (PInt b) = Inr (PFloat (a + of_int b))"
| "py_add (PBool a) (PFloat b) = Inr (PFloat (of_bool a + b))"
| "py_add (PFloat a) (PBool b) = Inr (PFloat (a + of_bool b))"
| "py_add (PFloat a) (PFloat b) = Inr (PFloat (a + b))"
| "py_add _ _ = Inl (TypeError ''unsupported operand type(s) for +'')"

fun py_sum_from :: "pyval \<Rightarrow> pyval list \<Rightarrow> error + pyval" where
  "py_sum_from acc [] = Inr acc"
| "py_sum_from acc (x # xs) =
     (case py_add acc x of Inl e \<Rightarrow> Inl e | Inr acc' \<Rightarrow> py_sum_from acc' xs)"

definition py_sum :: "pyval list \<Rightarrow> error + pyval" where
  "py_sum xs = py_sum_from (PInt 0) xs"

text \<open>
  The first error of a list of results or, when there is none, the list of the values: a
  loop that appends one value per element and stops at the first exception.
\<close>

fun collect :: "(error + 'a) list \<Rightarrow> error + 'a list" where
  "collect [] = Inr []"
| "collect (r # rs) =
     (case r of
        Inl e \<Rightarrow> Inl e
      | Inr x \<Rightarrow> (case collect rs of Inl e \<Rightarrow> Inl e | Inr xs \<Rightarrow> Inr (x # xs)))"

subsection \<open>Dates (the standard library's datetime)\<close>

text \<open>
  A \<open>datetime\<close> at midnight is its calendar date. The day arithmetic is the library's: a
  date is turned into its ordinal (1 for 0001-01-01), the days are added, and the ordinal is
  turned back, with \<open>OverflowError\<close> beyond 9999-12-31.
\<close>

record date =
  year :: nat
  month :: nat
  day :: nat

definition is_leap :: "nat \<Rightarrow> bool" where
  "is_leap y = (y mod 4 = 0 \<and> (y mod 100 \<noteq> 0 \<or> y mod 400 = 0))"

definition DAYS_IN_MONTH :: "nat list" where
  "DAYS_IN_MONTH = [0, 31, 28, 31, 30, 31, 30, 31, 31, 30, 31, 30, 31]"

definition DAYS_BEFORE_MONTH :: "nat list" where
  "DAYS_BEFORE_MONTH = [0, 0, 31, 59, 90, 120, 151, 181, 212, 243, 273, 304, 334]"

definition days_in_month :: "nat \<Rightarrow> nat \<Rightarrow> nat" where
  "days_in_month y m = (if m = 2 \<and> is_leap y then 29 else DAYS_IN_MONTH ! m)"

definition days_before_year :: "nat \<Rightarrow> nat" where
  "days_before_year y = (y - 1) * 365 + (y - 1) div 4 - (y - 1) div 100 + (y - 1) div 400"

definition days_before_month :: "nat \<Rightarrow> nat \<Rightarrow> nat" where
  "days_before_month y m = DAYS_BEFORE_MONTH ! m + (if m > 2 \<and> is_leap y then 1 else 0)"

definition toordinal :: "date \<Rightarrow> nat" where
  "toordinal d = days_before_year (year d) + days_before_month (year d) (month d) + day d"

definition MAXORDINAL :: nat where
  "MAXORDINAL = 3652059"

definition fromordinal :: "nat \<Rightarrow> date" where
  "fromordinal ord =
     (let n = ord - 1;
          n400 = n div 146097; n = n mod 146097;
          n100 = n div 36524; n = n mod 36524;
          n4 = n div 1461; n = n mod 1461;
          n1 = n div 365; n = n mod 365;
          y = n400 * 400 + 1 + n100 * 100 + n4 * 4 + n1
      in if n1 = 4 \<or> n100 = 4 then \<lparr> year = y - 1, month = 12, day = 31 \<rparr>
         else
           let leapyear = (n1 = 3 \<and> (n4 \<noteq> 24 \<or> n100 = 3));
               m = (n + 50) div 32;
               preceding = DAYS_BEFORE_MONTH ! m + (if m > 2 \<and> leapyear then 1 else 0)
           in if preceding > n
              then \<lparr> year = y, month = m - 1,
                     day = n - (preceding - (DAYS_IN_MONTH ! (m - 1)
                                 + (if m - 1 = 2 \<and> leapyear then 1 else 0))) + 1 \<rparr>
              else \<lparr> year = y, month = m, day = n - preceding + 1 \<rparr>)"

text \<open>\<open>start + timedelta(days=i)\<close> for \<open>i\<close> that is not negative.\<close>

definition add_days :: "date \<Rightarrow> nat \<Rightarrow> error + date" where
  "add_days d i =
     (if toordinal d + i \<le> MAXORDINAL then Inr (fromordinal (toordinal d + i))
      else Inl (OverflowError ''date value out of range''))"

text \<open>
  \<open>datetime.strptime(s, "%Y-%m-%d")\<close>. The format becomes a regular expression that has to
  match a prefix of the text: four digits; a hyphen; a month, the alternatives
  \<open>1[0-2]\<close>, \<open>0[1-9]\<close>, \<open>[1-9]\<close> tried in this order; a hyphen; a day, the alternatives
  \<open>3[01]\<close>, \<open>[12][0-9]\<close>, \<open>0[1-9]\<close>, \<open>[1-9]\<close>, blank and \<open>[1-9]\<close>. Text left over after the
  match, a year 0 and a day the month does not have raise \<open>ValueError\<close>. Digits are the
  ASCII digits (the library also takes the other decimal digits of Unicode). The error
  texts show the data between single quotes (the library shows it as \<open>repr\<close> does, which
  differs for a text with a quote, a backslash or a control character).
\<close>

definition is_digit :: "char \<Rightarrow> bool" where
  "is_digit c = (c \<in> set ''0123456789'')"

definition digit_val :: "char \<Rightarrow> nat" where
  "digit_val c = of_char c - 48"

text \<open>The ways one alternative list matches at the head of a text: (number, rest), in order.\<close>

fun month_alternatives :: "string \<Rightarrow> (nat \<times> string) list" where
  "month_alternatives s =
     (case s of
        c1 # c2 # r \<Rightarrow>
          (if c1 = CHR ''1'' \<and> c2 \<in> set ''012'' then [(10 + digit_val c2, r)] else []) @
          (if c1 = CHR ''0'' \<and> c2 \<in> set ''123456789'' then [(digit_val c2, r)] else []) @
          (if c1 \<in> set ''123456789'' then [(digit_val c1, c2 # r)] else [])
      | [c1] \<Rightarrow> (if c1 \<in> set ''123456789'' then [(digit_val c1, [])] else [])
      | [] \<Rightarrow> [])"

fun day_alternatives :: "string \<Rightarrow> (nat \<times> string) list" where
  "day_alternatives s =
     (case s of
        c1 # c2 # r \<Rightarrow>
          (if c1 = CHR ''3'' \<and> c2 \<in> set ''01'' then [(30 + digit_val c2, r)] else []) @
          (if c1 \<in> set ''12'' \<and> is_digit c2 then [(10 * digit_val c1 + digit_val c2, r)] else []) @
          (if c1 = CHR ''0'' \<and> c2 \<in> set ''123456789'' then [(digit_val c2, r)] else []) @
          (if c1 \<in> set ''123456789'' then [(digit_val c1, c2 # r)] else []) @
          (if c1 = CHR '' '' \<and> c2 \<in> set ''123456789'' then [(digit_val c2, r)] else [])
      | [c1] \<Rightarrow> (if c1 \<in> set ''123456789'' then [(digit_val c1, [])] else [])
      | [] \<Rightarrow> [])"

text \<open>
  The ways month, hyphen and day match at the head of a text, in the order in which the
  matcher tries them; the first match of the whole expression gives year, month, day and
  the text left over.
\<close>

definition month_day_matches :: "string \<Rightarrow> (nat \<times> nat \<times> string) list" where
  "month_day_matches r =
     concat (map (\<lambda>(m, r1).
                (case r1 of
                   h2 # r2 \<Rightarrow>
                     if h2 = CHR ''-''
                     then map (\<lambda>(d, r3). (m, d, r3)) (day_alternatives r2)
                     else []
                 | [] \<Rightarrow> []))
            (month_alternatives r))"

definition match_ymd :: "string \<Rightarrow> (nat \<times> nat \<times> nat \<times> string) option" where
  "match_ymd s =
     (case s of
        y1 # y2 # y3 # y4 # h1 # r \<Rightarrow>
          (if is_digit y1 \<and> is_digit y2 \<and> is_digit y3 \<and> is_digit y4 \<and> h1 = CHR ''-''
           then
             (case month_day_matches r of
                [] \<Rightarrow> None
              | (m, d, r3) # _ \<Rightarrow>
                  Some (1000 * digit_val y1 + 100 * digit_val y2 + 10 * digit_val y3
                          + digit_val y4, m, d, r3))
           else None)
      | _ \<Rightarrow> None)"

definition strptime_ymd :: "string \<Rightarrow> error + date" where
  "strptime_ymd s =
     (case match_ymd s of
        None \<Rightarrow>
          Inl (ValueError (''time data '' @ quoted s @ '' does not match format ''
                             @ quoted ''%Y-%m-%d''))
      | Some (y, m, d, rest) \<Rightarrow>
          if rest \<noteq> [] then Inl (ValueError (''unconverted data remains: '' @ rest))
          else if y < 1 then Inl (ValueError ''year 0 is out of range'')
          else if d > days_in_month y m then Inl (ValueError ''day is out of range for month'')
          else Inr \<lparr> year = y, month = m, day = d \<rparr>)"

text \<open>
  \<open>strftime("%Y-%m-%d")\<close>: the year as the C library prints it, which is without padding
  (a year below 1000 has fewer than four digits), month and day on two digits.
\<close>

definition pad :: "nat \<Rightarrow> string \<Rightarrow> string" where
  "pad w s = replicate (w - length s) CHR ''0'' @ s"

definition strftime_ymd :: "date \<Rightarrow> string" where
  "strftime_ymd d =
     str_of_nat (year d) @ ''-'' @ pad 2 (str_of_nat (month d)) @ ''-''
       @ pad 2 (str_of_nat (day d))"

section \<open>The deterministic fallback plan (planner\_node.py, create\_fallback\_plan)\<close>

text \<open>The source's literals that are not ASCII, as their UTF-8 bytes.\<close>

definition zh_day_prefix :: string where
  \<comment> \<open>the ordinal prefix of the day description\<close>
  "zh_day_prefix =
     [CHR 0xE7, CHR 0xAC, CHR 0xAC]"

definition zh_day_explore :: string where
  \<comment> \<open>the text between the day number and the city\<close>
  "zh_day_explore =
     [CHR 0xE5, CHR 0xA4, CHR 0xA9, CHR 0xEF, CHR 0xBC, CHR 0x9A, CHR 0xE6, CHR 0x8E,
     CHR 0xA2, CHR 0xE7, CHR 0xB4, CHR 0xA2]"

definition zh_hotel_suffix :: string where
  \<comment> \<open>suffix of the placeholder hotel name\<close>
  "zh_hotel_suffix =
     [CHR 0xE9, CHR 0x85, CHR 0x92, CHR 0xE5, CHR 0xBA, CHR 0x97, CHR 0xE6, CHR 0x8E,
     CHR 0xA8, CHR 0xE8, CHR 0x8D, CHR 0x90]"

definition zh_hot_spot :: string where
  \<comment> \<open>the text between the city and the index of a placeholder attraction\<close>
  "zh_hot_spot =
     [CHR 0xE7, CHR 0x83, CHR 0xAD, CHR 0xE9, CHR 0x97, CHR 0xA8, CHR 0xE6, CHR 0x99,
     CHR 0xAF, CHR 0xE7, CHR 0x82, CHR 0xB9]"

definition zh_famous_spot :: string where
  \<comment> \<open>suffix of the description of a placeholder attraction\<close>
  "zh_famous_spot =
     [CHR 0xE7, CHR 0x9A, CHR 0x84, CHR 0xE8, CHR 0x91, CHR 0x97, CHR 0xE5, CHR 0x90,
     CHR 0x8D, CHR 0xE6, CHR 0x99, CHR 0xAF, CHR 0xE7, CHR 0x82, CHR 0xB9]"

definition zh_breakfast :: string where
  \<comment> \<open>name of the placeholder breakfast\<close>
  "zh_breakfast =
     [CHR 0xE5, CHR 0xBD, CHR 0x93, CHR 0xE5, CHR 0x9C, CHR 0xB0, CHR 0xE7, CHR 0x89,
     CHR 0xB9, CHR 0xE8, CHR 0x89, CHR 0xB2, CHR 0xE6, CHR 0x97, CHR 0xA9, CHR 0xE9,
     CHR 0xA4, CHR 0x90]"

definition zh_lunch :: string where
  \<comment> \<open>name of the placeholder lunch\<close>
  "zh_lunch =
     [CHR 0xE5, CHR 0xBD, CHR 0x93, CHR 0xE5, CHR 0x9C, CHR 0xB0, CHR 0xE7, CHR 0x89,
     CHR 0xB9, CHR 0xE8, CHR 0x89, CHR 0xB2, CHR 0xE5, CHR 0x8D, CHR 0x88, CHR 0xE9,
     CHR 0xA4, CHR 0x90]"

definition zh_dinner :: string where
  \<comment> \<open>name of the placeholder dinner\<close>
  "zh_dinner =
     [CHR 0xE5, CHR 0xBD, CHR 0x93, CHR 0xE5, CHR 0x9C, CHR 0xB0, CHR 0xE7, CHR 0x89,
     CHR 0xB9, CHR 0xE8, CHR 0x89, CHR 0xB2, CHR 0xE6, CHR 0x99, CHR 0x9A, CHR 0xE9,
     CHR 0xA4, CHR 0x90]"

definition zh_suggest_prefix :: string where
  \<comment> \<open>start of the overall suggestion\<close>
  "zh_suggest_prefix =
     [CHR 0xE8, CHR 0xBF, CHR 0x99, CHR 0xE6, CHR 0x98, CHR 0xAF, CHR 0xE4, CHR 0xB8,
     CHR 0xBA, CHR 0xE6, CHR 0x82, CHR 0xA8, CHR 0xE5, CHR 0x87, CHR 0x86, CHR 0xE5,
     CHR 0xA4, CHR 0x87, CHR 0xE7, CHR 0x9A, CHR 0x84]"

definition zh_suggest_suffix :: string where
  \<comment> \<open>end of the overall suggestion\<close>
  "zh_suggest_suffix =
     [CHR 0xE6, CHR 0x97, CHR 0xA5, CHR 0xE6, CHR 0xB8, CHR 0xB8, CHR 0xE5, CHR 0xA4,
     CHR 0x87, CHR 0xE7, CHR 0x94, CHR 0xA8, CHR 0xE8, CHR 0xA1, CHR 0x8C, CHR 0xE7,
     CHR 0xA8, CHR 0x8B, CHR 0xE3, CHR 0x80, CHR 0x82, CHR 0xE5, CHR 0xBB, CHR 0xBA,
     CHR 0xE8, CHR 0xAE, CHR 0xAE, CHR 0xE6, CHR 0x8F, CHR 0x90, CHR 0xE5, CHR 0x89,
     CHR 0x8D, CHR 0xE6, CHR 0x9F, CHR 0xA5, CHR 0xE8, CHR 0xAF, CHR 0xA2, CHR 0xE5,
     CHR 0x90, CHR 0x84, CHR 0xE6, CHR 0x99, CHR 0xAF, CHR 0xE7, CHR 0x82, CHR 0xB9,
     CHR 0xE5, CHR 0xBC, CHR 0x80, CHR 0xE6, CHR 0x94, CHR 0xBE, CHR 0xE6, CHR 0x97,
     CHR 0xB6, CHR 0xE9, CHR 0x97, CHR 0xB4, CHR 0xE5, CHR 0x92, CHR 0x8C, CHR 0xE9,
     CHR 0xA2, CHR 0x84, CHR 0xE8, CHR 0xAE, CHR 0xA2, CHR 0xE9, CHR 0x85, CHR 0x92,
     CHR 0xE5, CHR 0xBA, CHR 0x97, CHR 0xE3, CHR 0x80, CHR 0x82]"

text \<open>The body of the loop over \<open>range(request.travel_days)\<close>, for day \<open>i\<close>.\<close>

definition fallback_attraction :: "TripRequest \<Rightarrow> nat \<Rightarrow> Attraction" where
  "fallback_attraction req j =
     \<lparr> a_name = PStr (city req @ zh_hot_spot @ str_of_nat (j + 1)),
       a_address = PStr (city req),
       a_location = \<lparr> longitude = PFloat 116.4, latitude = PFloat 39.9 \<rparr>,
       a_visit_duration = PInt 120,
       a_description = PStr (city req @ zh_famous_spot),
       a_category = None,
       a_poi_id = None,
       a_ticket_price = Some (PInt 50) \<rparr>"

definition fallback_meals :: "Meal list" where
  "fallback_meals =
     [\<lparr> m_type = PStr ''breakfast'', m_name = PStr zh_breakfast, m_description = None,
        m_estimated_cost = PInt 30 \<rparr>,
      \<lparr> m_type = PStr ''lunch'', m_name = PStr zh_lunch, m_description = None,
        m_estimated_cost = PInt 60 \<rparr>,
      \<lparr> m_type = PStr ''dinner'', m_name = PStr zh_dinner, m_description = None,
        m_estimated_cost = PInt 100 \<rparr>]"

definition fallback_day :: "TripRequest \<Rightarrow> date \<Rightarrow> nat \<Rightarrow> error + DayPlan" where
  "fallback_day req start i =
     (case add_days start i of
        Inl e \<Rightarrow> Inl e
      | Inr current_date \<Rightarrow>
          Inr \<lparr> d_date = PStr (strftime_ymd current_date),
                d_day_index = PInt (int i),
                d_description =
                  PStr (zh_day_prefix @ str_of_nat (i + 1) @ zh_day_explore @ city req),
                d_transportation = PStr (transportation req),
                d_accommodation = PStr (accommodation req),
                d_hotel =
                  \<lparr> h_name = PStr (city req @ zh_hotel_suffix),
                    h_address = PStr (city req), h_location = None, h_type = None,
                    h_price_range = None, h_rating = None, h_distance = None,
                    h_estimated_cost = None \<rparr>,
                d_attractions = map (fallback_attraction req) (py_range 2),
                d_meals = fallback_meals \<rparr>)"

definition create_fallback_plan :: "TripRequest \<Rightarrow> error + TripPlan" where
  "create_fallback_plan req =
     (case strptime_ymd (start_date req) of
        Inl e \<Rightarrow> Inl e
      | Inr start \<Rightarrow>
     (case collect (map (fallback_day req start) (py_range (travel_days req))) of
        Inl e \<Rightarrow> Inl e
      | Inr ds \<Rightarrow>
     (let t_attractions = PInt (sum_list (map (\<lambda>d. int (length (d_attractions d)) * 50) ds))
      in
     (case collect (map (\<lambda>d. py_sum (map m_estimated_cost (d_meals d))) ds) of
        Inl e \<Rightarrow> Inl e
      | Inr day_meals \<Rightarrow>
     (case py_sum day_meals of
        Inl e \<Rightarrow> Inl e
      | Inr t_meals \<Rightarrow>
     (let t_hotels = PInt (400 * travel_days req)
      in
     (case py_add t_attractions t_hotels of
        Inl e \<Rightarrow> Inl e
      | Inr s1 \<Rightarrow>
     (case py_add s1 t_meals of
        Inl e \<Rightarrow> Inl e
      | Inr s2 \<Rightarrow>
     (case py_add s2 (PInt 100) of
        Inl e \<Rightarrow> Inl e
      | Inr t_all \<Rightarrow>
          Inr \<lparr> p_city = PStr (city req),
                p_start_date = start_date req,
                p_end_date = end_date req,
                days = ds,
                weather_info = [],
                overall_suggestions =
                  PStr (zh_suggest_prefix @ city req @ str_of_int (travel_days req)
                        @ zh_suggest_suffix),
                budget =
                  \<lparr> total_attractions = t_attractions,
                    total_hotels = t_hotels,
                    total_meals = t_meals,
                    total_transportation = PInt 100,
                    total = t_all \<rparr>,
                p_execution_time_ms = None \<rparr>)))))))))"

text \<open>The request of the specification's scenario.\<close>

definition beijing_request :: TripRequest where
  "beijing_request =
     \<lparr> city = ''Beijing'', start_date = ''2025-06-01'', end_date = ''2025-06-03'',
       travel_days = 3, transportation = ''public_transit'',
       accommodation = ''budget_hotel'', preferences = [''history'', ''food''] \<rparr>"

section \<open>Library functions: text search, splitting, stripping\<close>

text \<open>\<open>s.startswith(sep)\<close>, \<open>sep in s\<close> and \<open>s.find(sep)\<close> (\<open>None\<close> for -1).\<close>

definition starts_with :: "string \<Rightarrow> string \<Rightarrow> bool" where
  "starts_with sep s = (take (length sep) s = sep)"

fun find_from :: "string \<Rightarrow> nat \<Rightarrow> string \<Rightarrow> nat option" where
  "find_from sep i [] = (if sep = [] then Some i else None)"
| "find_from sep i (c # s) =
     (if starts_with sep (c # s) then Some i else find_from sep (Suc i) s)"

definition py_find :: "string \<Rightarrow> string \<Rightarrow> nat option" where
  "py_find sep s = find_from sep 0 s"

definition contains :: "string \<Rightarrow> string \<Rightarrow> bool" where
  "contains sep s = (py_find sep s \<noteq> None)"

text \<open>
  \<open>s.split(sep)\<close> for a separator that is not empty: the text is cut at each occurrence
  of the separator, found from the left, the search going on after the occurrence.
\<close>

function split_from :: "string \<Rightarrow> string \<Rightarrow> string \<Rightarrow> string list" where
  "split_from sep cur [] = [rev cur]"
| "split_from sep cur (c # s) =
     (if sep \<noteq> [] \<and> starts_with sep (c # s)
      then rev cur # split_from sep [] (drop (length sep) (c # s))
      else split_from sep (c # cur) s)"
  by pat_completeness auto
termination
  by (relation "measure (\<lambda>(sep, cur, s). length s)") auto

definition py_split :: "string \<Rightarrow> string \<Rightarrow> string list" where
  "py_split sep s = split_from sep [] s"

text \<open>\<open>xs[i]\<close> for an index that is not negative.\<close>

definition index :: "'a list \<Rightarrow> nat \<Rightarrow> error + 'a" where
  "index xs i = (if i < length xs then Inr (xs ! i) else Inl (Raised ''list index out of range''))"

text \<open>
  \<open>s.strip()\<close> removes the white space at both ends. The white space characters of
  Unicode, as their UTF-8 bytes: U+0009 to U+000D, U+001C to U+0020, U+0085, U+00A0,
  U+1680, U+2000 to U+200A, U+2028, U+2029, U+202F, U+205F, U+3000.
\<close>

definition whitespace :: "string list" where
  "whitespace =
     map (\<lambda>c. [c]) [CHR 0x09, CHR 0x0A, CHR 0x0B, CHR 0x0C, CHR 0x0D, CHR 0x1C, CHR 0x1D,
                   CHR 0x1E, CHR 0x1F, CHR 0x20] @
     [[CHR 0xC2, CHR 0x85], [CHR 0xC2, CHR 0xA0], [CHR 0xE1, CHR 0x9A, CHR 0x80]] @
     map (\<lambda>c. [CHR 0xE2, CHR 0x80, c])
       [CHR 0x80, CHR 0x81, CHR 0x82, CHR 0x83, CHR 0x84, CHR 0x85, CHR 0x86, CHR 0x87,
        CHR 0x88, CHR 0x89, CHR 0x8A, CHR 0xA8, CHR 0xA9, CHR 0xAF] @
     [[CHR 0xE2, CHR 0x81, CHR 0x9F], [CHR 0xE3, CHR 0x80, CHR 0x80]]"

text \<open>Dropping from the front of a text, as long as one of the given texts starts it.\<close>

function strip_front :: "string list \<Rightarrow> string \<Rightarrow> string" where
  "strip_front ws s =
     (case filter (\<lambda>w. w \<noteq> [] \<and> starts_with w s) ws of
        [] \<Rightarrow> s
      | w # _ \<Rightarrow> strip_front ws (drop (length w) s))"
  by pat_completeness auto
termination
proof (relation "measure (\<lambda>(ws, s). length s)")
  show "wf (measure (\<lambda>(ws, s). length s))" by simp
next
  fix ws :: "string list" and s w :: string and rest
  assume "filter (\<lambda>w. w \<noteq> [] \<and> starts_with w s) ws = w # rest"
  then have "w \<in> set (filter (\<lambda>w. w \<noteq> [] \<and> starts_with w s) ws)" by simp
  then have "w \<noteq> []" and "starts_with w s" by auto
  then have "s \<noteq> []" by (auto simp: starts_with_def)
  with \<open>w \<noteq> []\<close> show "((ws, drop (length w) s), (ws, s)) \<in> measure (\<lambda>(ws, s). length s)"
    by simp
qed

definition lstrip :: "string \<Rightarrow> string" where
  "lstrip s = strip_front whitespace s"

definition rstrip :: "string \<Rightarrow> string" where
  "rstrip s = rev (strip_front (map rev whitespace) (rev s))"

definition strip :: "string \<Rightarrow> string" where
  "strip s = rstrip (lstrip s)"

text \<open>
  The text before the first occurrence of a separator (all of it when there is none) and
  the text after it (none when there is none).
\<close>

definition text_before :: "string \<Rightarrow> string \<Rightarrow> string" where
  "text_before sep s = (case py_find sep s of None \<Rightarrow> s | Some i \<Rightarrow> take i s)"

definition text_after :: "string \<Rightarrow> string \<Rightarrow> string" where
  "text_after sep s = (case py_find sep s of None \<Rightarrow> [] | Some i \<Rightarrow> drop (i + length sep) s)"

text \<open>\<open>sep.join(parts)\<close>.\<close>

fun join :: "string \<Rightarrow> string list \<Rightarrow> string" where
  "join sep [] = []"
| "join sep [p] = p"
| "join sep (p # q # ps) = p @ sep @ join sep (q # ps)"

text \<open>\<open>xs[:n]\<close>: the first \<open>n\<close> elements, or all but the last \<open>-n\<close> when \<open>n\<close> is negative.\<close>

definition slice_to :: "int \<Rightarrow> 'a list \<Rightarrow> 'a list" where
  "slice_to n xs = (if 0 \<le> n then take (nat n) xs else take (length xs - nat (- n)) xs)"

section \<open>Library functions: dynamic values\<close>

text \<open>
  \<open>d.get(key, default)\<close>: only a dict has the method. A dict is kept as the list of its
  items; the first item with the key counts.
\<close>

fun py_type_name :: "pyval \<Rightarrow> string" where
  "py_type_name PNone = ''NoneType''"
| "py_type_name (PBool b) = ''bool''"
| "py_type_name (PInt i) = ''int''"
| "py_type_name (PFloat r) = ''float''"
| "py_type_name (PStr s) = ''str''"
| "py_type_name (PList xs) = ''list''"
| "py_type_name (PDict kvs) = ''dict''"

definition py_get :: "pyval \<Rightarrow> string \<Rightarrow> pyval \<Rightarrow> error + pyval" where
  "py_get d k dflt =
     (case d of
        PDict kvs \<Rightarrow> Inr (case map_of kvs k of None \<Rightarrow> dflt | Some v \<Rightarrow> v)
      | _ \<Rightarrow> Inl (AttributeError
                 ([CHR 0x27] @ py_type_name d @ [CHR 0x27] @ '' object has no attribute ''
                  @ [CHR 0x27] @ ''get'' @ [CHR 0x27])))"

text \<open>The value that \<open>get\<close> returns on a dict with the items \<open>kvs\<close>.\<close>

definition dict_get :: "(string \<times> pyval) list \<Rightarrow> string \<Rightarrow> pyval \<Rightarrow> pyval" where
  "dict_get kvs k dflt = (case map_of kvs k of None \<Rightarrow> dflt | Some v \<Rightarrow> v)"

text \<open>
  The elements a \<open>for\<close> loop runs through: those of a list, the keys of a dict, the
  characters of a text (here one per byte; none of them is a dict); anything else is not
  iterable.
\<close>

definition py_iter :: "pyval \<Rightarrow> error + pyval list" where
  "py_iter v =
     (case v of
        PList xs \<Rightarrow> Inr xs
      | PDict kvs \<Rightarrow> Inr (map (\<lambda>(k, _). PStr k) kvs)
      | PStr s \<Rightarrow> Inr (map (\<lambda>c. PStr [c]) s)
      | _ \<Rightarrow> Inl (TypeError ([CHR 0x27] @ py_type_name v @ [CHR 0x27]
                                @ '' object is not iterable'')))"

section \<open>The cache service (app/services/cache\_service.py)\<close>

text \<open>
  What the service and its surroundings hold during a run. The service's own fields:
  \<open>_enabled\<close>, whether a Redis URL is configured, whether \<open>_redis\<close> holds a client, and
  \<open>_memory_cache\<close>, whose entries are a value and an expiry time. Outside the service: the
  Redis server (whether it answers, and its keys with their values and expiry times), the
  clock \<open>time.time()\<close> in seconds, the default time-to-live of the settings, and the number
  of calls each external provider and the text-generation engine have received.
  Values are stored as they are: \<open>pickle\<close> is taken to give back what it was given.
\<close>

record mem_entry =
  e_value :: "item list"
  e_expires :: int

record world =
  cache_enabled :: bool
  redis_url :: bool
  redis_client :: bool
  memory_cache :: "string \<rightharpoonup> mem_entry"
  redis_up :: bool
  redis_data :: "string \<rightharpoonup> item list \<times> int"
  now :: int
  cache_ttl_default :: int
  poi_calls :: nat
  weather_calls :: nat
  hotel_calls :: nat
  llm_calls :: nat

text \<open>
  \<open>_get_redis\<close>: no client when the cache is disabled; a first use connects and pings the
  server, and keeps no client when that fails. The result says whether there is a client.
\<close>

definition get_redis :: "world \<Rightarrow> bool \<times> world" where
  "get_redis w =
     (if \<not> cache_enabled w then (False, w)
      else if \<not> redis_client w \<and> redis_url w
      then (if redis_up w then (True, w \<lparr> redis_client := True \<rparr>) else (False, w))
      else (redis_client w, w))"

text \<open>
  The two commands the service sends. A server that does not answer raises; \<open>GET\<close> does
  not return a key whose time has run out; \<open>SETEX\<close> refuses a time that is not positive.
\<close>

definition redis_get :: "string \<Rightarrow> world \<Rightarrow> error + item list option" where
  "redis_get k w =
     (if \<not> redis_up w then Inl (Raised ''Error connecting to Redis'')
      else case redis_data w k of
             None \<Rightarrow> Inr None
           | Some (v, expires) \<Rightarrow> Inr (if now w < expires then Some v else None))"

definition redis_setex :: "string \<Rightarrow> int \<Rightarrow> item list \<Rightarrow> world \<Rightarrow> error + world" where
  "redis_setex k ttl v w =
     (if \<not> redis_up w then Inl (Raised ''Error connecting to Redis'')
      else if ttl \<le> 0 then Inl (Raised ''invalid expire time in setex'')
      else Inr (w \<lparr> redis_data := (redis_data w)(k \<mapsto> (v, now w + ttl)) \<rparr>))"

text \<open>
  \<open>CacheService.get\<close>. Redis is asked first; without an answer from it the in-memory
  dict is read, and of an entry only its value. Every exception is caught and gives
  \<open>None\<close>.
\<close>

definition CacheService_get :: "string \<Rightarrow> world \<Rightarrow> item list option \<times> world" where
  "CacheService_get k w =
     (if \<not> cache_enabled w then (None, w)
      else
        let (client, w1) = get_redis w;
            from_memory = (case memory_cache w1 k of None \<Rightarrow> None | Some e \<Rightarrow> Some (e_value e))
        in if client
           then (case redis_get k w1 of
                   Inl e \<Rightarrow> (None, w1)
                 | Inr (Some v) \<Rightarrow> (Some v, w1)
                 | Inr None \<Rightarrow> (from_memory, w1))
           else (from_memory, w1))"

text \<open>
  \<open>CacheService.set\<close>. \<open>ttl or default\<close> replaces a missing or zero time-to-live. With a
  Redis client the value goes to Redis only; without one it goes to the in-memory dict,
  with the time at which it should expire. Every exception is caught and gives \<open>False\<close>.
\<close>

definition CacheService_set ::
  "string \<Rightarrow> item list \<Rightarrow> int option \<Rightarrow> world \<Rightarrow> bool \<times> world" where
  "CacheService_set k v ttl w =
     (if \<not> cache_enabled w then (False, w)
      else
        let ttl' = (case ttl of None \<Rightarrow> cache_ttl_default w
                    | Some t \<Rightarrow> if t = 0 then cache_ttl_default w else t);
            (client, w1) = get_redis w
        in if client
           then (case redis_setex k ttl' v w1 of
                   Inl e \<Rightarrow> (False, w1)
                 | Inr w2 \<Rightarrow> (True, w2))
           else (True, w1 \<lparr> memory_cache :=
                              (memory_cache w1)(k \<mapsto> \<lparr> e_value = v, e_expires = now w1 + ttl' \<rparr>) \<rparr>))"

text \<open>
  The service is on its in-memory path when it is enabled and \<open>_get_redis\<close> finds no
  client: none is held, and no URL is configured or the server does not answer.
\<close>

definition memory_path :: "world \<Rightarrow> bool" where
  "memory_path w = (cache_enabled w \<and> \<not> redis_client w \<and> (\<not> redis_url w \<or> \<not> redis_up w))"

text \<open>A world with nothing cached, no Redis, and no call made yet.\<close>

definition fresh_world :: world where
  "fresh_world =
     \<lparr> cache_enabled = True, redis_url = False, redis_client = False,
       memory_cache = Map.empty, redis_up = False, redis_data = Map.empty, now = 0,
       cache_ttl_default = 3600, poi_calls = 0, weather_calls = 0, hotel_calls = 0,
       llm_calls = 0 \<rparr>"

section \<open>The external services\<close>

text \<open>
  The steps reach the cache, the providers (the tools \<open>search_poi\<close>, \<open>query_weather\<close> and
  \<open>search_hotels\<close>) and the text-generation engine through calls that may change the
  world and may raise. The steps are defined over any such operations; the operations
  of this system are \<open>the_services\<close> below. \<open>json_loads\<close> is the standard library's JSON
  decoder, \<open>str_other\<close> the library's \<open>str\<close> of a value that is neither a text nor an
  integer, \<open>None\<close> or a truth value, and \<open>elapsed_ms\<close> the time since the step started,
  read off the clock in the world reached.
\<close>

record 'w services =
  cache_get :: "string \<Rightarrow> 'w \<Rightarrow> (error + item list option) \<times> 'w"
  cache_set :: "string \<Rightarrow> item list \<Rightarrow> int option \<Rightarrow> 'w \<Rightarrow> (error + bool) \<times> 'w"
  search_poi :: "string \<Rightarrow> string \<Rightarrow> 'w \<Rightarrow> (error + string) \<times> 'w"
  query_weather :: "string \<Rightarrow> 'w \<Rightarrow> (error + string) \<times> 'w"
  search_hotels :: "string \<Rightarrow> string \<Rightarrow> 'w \<Rightarrow> (error + string) \<times> 'w"
  llm_invoke :: "string \<Rightarrow> string \<Rightarrow> 'w \<Rightarrow> (error + string) \<times> 'w"
  json_loads :: "string \<Rightarrow> error + pyval"
  str_other :: "pyval \<Rightarrow> string"
  elapsed_ms :: "'w \<Rightarrow> int"

text \<open>\<open>str(v)\<close>, as an f-string renders a value.\<close>

definition py_str :: "'w services \<Rightarrow> pyval \<Rightarrow> string" where
  "py_str svc v =
     (case v of
        PStr s \<Rightarrow> s
      | PInt i \<Rightarrow> str_of_int i
      | PNone \<Rightarrow> ''None''
      | PBool b \<Rightarrow> (if b then ''True'' else ''False'')
      | _ \<Rightarrow> str_other svc v)"

text \<open>\<open>if xs:\<close> for a value that is \<open>None\<close> or a list.\<close>

definition truthy :: "'a list option \<Rightarrow> bool" where
  "truthy v = (case v of None \<Rightarrow> False | Some xs \<Rightarrow> xs \<noteq> [])"

section \<open>The data-gathering steps (app/agents/nodes)\<close>

definition zh_attraction :: string where
  \<comment> \<open>the default search keyword and the default type of an attraction\<close>
  "zh_attraction =
     [CHR 0xE6, CHR 0x99, CHR 0xAF, CHR 0xE7, CHR 0x82, CHR 0xB9]"

definition zh_hotel :: string where
  \<comment> \<open>the default search keyword and the default type of a hotel\<close>
  "zh_hotel =
     [CHR 0xE9, CHR 0x85, CHR 0x92, CHR 0xE5, CHR 0xBA, CHR 0x97]"

text \<open>
  The three dicts a step returns: after a cache hit or a provider answer, and after an
  exception. \<open>put\<close> is \<open>{**state.get(key, {}), step: value}\<close>.
\<close>

definition put :: "('k \<rightharpoonup> 'v) option \<Rightarrow> 'k \<Rightarrow> 'v \<Rightarrow> ('k \<rightharpoonup> 'v) option" where
  "put d k v = Some ((get_map d)(k \<mapsto> v))"

subsection \<open>attraction\_node\<close>

definition parse_poi :: "'w services \<Rightarrow> pyval \<Rightarrow> error + item" where
  "parse_poi svc poi =
     (case py_get poi ''location'' (PDict []) of Inl e \<Rightarrow> Inl e | Inr location \<Rightarrow>
     (case py_get poi ''name'' (PStr []) of Inl e \<Rightarrow> Inl e | Inr name \<Rightarrow>
     (case py_get poi ''address'' (PStr []) of Inl e \<Rightarrow> Inl e | Inr address \<Rightarrow>
     (case py_get location ''longitude'' (PInt 0) of Inl e \<Rightarrow> Inl e | Inr lon \<Rightarrow>
     (case py_get location ''latitude'' (PInt 0) of Inl e \<Rightarrow> Inl e | Inr lat \<Rightarrow>
     (case py_get poi ''type'' (PStr zh_attraction) of Inl e \<Rightarrow> Inl e | Inr type \<Rightarrow>
     (case py_get poi ''id'' (PStr []) of Inl e \<Rightarrow> Inl e | Inr ident \<Rightarrow>
        Inr (IAttraction
          \<lparr> a_name = name,
            a_address = address,
            a_location = \<lparr> longitude = lon, latitude = lat \<rparr>,
            a_visit_duration = PInt 120,
            a_description = PStr (py_str svc type @ '' - '' @ py_str svc address),
            a_category = Some type,
            a_poi_id = Some ident,
            a_ticket_price = None \<rparr>))))))))"

definition parse_pois :: "'w services \<Rightarrow> pyval \<Rightarrow> error + item list" where
  "parse_pois svc result =
     (case py_get result ''pois'' (PList []) of Inl e \<Rightarrow> Inl e | Inr pois \<Rightarrow>
     (case py_iter pois of Inl e \<Rightarrow> Inl e | Inr ps \<Rightarrow> collect (map (parse_poi svc) ps)))"

definition attraction_done ::
  "'w services \<Rightarrow> TripPlanningState \<Rightarrow> item list \<Rightarrow> 'w \<Rightarrow> TripPlanningState" where
  "attraction_done svc state found w =
     no_keys \<lparr> attractions := Some found,
       node_status := put (node_status state) ''search_attractions'' ''completed'',
       node_timings := put (node_timings state) ''search_attractions'' (elapsed_ms svc w) \<rparr>"

definition attraction_failed ::
  "'w services \<Rightarrow> TripPlanningState \<Rightarrow> error \<Rightarrow> 'w \<Rightarrow> TripPlanningState" where
  "attraction_failed svc state e w =
     no_keys \<lparr> attractions := Some [],
       node_status := put (node_status state) ''search_attractions'' ''failed'',
       node_errors := put (node_errors state) ''search_attractions'' (str_of_error e),
       node_timings := put (node_timings state) ''search_attractions'' (elapsed_ms svc w) \<rparr>"

text \<open>
  The \<open>try\<close> block: the dict it returns, or the exception it raises. The step itself
  reads the request before the block, and returns the dict of the handler when the block
  raises.
\<close>

definition attraction_keywords :: "TripRequest \<Rightarrow> string" where
  "attraction_keywords req = (case preferences req of [] \<Rightarrow> zh_attraction | k # _ \<Rightarrow> k)"

definition attraction_cache_key :: "TripRequest \<Rightarrow> string" where
  "attraction_cache_key req = ''attractions:'' @ city req @ '':'' @ attraction_keywords req"

definition attraction_try ::
  "'w services \<Rightarrow> TripPlanningState \<Rightarrow> TripRequest \<Rightarrow> 'w
     \<Rightarrow> (error + TripPlanningState) \<times> 'w" where
  "attraction_try svc state req w =
     (let keywords = attraction_keywords req;
          cache_key = attraction_cache_key req
      in
          (case cache_get svc cache_key w of
             (Inl e, w1) \<Rightarrow> (Inl e, w1)
           | (Inr cached, w1) \<Rightarrow>
               if truthy cached then (Inr (attraction_done svc state (the cached) w1), w1)
               else
          (case search_poi svc keywords (city req) w1 of
             (Inl e, w2) \<Rightarrow> (Inl e, w2)
           | (Inr result_str, w2) \<Rightarrow>
          (case json_loads svc result_str of
             Inl e \<Rightarrow> (Inl e, w2)
           | Inr result \<Rightarrow>
          (case parse_pois svc result of
             Inl e \<Rightarrow> (Inl e, w2)
           | Inr found \<Rightarrow>
          (case cache_set svc cache_key found (Some 7200) w2 of
             (Inl e, w3) \<Rightarrow> (Inl e, w3)
           | (Inr _, w3) \<Rightarrow> (Inr (attraction_done svc state found w3), w3)))))))"

definition attraction_node ::
  "'w services \<Rightarrow> TripPlanningState \<Rightarrow> 'w \<Rightarrow> (error + TripPlanningState) \<times> 'w" where
  "attraction_node svc state w =
     (case request state of
        None \<Rightarrow> (Inl (KeyError (quoted ''request'')), w)
      | Some req \<Rightarrow>
          (case attraction_try svc state req w of
             (Inl e, w') \<Rightarrow> (Inr (attraction_failed svc state e w'), w')
           | (Inr u, w') \<Rightarrow> (Inr u, w')))"

subsection \<open>weather\_node\<close>

definition parse_forecast_day :: "pyval \<Rightarrow> error + item" where
  "parse_forecast_day d =
     (case py_get d ''date'' (PStr []) of Inl e \<Rightarrow> Inl e | Inr date \<Rightarrow>
     (case py_get d ''day_weather'' (PStr []) of Inl e \<Rightarrow> Inl e | Inr day_weather \<Rightarrow>
     (case py_get d ''night_weather'' (PStr []) of Inl e \<Rightarrow> Inl e | Inr night_weather \<Rightarrow>
     (case py_get d ''day_temp'' (PInt 0) of Inl e \<Rightarrow> Inl e | Inr day_temp \<Rightarrow>
     (case py_get d ''night_temp'' (PInt 0) of Inl e \<Rightarrow> Inl e | Inr night_temp \<Rightarrow>
     (case py_get d ''wind_direction'' (PStr []) of Inl e \<Rightarrow> Inl e | Inr wind_direction \<Rightarrow>
     (case py_get d ''wind_power'' (PStr []) of Inl e \<Rightarrow> Inl e | Inr wind_power \<Rightarrow>
        Inr (IWeather
          \<lparr> w_date = date, w_day_weather = day_weather, w_night_weather = night_weather,
            w_day_temp = day_temp, w_night_temp = night_temp,
            w_wind_direction = wind_direction, w_wind_power = wind_power \<rparr>))))))))"

definition parse_forecast :: "pyval \<Rightarrow> error + item list" where
  "parse_forecast result =
     (case py_get result ''forecast'' (PList []) of Inl e \<Rightarrow> Inl e | Inr forecast \<Rightarrow>
     (case py_iter forecast of Inl e \<Rightarrow> Inl e | Inr ds \<Rightarrow> collect (map parse_forecast_day ds)))"

definition weather_done ::
  "'w services \<Rightarrow> TripPlanningState \<Rightarrow> item list \<Rightarrow> 'w \<Rightarrow> TripPlanningState" where
  "weather_done svc state found w =
     no_keys \<lparr> weather := Some found,
       node_status := put (node_status state) ''query_weather'' ''completed'',
       node_timings := put (node_timings state) ''query_weather'' (elapsed_ms svc w) \<rparr>"

definition weather_failed ::
  "'w services \<Rightarrow> TripPlanningState \<Rightarrow> error \<Rightarrow> 'w \<Rightarrow> TripPlanningState" where
  "weather_failed svc state e w =
     no_keys \<lparr> weather := Some [],
       node_status := put (node_status state) ''query_weather'' ''failed'',
       node_errors := put (node_errors state) ''query_weather'' (str_of_error e),
       node_timings := put (node_timings state) ''query_weather'' (elapsed_ms svc w) \<rparr>"

text \<open>
  The \<open>try\<close> block: the dict it returns, or the exception it raises. The step itself
  reads the request before the block, and returns the dict of the handler when the block
  raises.
\<close>

definition weather_cache_key :: "TripRequest \<Rightarrow> string" where
  "weather_cache_key req = ''weather:'' @ city req"

definition weather_try ::
  "'w services \<Rightarrow> TripPlanningState \<Rightarrow> TripRequest \<Rightarrow> 'w
     \<Rightarrow> (error + TripPlanningState) \<times> 'w" where
  "weather_try svc state req w =
     (let cache_key = weather_cache_key req
      in
          (case cache_get svc cache_key w of
             (Inl e, w1) \<Rightarrow> (Inl e, w1)
           | (Inr cached, w1) \<Rightarrow>
               if truthy cached then (Inr (weather_done svc state (the cached) w1), w1)
               else
          (case query_weather svc (city req) w1 of
             (Inl e, w2) \<Rightarrow> (Inl e, w2)
           | (Inr result_str, w2) \<Rightarrow>
          (case json_loads svc result_str of
             Inl e \<Rightarrow> (Inl e, w2)
           | Inr result \<Rightarrow>
          (case parse_forecast result of
             Inl e \<Rightarrow> (Inl e, w2)
           | Inr found \<Rightarrow>
          (case cache_set svc cache_key found (Some 1800) w2 of
             (Inl e, w3) \<Rightarrow> (Inl e, w3)
           | (Inr _, w3) \<Rightarrow> (Inr (weather_done svc state found w3), w3)))))))"

definition weather_node ::
  "'w services \<Rightarrow> TripPlanningState \<Rightarrow> 'w \<Rightarrow> (error + TripPlanningState) \<times> 'w" where
  "weather_node svc state w =
     (case request state of
        None \<Rightarrow> (Inl (KeyError (quoted ''request'')), w)
      | Some req \<Rightarrow>
          (case weather_try svc state req w of
             (Inl e, w') \<Rightarrow> (Inr (weather_failed svc state e w'), w')
           | (Inr u, w') \<Rightarrow> (Inr u, w')))"

subsection \<open>hotel\_node\<close>

definition parse_hotel_poi :: "pyval \<Rightarrow> error + item" where
  "parse_hotel_poi h =
     (case py_get h ''location'' (PDict []) of Inl e \<Rightarrow> Inl e | Inr location \<Rightarrow>
     (case py_get h ''name'' (PStr []) of Inl e \<Rightarrow> Inl e | Inr name \<Rightarrow>
     (case py_get h ''address'' (PStr []) of Inl e \<Rightarrow> Inl e | Inr address \<Rightarrow>
     (case py_get location ''longitude'' (PInt 0) of Inl e \<Rightarrow> Inl e | Inr lon \<Rightarrow>
     (case py_get location ''latitude'' (PInt 0) of Inl e \<Rightarrow> Inl e | Inr lat \<Rightarrow>
     (case py_get h ''type'' (PStr zh_hotel) of Inl e \<Rightarrow> Inl e | Inr type \<Rightarrow>
        Inr (IHotel
          \<lparr> h_name = name, h_address = address,
            h_location = Some \<lparr> longitude = lon, latitude = lat \<rparr>,
            h_type = Some type, h_price_range = Some (PStr []), h_rating = Some (PStr []),
            h_distance = Some (PStr []), h_estimated_cost = None \<rparr>)))))))"

definition parse_hotels :: "pyval \<Rightarrow> error + item list" where
  "parse_hotels result =
     (case py_get result ''hotels'' (PList []) of Inl e \<Rightarrow> Inl e | Inr hs \<Rightarrow>
     (case py_iter hs of Inl e \<Rightarrow> Inl e | Inr hs' \<Rightarrow> collect (map parse_hotel_poi hs')))"

definition hotel_done ::
  "'w services \<Rightarrow> TripPlanningState \<Rightarrow> item list \<Rightarrow> 'w \<Rightarrow> TripPlanningState" where
  "hotel_done svc state found w =
     no_keys \<lparr> hotels := Some found,
       node_status := put (node_status state) ''search_hotels'' ''completed'',
       node_timings := put (node_timings state) ''search_hotels'' (elapsed_ms svc w) \<rparr>"

definition hotel_failed ::
  "'w services \<Rightarrow> TripPlanningState \<Rightarrow> error \<Rightarrow> 'w \<Rightarrow> TripPlanningState" where
  "hotel_failed svc state e w =
     no_keys \<lparr> hotels := Some [],
       node_status := put (node_status state) ''search_hotels'' ''failed'',
       node_errors := put (node_errors state) ''search_hotels'' (str_of_error e),
       node_timings := put (node_timings state) ''search_hotels'' (elapsed_ms svc w) \<rparr>"

text \<open>
  The \<open>try\<close> block: the dict it returns, or the exception it raises. The step itself
  reads the request before the block, and returns the dict of the handler when the block
  raises.
\<close>

definition hotel_keywords :: "TripRequest \<Rightarrow> string" where
  "hotel_keywords req = (if accommodation req = [] then zh_hotel else accommodation req)"

definition hotel_cache_key :: "TripRequest \<Rightarrow> string" where
  "hotel_cache_key req = ''hotels:'' @ city req @ '':'' @ accommodation req"

definition hotel_try ::
  "'w services \<Rightarrow> TripPlanningState \<Rightarrow> TripRequest \<Rightarrow> 'w
     \<Rightarrow> (error + TripPlanningState) \<times> 'w" where
  "hotel_try svc state req w =
     (let cache_key = hotel_cache_key req
      in
          (case cache_get svc cache_key w of
             (Inl e, w1) \<Rightarrow> (Inl e, w1)
           | (Inr cached, w1) \<Rightarrow>
               if truthy cached then (Inr (hotel_done svc state (the cached) w1), w1)
               else
          (case search_hotels svc (city req) (hotel_keywords req) w1 of
             (Inl e, w2) \<Rightarrow> (Inl e, w2)
           | (Inr result_str, w2) \<Rightarrow>
          (case json_loads svc result_str of
             Inl e \<Rightarrow> (Inl e, w2)
           | Inr result \<Rightarrow>
          (case parse_hotels result of
             Inl e \<Rightarrow> (Inl e, w2)
           | Inr found \<Rightarrow>
          (case cache_set svc cache_key found (Some 7200) w2 of
             (Inl e, w3) \<Rightarrow> (Inl e, w3)
           | (Inr _, w3) \<Rightarrow> (Inr (hotel_done svc state found w3), w3)))))))"

definition hotel_node ::
  "'w services \<Rightarrow> TripPlanningState \<Rightarrow> 'w \<Rightarrow> (error + TripPlanningState) \<times> 'w" where
  "hotel_node svc state w =
     (case request state of
        None \<Rightarrow> (Inl (KeyError (quoted ''request'')), w)
      | Some req \<Rightarrow>
          (case hotel_try svc state req w of
             (Inl e, w') \<Rightarrow> (Inr (hotel_failed svc state e w'), w')
           | (Inr u, w') \<Rightarrow> (Inr u, w')))"

section \<open>The steps by name, and the services of this system\<close>

text \<open>The data-gathering steps under the names the graph registers them with.\<close>

definition run_step ::
  "'w services \<Rightarrow> string \<Rightarrow> TripPlanningState \<Rightarrow> 'w \<Rightarrow> (error + TripPlanningState) \<times> 'w" where
  "run_step svc step =
     (if step = ''search_attractions'' then attraction_node svc
      else if step = ''query_weather'' then weather_node svc
      else hotel_node svc)"

text \<open>The key of the state under which a step returns its result list.\<close>

definition result_list :: "string \<Rightarrow> TripPlanningState \<Rightarrow> item list option" where
  "result_list step u =
     (if step = ''search_attractions'' then attractions u
      else if step = ''query_weather'' then weather u
      else hotels u)"

text \<open>
  The operations of a step's \<open>try\<close> block, in the order it performs them: the cache
  lookup under the step's key; then, unless the lookup gave a list that is not empty, the
  provider call, the decoding and conversion of its answer, and the cache write.
\<close>

definition step_cache_key :: "string \<Rightarrow> TripRequest \<Rightarrow> string" where
  "step_cache_key step req =
     (if step = ''search_attractions'' then attraction_cache_key req
      else if step = ''query_weather'' then weather_cache_key req
      else hotel_cache_key req)"

definition step_provider ::
  "'w services \<Rightarrow> string \<Rightarrow> TripRequest \<Rightarrow> 'w \<Rightarrow> (error + string) \<times> 'w" where
  "step_provider svc step req =
     (if step = ''search_attractions'' then search_poi svc (attraction_keywords req) (city req)
      else if step = ''query_weather'' then query_weather svc (city req)
      else search_hotels svc (city req) (hotel_keywords req))"

definition step_convert :: "'w services \<Rightarrow> string \<Rightarrow> pyval \<Rightarrow> error + item list" where
  "step_convert svc step result =
     (if step = ''search_attractions'' then parse_pois svc result
      else if step = ''query_weather'' then parse_forecast result
      else parse_hotels result)"

text \<open>
  The time-to-live of each step's cache entries according to the specification: two hours
  for attractions and lodging, thirty minutes for weather.
\<close>

definition step_ttl :: "string \<Rightarrow> int" where
  "step_ttl step = (if step = ''query_weather'' then 30 * 60 else 2 * 60 * 60)"

text \<open>
  An operation of the step throws \<open>e\<close>: the cache lookup does; or the lookup gives no list
  (or an empty one) and the provider call does; or the provider answers and the decoding
  or the conversion of the answer does; or these succeed and the cache write does.
\<close>

definition step_raises :: "'w services \<Rightarrow> string \<Rightarrow> TripRequest \<Rightarrow> 'w \<Rightarrow> error \<Rightarrow> bool" where
  "step_raises svc step req w e =
     (let looked = cache_get svc (step_cache_key step req) w in
      fst looked = Inl e \<or>
      (\<not> isl (fst looked) \<and> \<not> truthy (projr (fst looked)) \<and>
       (let called = step_provider svc step req (snd looked) in
        fst called = Inl e \<or>
        (\<not> isl (fst called) \<and>
         (let decoded = json_loads svc (projr (fst called)) in
          decoded = Inl e \<or>
          (\<not> isl decoded \<and>
           (let converted = step_convert svc step (projr decoded) in
            converted = Inl e \<or>
            (\<not> isl converted \<and>
             fst (cache_set svc (step_cache_key step req) (projr converted)
                    (Some (step_ttl step)) (snd called)) = Inl e))))))))"

text \<open>
  The providers and the engine answer a call with a text or an exception; the answer may
  depend on how many calls came before. The cache of this system is the cache service,
  whose operations catch every exception.
\<close>

record answers =
  poi_answer :: "nat \<Rightarrow> string \<Rightarrow> string \<Rightarrow> error + string"
  weather_answer :: "nat \<Rightarrow> string \<Rightarrow> error + string"
  hotel_answer :: "nat \<Rightarrow> string \<Rightarrow> string \<Rightarrow> error + string"
  llm_answer :: "nat \<Rightarrow> string \<Rightarrow> string \<Rightarrow> error + string"
  decode :: "string \<Rightarrow> error + pyval"
  render :: "pyval \<Rightarrow> string"
  measured :: "world \<Rightarrow> int"

definition the_services :: "answers \<Rightarrow> world services" where
  "the_services a =
     \<lparr> cache_get = (\<lambda>k w. (Inr (fst (CacheService_get k w)), snd (CacheService_get k w))),
       cache_set = (\<lambda>k v ttl w.
          (Inr (fst (CacheService_set k v ttl w)), snd (CacheService_set k v ttl w))),
       search_poi = (\<lambda>keywords c w.
          (poi_answer a (poi_calls w) keywords c, w \<lparr> poi_calls := Suc (poi_calls w) \<rparr>)),
       query_weather = (\<lambda>c w.
          (weather_answer a (weather_calls w) c, w \<lparr> weather_calls := Suc (weather_calls w) \<rparr>)),
       search_hotels = (\<lambda>c keywords w.
          (hotel_answer a (hotel_calls w) c keywords, w \<lparr> hotel_calls := Suc (hotel_calls w) \<rparr>)),
       llm_invoke = (\<lambda>system human w.
          (llm_answer a (llm_calls w) system human, w \<lparr> llm_calls := Suc (llm_calls w) \<rparr>)),
       json_loads = decode a,
       str_other = render a,
       elapsed_ms = measured a \<rparr>"

text \<open>The number of calls the provider of a step has received.\<close>

definition provider_calls :: "string \<Rightarrow> world \<Rightarrow> nat" where
  "provider_calls step w =
     (if step = ''search_attractions'' then poi_calls w
      else if step = ''query_weather'' then weather_calls w
      else hotel_calls w)"

text \<open>
  The cache backend answers: the service is on its in-memory path, or Redis is up and the
  service has, or can get, a client for it.
\<close>

definition redis_path :: "world \<Rightarrow> bool" where
  "redis_path w = (cache_enabled w \<and> redis_up w \<and> (redis_client w \<or> redis_url w))"

definition cache_ready :: "world \<Rightarrow> bool" where
  "cache_ready w = (memory_path w \<or> redis_path w)"

text \<open>
  Answers for examples: a JSON decoder that knows three texts, a provider of points of
  interest that finds one place, a weather provider with an empty forecast, and a lodging
  provider and an engine that are down.
\<close>

definition example_answers :: answers where
  "example_answers =
     \<lparr> poi_answer = (\<lambda>n keywords c. Inr ''one''),
       weather_answer = (\<lambda>n c. Inr ''none''),
       hotel_answer = (\<lambda>n c keywords. Inl (Raised ''provider down'')),
       llm_answer = (\<lambda>n system human. Inl (Raised ''engine down'')),
       decode = (\<lambda>s. if s = ''one''
                  then Inr (PDict [(''pois'', PList [PDict [(''name'', PStr ''Forbidden City'')]])])
                  else if s = ''none'' then Inr (PDict [(''forecast'', PList [])])
                  else if s = ''{}'' then Inr (PDict [])
                  else Inl (ValueError ''Expecting value'')),
       render = (\<lambda>v. ''?''),
       measured = (\<lambda>w. 5) \<rparr>"

text \<open>The time until which the cache backend in use keeps a key.\<close>

definition cached_until :: "world \<Rightarrow> string \<Rightarrow> int option" where
  "cached_until w k =
     (if redis_client w then map_option snd (redis_data w k)
      else map_option e_expires (memory_cache w k))"

text \<open>
  The state a run starts from for the request of the scenario, and the attraction that the
  example provider's answer is converted to.
\<close>

definition beijing_state :: TripPlanningState where
  "beijing_state = create_initial_state None beijing_request"

definition forbidden_city :: item where
  "forbidden_city =
     IAttraction
       \<lparr> a_name = PStr ''Forbidden City'', a_address = PStr [],
         a_location = \<lparr> longitude = PInt 0, latitude = PInt 0 \<rparr>,
         a_visit_duration = PInt 120,
         a_description = PStr (zh_attraction @ '' - ''),
         a_category = Some (PStr zh_attraction),
         a_poi_id = Some (PStr []), a_ticket_price = None \<rparr>"

section \<open>The synthesis step (app/agents/nodes/planner\_node.py)\<close>

subsection \<open>The input of the engine\<close>

text \<open>The system instruction, and the literals of \<open>build_planner_input\<close>, as UTF-8 bytes.\<close>

definition PLANNER_SYSTEM_PROMPT :: string where
  "PLANNER_SYSTEM_PROMPT =
     [CHR 0xE4, CHR 0xBD, CHR 0xA0, CHR 0xE6, CHR 0x98, CHR 0xAF, CHR 0xE4, CHR 0xB8,
     CHR 0x93, CHR 0xE4, CHR 0xB8, CHR 0x9A, CHR 0xE7, CHR 0x9A, CHR 0x84, CHR 0xE8,
     CHR 0xA1, CHR 0x8C, CHR 0xE7, CHR 0xA8, CHR 0x8B, CHR 0xE8, CHR 0xA7, CHR 0x84,
     CHR 0xE5, CHR 0x88, CHR 0x92, CHR 0xE4, CHR 0xB8, CHR 0x93, CHR 0xE5, CHR 0xAE,
     CHR 0xB6, CHR 0xE3, CHR 0x80, CHR 0x82, CHR 0xE8, CHR 0xAF, CHR 0xB7, CHR 0xE6,
     CHR 0xA0, CHR 0xB9, CHR 0xE6, CHR 0x8D, CHR 0xAE, CHR 0xE6, CHR 0x8F, CHR 0x90,
     CHR 0xE4, CHR 0xBE, CHR 0x9B, CHR 0xE7, CHR 0x9A, CHR 0x84, CHR 0xE6, CHR 0x99,
     CHR 0xAF, CHR 0xE7, CHR 0x82, CHR 0xB9, CHR 0xE3, CHR 0x80, CHR 0x81, CHR 0xE5,
     CHR 0xA4, CHR 0xA9, CHR 0xE6, CHR 0xB0, CHR 0x94, CHR 0xE5, CHR 0x92, CHR 0x8C,
     CHR 0xE9, CHR 0x85, CHR 0x92, CHR 0xE5, CHR 0xBA, CHR 0x97, CHR 0xE4, CHR 0xBF,
     CHR 0xA1, CHR 0xE6, CHR 0x81, CHR 0xAF, CHR 0xEF, CHR 0xBC, CHR 0x8C, CHR 0xE7,
     CHR 0x94, CHR 0x9F, CHR 0xE6, CHR 0x88, CHR 0x90, CHR 0xE8, CHR 0xAF, CHR 0xA6,
     CHR 0xE7, CHR 0xBB, CHR 0x86, CHR 0xE7, CHR 0x9A, CHR 0x84, CHR 0xE6, CHR 0x97,
     CHR 0x85, CHR 0xE8, CHR 0xA1, CHR 0x8C, CHR 0xE8, CHR 0xAE, CHR 0xA1, CHR 0xE5,
     CHR 0x88, CHR 0x92, CHR 0xE3, CHR 0x80, CHR 0x82, CHR 0x0A, CHR 0x0A, CHR 0xE8,
     CHR 0xA6, CHR 0x81, CHR 0xE6, CHR 0xB1, CHR 0x82, CHR 0xEF, CHR 0xBC, CHR 0x9A,
     CHR 0x0A] @ ''1. '' @ [CHR 0xE6, CHR 0xAF, CHR 0x8F, CHR 0xE5, CHR 0xA4, CHR 0xA9,
     CHR 0xE5, CHR 0xAE, CHR 0x89, CHR 0xE6, CHR 0x8E, CHR 0x92] @ ''2-3'' @ [CHR 0xE4,
     CHR 0xB8, CHR 0xAA, CHR 0xE6, CHR 0x99, CHR 0xAF, CHR 0xE7, CHR 0x82, CHR 0xB9,
     CHR 0xEF, CHR 0xBC, CHR 0x8C, CHR 0xE8, CHR 0x80, CHR 0x83, CHR 0xE8, CHR 0x99,
     CHR 0x91, CHR 0xE8, CHR 0xB7, CHR 0x9D, CHR 0xE7, CHR 0xA6, CHR 0xBB, CHR 0xE5,
     CHR 0x92, CHR 0x8C, CHR 0xE6, CHR 0xB8, CHR 0xB8, CHR 0xE8, CHR 0xA7, CHR 0x88,
     CHR 0xE6, CHR 0x97, CHR 0xB6, CHR 0xE9, CHR 0x97, CHR 0xB4, CHR 0x0A] @ ''2. '' @
     [CHR 0xE6, CHR 0xAF, CHR 0x8F, CHR 0xE5, CHR 0xA4, CHR 0xA9, CHR 0xE5, CHR 0x8C,
     CHR 0x85, CHR 0xE5, CHR 0x90, CHR 0xAB, CHR 0xE6, CHR 0x97, CHR 0xA9, CHR 0xE4,
     CHR 0xB8, CHR 0xAD, CHR 0xE6, CHR 0x99, CHR 0x9A, CHR 0xE4, CHR 0xB8, CHR 0x89,
     CHR 0xE9, CHR 0xA4, CHR 0x90, CHR 0xE6, CHR 0x8E, CHR 0xA8, CHR 0xE8, CHR 0x8D,
     CHR 0x90, CHR 0x0A] @ ''3. '' @ [CHR 0xE6, CHR 0xA0, CHR 0xB9, CHR 0xE6, CHR 0x8D,
     CHR 0xAE, CHR 0xE5, CHR 0xA4, CHR 0xA9, CHR 0xE6, CHR 0xB0, CHR 0x94, CHR 0xE8,
     CHR 0xB0, CHR 0x83, CHR 0xE6, CHR 0x95, CHR 0xB4, CHR 0xE6, CHR 0x88, CHR 0xB7,
     CHR 0xE5, CHR 0xA4, CHR 0x96, CHR 0xE6, CHR 0xB4, CHR 0xBB, CHR 0xE5, CHR 0x8A,
     CHR 0xA8, CHR 0xE5, CHR 0xAE, CHR 0x89, CHR 0xE6, CHR 0x8E, CHR 0x92, CHR 0x0A] @
     ''4. '' @ [CHR 0xE6, CHR 0x8E, CHR 0xA8, CHR 0xE8, CHR 0x8D, CHR 0x90, CHR 0xE5,
     CHR 0x90, CHR 0x88, CHR 0xE9, CHR 0x80, CHR 0x82, CHR 0xE7, CHR 0x9A, CHR 0x84,
     CHR 0xE9, CHR 0x85, CHR 0x92, CHR 0xE5, CHR 0xBA, CHR 0x97, CHR 0xEF, CHR 0xBC,
     CHR 0x88, CHR 0xE4, CHR 0xBB, CHR 0x8E, CHR 0xE6, CHR 0x8F, CHR 0x90, CHR 0xE4,
     CHR 0xBE, CHR 0x9B, CHR 0xE7, CHR 0x9A, CHR 0x84, CHR 0xE9, CHR 0x85, CHR 0x92,
     CHR 0xE5, CHR 0xBA, CHR 0x97, CHR 0xE5, CHR 0x88, CHR 0x97, CHR 0xE8, CHR 0xA1,
     CHR 0xA8, CHR 0xE4, CHR 0xB8, CHR 0xAD, CHR 0xE9, CHR 0x80, CHR 0x89, CHR 0xE6,
     CHR 0x8B, CHR 0xA9, CHR 0xEF, CHR 0xBC, CHR 0x89, CHR 0x0A] @ ''5. '' @ [CHR 0xE8,
     CHR 0xAE, CHR 0xA1, CHR 0xE7, CHR 0xAE, CHR 0x97, CHR 0xE9, CHR 0xA2, CHR 0x84,
     CHR 0xE7, CHR 0xAE, CHR 0x97, CHR 0xEF, CHR 0xBC, CHR 0x8C, CHR 0xE5, CHR 0x8C,
     CHR 0x85, CHR 0xE6, CHR 0x8B, CHR 0xAC, CHR 0xE9, CHR 0x97, CHR 0xA8, CHR 0xE7,
     CHR 0xA5, CHR 0xA8, CHR 0xE3, CHR 0x80, CHR 0x81, CHR 0xE9, CHR 0xA4, CHR 0x90,
     CHR 0xE9, CHR 0xA5, CHR 0xAE, CHR 0xE3, CHR 0x80, CHR 0x81, CHR 0xE4, CHR 0xBD,
     CHR 0x8F, CHR 0xE5, CHR 0xAE, CHR 0xBF, CHR 0xE3, CHR 0x80, CHR 0x81, CHR 0xE4,
     CHR 0xBA, CHR 0xA4, CHR 0xE9, CHR 0x80, CHR 0x9A, CHR 0x0A, CHR 0x0A, CHR 0xE8,
     CHR 0xBE, CHR 0x93, CHR 0xE5, CHR 0x87, CHR 0xBA, CHR 0xE6, CHR 0xA0, CHR 0xBC,
     CHR 0xE5, CHR 0xBC, CHR 0x8F, CHR 0xE5, CHR 0xBF, CHR 0x85, CHR 0xE9, CHR 0xA1,
     CHR 0xBB, CHR 0xE6, CHR 0x98, CHR 0xAF] @ ''JSON'' @ [CHR 0xEF, CHR 0xBC, CHR 0x9A,
     CHR 0x0A] @ ''{'' @ [CHR 0x0A] @ ''  '' @ [CHR 0x22] @ ''city'' @ [CHR 0x22] @
     '': '' @ [CHR 0x22, CHR 0xE5, CHR 0x9F, CHR 0x8E, CHR 0xE5, CHR 0xB8, CHR 0x82,
     CHR 0xE5, CHR 0x90, CHR 0x8D, CHR 0xE7, CHR 0xA7, CHR 0xB0, CHR 0x22] @ '','' @
     [CHR 0x0A] @ ''  '' @ [CHR 0x22] @ ''days'' @ [CHR 0x22] @ '': ['' @ [CHR 0x0A] @
     ''    {'' @ [CHR 0x0A] @ ''      '' @ [CHR 0x22] @ ''date'' @ [CHR 0x22] @ '': '' @
     [CHR 0x22] @ ''YYYY-MM-DD'' @ [CHR 0x22] @ '','' @ [CHR 0x0A] @ ''      '' @
     [CHR 0x22] @ ''day_index'' @ [CHR 0x22] @ '': 0,'' @ [CHR 0x0A] @ ''      '' @
     [CHR 0x22] @ ''description'' @ [CHR 0x22] @ '': '' @ [CHR 0x22, CHR 0xE5, CHR 0xBD,
     CHR 0x93, CHR 0xE6, CHR 0x97, CHR 0xA5, CHR 0xE8, CHR 0xA1, CHR 0x8C, CHR 0xE7,
     CHR 0xA8, CHR 0x8B, CHR 0xE6, CHR 0xA6, CHR 0x82, CHR 0xE8, CHR 0xBF, CHR 0xB0,
     CHR 0x22] @ '','' @ [CHR 0x0A] @ ''      '' @ [CHR 0x22] @ ''transportation'' @
     [CHR 0x22] @ '': '' @ [CHR 0x22, CHR 0xE4, CHR 0xBA, CHR 0xA4, CHR 0xE9, CHR 0x80,
     CHR 0x9A, CHR 0xE6, CHR 0x96, CHR 0xB9, CHR 0xE5, CHR 0xBC, CHR 0x8F, CHR 0x22] @
     '','' @ [CHR 0x0A] @ ''      '' @ [CHR 0x22] @ ''accommodation'' @ [CHR 0x22] @
     '': '' @ [CHR 0x22, CHR 0xE4, CHR 0xBD, CHR 0x8F, CHR 0xE5, CHR 0xAE, CHR 0xBF,
     CHR 0xE7, CHR 0xB1, CHR 0xBB, CHR 0xE5, CHR 0x9E, CHR 0x8B, CHR 0x22] @ '','' @
     [CHR 0x0A] @ ''      '' @ [CHR 0x22] @ ''hotel'' @ [CHR 0x22] @ '': {'' @ [CHR 0x0A] @
     ''        '' @ [CHR 0x22] @ ''name'' @ [CHR 0x22] @ '': '' @ [CHR 0x22, CHR 0xE9,
     CHR 0x85, CHR 0x92, CHR 0xE5, CHR 0xBA, CHR 0x97, CHR 0xE5, CHR 0x90, CHR 0x8D,
     CHR 0xE7, CHR 0xA7, CHR 0xB0, CHR 0x22] @ '','' @ [CHR 0x0A] @ ''        '' @
     [CHR 0x22] @ ''address'' @ [CHR 0x22] @ '': '' @ [CHR 0x22, CHR 0xE9, CHR 0x85,
     CHR 0x92, CHR 0xE5, CHR 0xBA, CHR 0x97, CHR 0xE5, CHR 0x9C, CHR 0xB0, CHR 0xE5,
     CHR 0x9D, CHR 0x80, CHR 0x22] @ '','' @ [CHR 0x0A] @ ''        '' @ [CHR 0x22] @
     ''estimated_cost'' @ [CHR 0x22] @ '': 400'' @ [CHR 0x0A] @ ''      },'' @ [CHR 0x0A] @
     ''      '' @ [CHR 0x22] @ ''attractions'' @ [CHR 0x22] @ '': ['' @ [CHR 0x0A] @
     ''        {'' @ [CHR 0x0A] @ ''          '' @ [CHR 0x22] @ ''name'' @ [CHR 0x22] @
     '': '' @ [CHR 0x22, CHR 0xE6, CHR 0x99, CHR 0xAF, CHR 0xE7, CHR 0x82, CHR 0xB9,
     CHR 0xE5, CHR 0x90, CHR 0x8D, CHR 0xE7, CHR 0xA7, CHR 0xB0, CHR 0x22] @ '','' @
     [CHR 0x0A] @ ''          '' @ [CHR 0x22] @ ''address'' @ [CHR 0x22] @ '': '' @
     [CHR 0x22, CHR 0xE5, CHR 0x9C, CHR 0xB0, CHR 0xE5, CHR 0x9D, CHR 0x80, CHR 0x22] @
     '','' @ [CHR 0x0A] @ ''          '' @ [CHR 0x22] @ ''visit_duration'' @ [CHR 0x22] @
     '': 120,'' @ [CHR 0x0A] @ ''          '' @ [CHR 0x22] @ ''description'' @ [CHR 0x22] @
     '': '' @ [CHR 0x22, CHR 0xE6, CHR 0x99, CHR 0xAF, CHR 0xE7, CHR 0x82, CHR 0xB9,
     CHR 0xE6, CHR 0x8F, CHR 0x8F, CHR 0xE8, CHR 0xBF, CHR 0xB0, CHR 0x22] @ '','' @
     [CHR 0x0A] @ ''          '' @ [CHR 0x22] @ ''ticket_price'' @ [CHR 0x22] @ '': 60'' @
     [CHR 0x0A] @ ''        }'' @ [CHR 0x0A] @ ''      ],'' @ [CHR 0x0A] @ ''      '' @
     [CHR 0x22] @ ''meals'' @ [CHR 0x22] @ '': ['' @ [CHR 0x0A] @ ''        {'' @
     [CHR 0x22] @ ''type'' @ [CHR 0x22] @ '': '' @ [CHR 0x22] @ ''breakfast'' @
     [CHR 0x22] @ '', '' @ [CHR 0x22] @ ''name'' @ [CHR 0x22] @ '': '' @ [CHR 0x22,
     CHR 0xE6, CHR 0x97, CHR 0xA9, CHR 0xE9, CHR 0xA4, CHR 0x90, CHR 0x22] @ '', '' @
     [CHR 0x22] @ ''estimated_cost'' @ [CHR 0x22] @ '': 30},'' @ [CHR 0x0A] @
     ''        {'' @ [CHR 0x22] @ ''type'' @ [CHR 0x22] @ '': '' @ [CHR 0x22] @ ''lunch'' @
     [CHR 0x22] @ '', '' @ [CHR 0x22] @ ''name'' @ [CHR 0x22] @ '': '' @ [CHR 0x22,
     CHR 0xE5, CHR 0x8D, CHR 0x88, CHR 0xE9, CHR 0xA4, CHR 0x90, CHR 0x22] @ '', '' @
     [CHR 0x22] @ ''estimated_cost'' @ [CHR 0x22] @ '': 60},'' @ [CHR 0x0A] @
     ''        {'' @ [CHR 0x22] @ ''type'' @ [CHR 0x22] @ '': '' @ [CHR 0x22] @
     ''dinner'' @ [CHR 0x22] @ '', '' @ [CHR 0x22] @ ''name'' @ [CHR 0x22] @ '': '' @
     [CHR 0x22, CHR 0xE6, CHR 0x99, CHR 0x9A, CHR 0xE9, CHR 0xA4, CHR 0x90, CHR 0x22] @
     '', '' @ [CHR 0x22] @ ''estimated_cost'' @ [CHR 0x22] @ '': 100}'' @ [CHR 0x0A] @
     ''      ]'' @ [CHR 0x0A] @ ''    }'' @ [CHR 0x0A] @ ''  ],'' @ [CHR 0x0A] @ ''  '' @
     [CHR 0x22] @ ''budget'' @ [CHR 0x22] @ '': {'' @ [CHR 0x0A] @ ''    '' @ [CHR 0x22] @
     ''total_attractions'' @ [CHR 0x22] @ '': 0,'' @ [CHR 0x0A] @ ''    '' @ [CHR 0x22] @
     ''total_hotels'' @ [CHR 0x22] @ '': 0,'' @ [CHR 0x0A] @ ''    '' @ [CHR 0x22] @
     ''total_meals'' @ [CHR 0x22] @ '': 0,'' @ [CHR 0x0A] @ ''    '' @ [CHR 0x22] @
     ''total_transportation'' @ [CHR 0x22] @ '': 0,'' @ [CHR 0x0A] @ ''    '' @
     [CHR 0x22] @ ''total'' @ [CHR 0x22] @ '': 0'' @ [CHR 0x0A] @ ''  },'' @ [CHR 0x0A] @
     ''  '' @ [CHR 0x22] @ ''overall_suggestions'' @ [CHR 0x22] @ '': '' @ [CHR 0x22,
     CHR 0xE6, CHR 0x80, CHR 0xBB, CHR 0xE4, CHR 0xBD, CHR 0x93, CHR 0xE5, CHR 0xBB,
     CHR 0xBA, CHR 0xE8, CHR 0xAE, CHR 0xAE, CHR 0x22, CHR 0x0A] @ ''}''"

definition zh_destination :: string where
  \<comment> \<open>label of the destination\<close>
  "zh_destination =
     [CHR 0xE7, CHR 0x9B, CHR 0xAE, CHR 0xE7, CHR 0x9A, CHR 0x84, CHR 0xE5, CHR 0x9C,
     CHR 0xB0] @ '': ''"

definition zh_dates :: string where
  \<comment> \<open>label of the travel dates\<close>
  "zh_dates =
     [CHR 0xE6, CHR 0x97, CHR 0x85, CHR 0xE8, CHR 0xA1, CHR 0x8C, CHR 0xE6, CHR 0x97,
     CHR 0xA5, CHR 0xE6, CHR 0x9C, CHR 0x9F] @ '': ''"

definition zh_to :: string where
  \<comment> \<open>the word between the two dates\<close>
  "zh_to =
     '' '' @ [CHR 0xE8, CHR 0x87, CHR 0xB3] @ '' ''"

definition zh_day_count :: string where
  \<comment> \<open>label of the day count\<close>
  "zh_day_count =
     [CHR 0xE5, CHR 0xA4, CHR 0xA9, CHR 0xE6, CHR 0x95, CHR 0xB0] @ '': ''"

definition zh_transport :: string where
  \<comment> \<open>label of the transport mode\<close>
  "zh_transport =
     [CHR 0xE4, CHR 0xBA, CHR 0xA4, CHR 0xE9, CHR 0x80, CHR 0x9A, CHR 0xE6, CHR 0x96,
     CHR 0xB9, CHR 0xE5, CHR 0xBC, CHR 0x8F] @ '': ''"

definition zh_lodging_pref :: string where
  \<comment> \<open>label of the lodging preference\<close>
  "zh_lodging_pref =
     [CHR 0xE4, CHR 0xBD, CHR 0x8F, CHR 0xE5, CHR 0xAE, CHR 0xBF, CHR 0xE5, CHR 0x81,
     CHR 0x8F, CHR 0xE5, CHR 0xA5, CHR 0xBD] @ '': ''"

definition zh_preferences :: string where
  \<comment> \<open>label of the preferences\<close>
  "zh_preferences =
     [CHR 0xE6, CHR 0x97, CHR 0x85, CHR 0xE8, CHR 0xA1, CHR 0x8C, CHR 0xE5, CHR 0x81,
     CHR 0x8F, CHR 0xE5, CHR 0xA5, CHR 0xBD] @ '': ''"

definition zh_none :: string where
  \<comment> \<open>the word for no preference\<close>
  "zh_none =
     [CHR 0xE6, CHR 0x97, CHR 0xA0]"

definition zh_attraction_info :: string where
  \<comment> \<open>heading of the attraction lines\<close>
  "zh_attraction_info =
     [CHR 0xE6, CHR 0x99, CHR 0xAF, CHR 0xE7, CHR 0x82, CHR 0xB9, CHR 0xE4, CHR 0xBF,
     CHR 0xA1, CHR 0xE6, CHR 0x81, CHR 0xAF] @ '':''"

definition zh_visit_about :: string where
  \<comment> \<open>the text before the visit duration\<close>
  "zh_visit_about =
     '' ('' @ [CHR 0xE6, CHR 0xB8, CHR 0xB8, CHR 0xE8, CHR 0xA7, CHR 0x88, CHR 0xE7,
     CHR 0xBA, CHR 0xA6]"

definition zh_minutes :: string where
  \<comment> \<open>the text after the visit duration\<close>
  "zh_minutes =
     [CHR 0xE5, CHR 0x88, CHR 0x86, CHR 0xE9, CHR 0x92, CHR 0x9F] @ '')''"

definition zh_weather_info :: string where
  \<comment> \<open>heading of the weather lines\<close>
  "zh_weather_info =
     [CHR 0xE5, CHR 0xA4, CHR 0xA9, CHR 0xE6, CHR 0xB0, CHR 0x94, CHR 0xE4, CHR 0xBF,
     CHR 0xA1, CHR 0xE6, CHR 0x81, CHR 0xAF] @ '':''"

definition zh_daytime :: string where
  \<comment> \<open>the text before the day weather\<close>
  "zh_daytime =
     '': '' @ [CHR 0xE7, CHR 0x99, CHR 0xBD, CHR 0xE5, CHR 0xA4, CHR 0xA9]"

definition zh_degrees_night :: string where
  \<comment> \<open>the text between the day temperature and the night weather\<close>
  "zh_degrees_night =
     [CHR 0xC2, CHR 0xB0] @ ''C, '' @ [CHR 0xE5, CHR 0xA4, CHR 0x9C, CHR 0xE9, CHR 0x97,
     CHR 0xB4]"

definition zh_degrees :: string where
  \<comment> \<open>the text after the night temperature\<close>
  "zh_degrees =
     [CHR 0xC2, CHR 0xB0] @ ''C''"

definition zh_hotel_options :: string where
  \<comment> \<open>heading of the hotel lines\<close>
  "zh_hotel_options =
     [CHR 0xE5, CHR 0x8F, CHR 0xAF, CHR 0xE9, CHR 0x80, CHR 0x89, CHR 0xE9, CHR 0x85,
     CHR 0x92, CHR 0xE5, CHR 0xBA, CHR 0x97] @ '':''"

text \<open>
  The attributes \<open>build_planner_input\<close> reads off the elements of the lists; an object
  of a class without the attribute raises \<open>AttributeError\<close>.
\<close>

definition no_attribute :: "string \<Rightarrow> string \<Rightarrow> error" where
  "no_attribute cls attr =
     AttributeError (quoted cls @ '' object has no attribute '' @ quoted attr)"

fun item_name :: "item \<Rightarrow> error + pyval" where
  "item_name (IAttraction a) = Inr (a_name a)"
| "item_name (IHotel h) = Inr (h_name h)"
| "item_name (IWeather x) = Inl (no_attribute ''WeatherInfo'' ''name'')"

fun item_address :: "item \<Rightarrow> error + pyval" where
  "item_address (IAttraction a) = Inr (a_address a)"
| "item_address (IHotel h) = Inr (h_address h)"
| "item_address (IWeather x) = Inl (no_attribute ''WeatherInfo'' ''address'')"

fun item_visit_duration :: "item \<Rightarrow> error + pyval" where
  "item_visit_duration (IAttraction a) = Inr (a_visit_duration a)"
| "item_visit_duration (IHotel h) = Inl (no_attribute ''Hotel'' ''visit_duration'')"
| "item_visit_duration (IWeather x) = Inl (no_attribute ''WeatherInfo'' ''visit_duration'')"

fun item_weather :: "item \<Rightarrow> error + WeatherInfo" where
  "item_weather (IWeather x) = Inr x"
| "item_weather (IAttraction a) = Inl (no_attribute ''Attraction'' ''date'')"
| "item_weather (IHotel h) = Inl (no_attribute ''Hotel'' ''date'')"

text \<open>\<open>enumerate(xs, 1)\<close>.\<close>

definition enumerate1 :: "'a list \<Rightarrow> (nat \<times> 'a) list" where
  "enumerate1 xs = zip [1 ..< Suc (length xs)] xs"

definition attraction_line :: "'w services \<Rightarrow> nat \<times> item \<Rightarrow> error + string" where
  "attraction_line svc p =
     (case item_name (snd p) of Inl e \<Rightarrow> Inl e | Inr n \<Rightarrow>
     (case item_address (snd p) of Inl e \<Rightarrow> Inl e | Inr a \<Rightarrow>
     (case item_visit_duration (snd p) of Inl e \<Rightarrow> Inl e | Inr v \<Rightarrow>
        Inr (str_of_nat (fst p) @ ''. '' @ py_str svc n @ '' - '' @ py_str svc a
             @ zh_visit_about @ py_str svc v @ zh_minutes))))"

definition weather_line :: "'w services \<Rightarrow> item \<Rightarrow> error + string" where
  "weather_line svc i =
     (case item_weather i of Inl e \<Rightarrow> Inl e | Inr x \<Rightarrow>
        Inr (py_str svc (w_date x) @ zh_daytime @ py_str svc (w_day_weather x) @ '' ''
             @ py_str svc (w_day_temp x) @ zh_degrees_night @ py_str svc (w_night_weather x)
             @ '' '' @ py_str svc (w_night_temp x) @ zh_degrees))"

definition hotel_line :: "'w services \<Rightarrow> nat \<times> item \<Rightarrow> error + string" where
  "hotel_line svc p =
     (case item_name (snd p) of Inl e \<Rightarrow> Inl e | Inr n \<Rightarrow>
     (case item_address (snd p) of Inl e \<Rightarrow> Inl e | Inr a \<Rightarrow>
        Inr (str_of_nat (fst p) @ ''. '' @ py_str svc n @ '' - '' @ py_str svc a)))"

definition build_planner_input ::
  "'w services \<Rightarrow> TripRequest \<Rightarrow> item list \<Rightarrow> item list \<Rightarrow> item list \<Rightarrow> error + string" where
  "build_planner_input svc req atts wthr htls =
     (let input_parts =
            [zh_destination @ city req,
             zh_dates @ start_date req @ zh_to @ end_date req,
             zh_day_count @ str_of_int (travel_days req),
             zh_transport @ transportation req,
             zh_lodging_pref @ accommodation req,
             zh_preferences
               @ (if preferences req \<noteq> [] then join '', '' (preferences req) else zh_none),
             [],
             zh_attraction_info]
      in
     (case collect (map (attraction_line svc) (enumerate1 (take 15 atts))) of
        Inl e \<Rightarrow> Inl e
      | Inr attraction_lines \<Rightarrow>
     (case (if wthr \<noteq> []
            then (case collect (map (weather_line svc) (slice_to (travel_days req) wthr)) of
                    Inl e \<Rightarrow> Inl e
                  | Inr ls \<Rightarrow> Inr ([[], zh_weather_info] @ ls))
            else Inr []) of
        Inl e \<Rightarrow> Inl e
      | Inr weather_lines \<Rightarrow>
     (case (if htls \<noteq> []
            then (case collect (map (hotel_line svc) (enumerate1 (take 10 htls))) of
                    Inl e \<Rightarrow> Inl e
                  | Inr ls \<Rightarrow> Inr ([[], zh_hotel_options] @ ls))
            else Inr []) of
        Inl e \<Rightarrow> Inl e
      | Inr hotel_lines \<Rightarrow>
          Inr (join [CHR 0x0A]
                 (input_parts @ attraction_lines @ weather_lines @ hotel_lines))))))"

subsection \<open>The response of the engine\<close>

definition fence :: string where
  "fence = [CHR 0x60, CHR 0x60, CHR 0x60]"

definition fence_json :: string where
  "fence_json = fence @ ''json''"

text \<open>The text that is decoded: lines 244 to 248 of \<open>parse_planner_response\<close>.\<close>

definition extract_json :: "string \<Rightarrow> error + string" where
  "extract_json content =
     (if contains fence_json content
      then (case index (py_split fence_json content) 1 of Inl e \<Rightarrow> Inl e | Inr part \<Rightarrow>
           (case index (py_split fence part) 0 of Inl e \<Rightarrow> Inl e | Inr body \<Rightarrow>
              Inr (strip body)))
      else if contains fence content
      then (case index (py_split fence content) 1 of Inl e \<Rightarrow> Inl e | Inr part \<Rightarrow>
           (case index (py_split fence part) 0 of Inl e \<Rightarrow> Inl e | Inr body \<Rightarrow>
              Inr (strip body)))
      else Inr content)"

definition parse_hotel :: "pyval \<Rightarrow> error + Hotel" where
  "parse_hotel d =
     (case py_get d ''name'' (PStr []) of Inl e \<Rightarrow> Inl e | Inr n \<Rightarrow>
     (case py_get d ''address'' (PStr []) of Inl e \<Rightarrow> Inl e | Inr a \<Rightarrow>
     (case py_get d ''estimated_cost'' (PInt 0) of Inl e \<Rightarrow> Inl e | Inr c \<Rightarrow>
        Inr \<lparr> h_name = n, h_address = a, h_location = None, h_type = None,
              h_price_range = None, h_rating = None, h_distance = None,
              h_estimated_cost = Some c \<rparr>)))"

definition parse_attraction :: "pyval \<Rightarrow> error + Attraction" where
  "parse_attraction d =
     (case py_get d ''name'' (PStr []) of Inl e \<Rightarrow> Inl e | Inr n \<Rightarrow>
     (case py_get d ''address'' (PStr []) of Inl e \<Rightarrow> Inl e | Inr a \<Rightarrow>
     (case py_get d ''visit_duration'' (PInt 120) of Inl e \<Rightarrow> Inl e | Inr v \<Rightarrow>
     (case py_get d ''description'' (PStr []) of Inl e \<Rightarrow> Inl e | Inr ds \<Rightarrow>
     (case py_get d ''ticket_price'' (PInt 0) of Inl e \<Rightarrow> Inl e | Inr t \<Rightarrow>
        Inr \<lparr> a_name = n, a_address = a,
              a_location = \<lparr> longitude = PInt 0, latitude = PInt 0 \<rparr>,
              a_visit_duration = v, a_description = ds, a_category = None,
              a_poi_id = None, a_ticket_price = Some t \<rparr>)))))"

definition parse_meal :: "pyval \<Rightarrow> error + Meal" where
  "parse_meal d =
     (case py_get d ''type'' (PStr ''lunch'') of Inl e \<Rightarrow> Inl e | Inr t \<Rightarrow>
     (case py_get d ''name'' (PStr []) of Inl e \<Rightarrow> Inl e | Inr n \<Rightarrow>
     (case py_get d ''description'' (PStr []) of Inl e \<Rightarrow> Inl e | Inr ds \<Rightarrow>
     (case py_get d ''estimated_cost'' (PInt 0) of Inl e \<Rightarrow> Inl e | Inr c \<Rightarrow>
        Inr \<lparr> m_type = t, m_name = n, m_description = Some ds, m_estimated_cost = c \<rparr>))))"

definition parse_day :: "TripRequest \<Rightarrow> pyval \<Rightarrow> error + DayPlan" where
  "parse_day req day_data =
     (case py_get day_data ''date'' (PStr []) of Inl e \<Rightarrow> Inl e | Inr dt \<Rightarrow>
     (case py_get day_data ''day_index'' (PInt 0) of Inl e \<Rightarrow> Inl e | Inr ix \<Rightarrow>
     (case py_get day_data ''description'' (PStr []) of Inl e \<Rightarrow> Inl e | Inr ds \<Rightarrow>
     (case py_get day_data ''transportation'' (PStr (transportation req)) of
        Inl e \<Rightarrow> Inl e | Inr tr \<Rightarrow>
     (case py_get day_data ''accommodation'' (PStr (accommodation req)) of
        Inl e \<Rightarrow> Inl e | Inr ac \<Rightarrow>
     (case py_get day_data ''hotel'' (PDict []) of Inl e \<Rightarrow> Inl e | Inr hotel_data \<Rightarrow>
     (case parse_hotel hotel_data of Inl e \<Rightarrow> Inl e | Inr h \<Rightarrow>
     (case py_get day_data ''attractions'' (PList []) of Inl e \<Rightarrow> Inl e | Inr ad \<Rightarrow>
     (case py_iter ad of Inl e \<Rightarrow> Inl e | Inr al \<Rightarrow>
     (case collect (map parse_attraction al) of Inl e \<Rightarrow> Inl e | Inr atts \<Rightarrow>
     (case py_get day_data ''meals'' (PList []) of Inl e \<Rightarrow> Inl e | Inr md \<Rightarrow>
     (case py_iter md of Inl e \<Rightarrow> Inl e | Inr ml \<Rightarrow>
     (case collect (map parse_meal ml) of Inl e \<Rightarrow> Inl e | Inr ms \<Rightarrow>
        Inr \<lparr> d_date = dt, d_day_index = ix, d_description = ds, d_transportation = tr,
              d_accommodation = ac, d_hotel = h, d_attractions = atts,
              d_meals = ms \<rparr>)))))))))))))"

text \<open>The plan built from the decoded value: lines 252 to 285.\<close>

definition build_trip_plan :: "TripRequest \<Rightarrow> pyval \<Rightarrow> error + TripPlan" where
  "build_trip_plan req data =
     (case py_get data ''days'' (PList []) of Inl e \<Rightarrow> Inl e | Inr dd \<Rightarrow>
     (case py_iter dd of Inl e \<Rightarrow> Inl e | Inr dl \<Rightarrow>
     (case collect (map (parse_day req) dl) of Inl e \<Rightarrow> Inl e | Inr ds \<Rightarrow>
     (case py_get data ''budget'' (PDict []) of Inl e \<Rightarrow> Inl e | Inr budget_data \<Rightarrow>
     (case py_get budget_data ''total_attractions'' (PInt 0) of Inl e \<Rightarrow> Inl e | Inr ta \<Rightarrow>
     (case py_get budget_data ''total_hotels'' (PInt 0) of Inl e \<Rightarrow> Inl e | Inr th \<Rightarrow>
     (case py_get budget_data ''total_meals'' (PInt 0) of Inl e \<Rightarrow> Inl e | Inr tm \<Rightarrow>
     (case py_get budget_data ''total_transportation'' (PInt 0) of Inl e \<Rightarrow> Inl e | Inr tt \<Rightarrow>
     (case py_get budget_data ''total'' (PInt 0) of Inl e \<Rightarrow> Inl e | Inr tot \<Rightarrow>
     (case py_get data ''city'' (PStr (city req)) of Inl e \<Rightarrow> Inl e | Inr c \<Rightarrow>
     (case py_get data ''overall_suggestions'' (PStr []) of Inl e \<Rightarrow> Inl e | Inr sg \<Rightarrow>
        Inr \<lparr> p_city = c, p_start_date = start_date req, p_end_date = end_date req,
              days = ds, weather_info = [], overall_suggestions = sg,
              budget = \<lparr> total_attractions = ta, total_hotels = th, total_meals = tm,
                         total_transportation = tt, total = tot \<rparr>,
              p_execution_time_ms = None \<rparr>)))))))))))"

text \<open>Decoding a text and building the plan from it: lines 250 to 285.\<close>

definition decode_and_build :: "'w services \<Rightarrow> TripRequest \<Rightarrow> string \<Rightarrow> error + TripPlan" where
  "decode_and_build svc req json_str =
     (case json_loads svc json_str of Inl e \<Rightarrow> Inl e | Inr data \<Rightarrow> build_trip_plan req data)"

definition parse_planner_response :: "'w services \<Rightarrow> string \<Rightarrow> TripRequest \<Rightarrow> error + TripPlan" where
  "parse_planner_response svc content req =
     (case extract_json content of
        Inl e \<Rightarrow> Inl e
      | Inr json_str \<Rightarrow> decode_and_build svc req json_str)"

text \<open>
  Two responses of the engine with the empty JSON object: in a fenced block without a
  language, and as the raw text.
\<close>

definition fenced_response :: string where
  "fenced_response = fence @ [CHR 0x0A] @ ''{}'' @ [CHR 0x0A] @ fence"

definition raw_response :: string where
  "raw_response = ''{}''"

text \<open>
  Two responses that hold the same JSON object in another way: inline after other text, and
  in a fenced block whose opening marker is followed by the tag \<open>JSON\<close> in capitals.
\<close>

definition inline_response :: string where
  "inline_response = ''Sure! {}''"

definition tagged_response :: string where
  "tagged_response = fence @ ''JSON'' @ [CHR 0x0A] @ ''{}'' @ [CHR 0x0A] @ fence"

text \<open>
  A JSON document with one day, the value it decodes to, and a response that holds it in a
  fenced json block.
\<close>

definition sample_document :: string where
  "sample_document =
     ''{'' @ [CHR 0x22] @ ''city'' @ [CHR 0x22] @ '': '' @ [CHR 0x22] @ ''Beijing'' @
     [CHR 0x22] @ '', '' @ [CHR 0x22] @ ''days'' @ [CHR 0x22] @ '': [{'' @ [CHR 0x22] @
     ''date'' @ [CHR 0x22] @ '': '' @ [CHR 0x22] @ ''2025-06-01'' @ [CHR 0x22] @ '', '' @
     [CHR 0x22] @ ''hotel'' @ [CHR 0x22] @ '': {'' @ [CHR 0x22] @ ''name'' @ [CHR 0x22] @
     '': '' @ [CHR 0x22] @ ''Inn'' @ [CHR 0x22] @ ''}, '' @ [CHR 0x22] @ ''attractions'' @
     [CHR 0x22] @ '': [{'' @ [CHR 0x22] @ ''name'' @ [CHR 0x22] @ '': '' @ [CHR 0x22] @
     ''Forbidden City'' @ [CHR 0x22] @ '', '' @ [CHR 0x22] @ ''ticket_price'' @
     [CHR 0x22] @ '': 60}], '' @ [CHR 0x22] @ ''meals'' @ [CHR 0x22] @ '': [{'' @
     [CHR 0x22] @ ''type'' @ [CHR 0x22] @ '': '' @ [CHR 0x22] @ ''dinner'' @ [CHR 0x22] @
     '', '' @ [CHR 0x22] @ ''estimated_cost'' @ [CHR 0x22] @ '': 100}]}], '' @ [CHR 0x22] @
     ''budget'' @ [CHR 0x22] @ '': {'' @ [CHR 0x22] @ ''total'' @ [CHR 0x22] @ '': 560}}''"

definition sample_data :: pyval where
  "sample_data =
     PDict
       [(''city'', PStr ''Beijing''),
        (''days'',
         PList
           [PDict
              [(''date'', PStr ''2025-06-01''),
               (''hotel'', PDict [(''name'', PStr ''Inn'')]),
               (''attractions'',
                PList [PDict [(''name'', PStr ''Forbidden City''), (''ticket_price'', PInt 60)]]),
               (''meals'',
                PList [PDict [(''type'', PStr ''dinner''), (''estimated_cost'', PInt 100)]])]]),
        (''budget'', PDict [(''total'', PInt 560)])]"

definition sample_response :: string where
  "sample_response =
     ''Here is the plan:'' @ [CHR 0x0A] @ fence_json @ [CHR 0x0A] @ sample_document
       @ [CHR 0x0A] @ fence @ [CHR 0x0A] @ ''Enjoy.''"

text \<open>
  Answers for the examples of the parser: the decoder decodes the empty object and the
  sample document; every other text of the examples starts with a character that cannot
  start a JSON value, which the library's decoder reports as \<open>JSONDecodeError\<close>, a
  \<open>ValueError\<close>, at the first character.
\<close>

definition parser_answers :: answers where
  "parser_answers =
     example_answers
       \<lparr> decode := (\<lambda>s. if s = ''{}'' then Inr (PDict [])
                       else if s = sample_document then Inr sample_data
                       else Inl (ValueError ''Expecting value: line 1 column 1 (char 0)'')) \<rparr>"

text \<open>
  The text that is decoded, by the precedence of the specification: the content of a
  fenced json block, else the content of any fenced block, else the raw text. The content
  of a block is the text after the first opening marker, up to the next fence marker.
\<close>

definition payload :: "string \<Rightarrow> string" where
  "payload content =
     (if contains fence_json content
      then strip (text_before fence (text_before fence_json (text_after fence_json content)))
      else if contains fence content
      then strip (text_before fence (text_after fence content))
      else content)"

subsection \<open>planner\_node\<close>

text \<open>
  The dicts the step returns: without an attraction, after the engine answered, and from
  the handler of an exception \<open>e\<close>.
\<close>

definition planner_fallback ::
  "'w services \<Rightarrow> TripPlanningState \<Rightarrow> TripPlan \<Rightarrow> 'w \<Rightarrow> TripPlanningState" where
  "planner_fallback svc state plan w =
     no_keys \<lparr> trip_plan := Some plan, fallback_activated := Some True,
       node_status := put (node_status state) ''generate_plan'' ''completed'',
       node_timings := put (node_timings state) ''generate_plan'' (elapsed_ms svc w),
       execution_time_ms := Some (elapsed_ms svc w) \<rparr>"

definition planner_done ::
  "'w services \<Rightarrow> TripPlanningState \<Rightarrow> TripPlan \<Rightarrow> 'w \<Rightarrow> TripPlanningState" where
  "planner_done svc state plan w =
     no_keys \<lparr> trip_plan := Some plan,
       node_status := put (node_status state) ''generate_plan'' ''completed'',
       node_timings := put (node_timings state) ''generate_plan'' (elapsed_ms svc w),
       execution_time_ms := Some (elapsed_ms svc w) \<rparr>"

definition planner_failed ::
  "'w services \<Rightarrow> TripPlanningState \<Rightarrow> TripPlan \<Rightarrow> error \<Rightarrow> 'w \<Rightarrow> TripPlanningState" where
  "planner_failed svc state plan e w =
     no_keys \<lparr> trip_plan := Some plan, fallback_activated := Some True,
       error := Some (str_of_error e),
       node_status := put (node_status state) ''generate_plan'' ''completed'',
       node_errors := put (node_errors state) ''generate_plan'' (str_of_error e),
       node_timings := put (node_timings state) ''generate_plan'' (elapsed_ms svc w),
       execution_time_ms := Some (elapsed_ms svc w) \<rparr>"

definition get_list :: "'a list option \<Rightarrow> 'a list" where
  "get_list v = (case v of None \<Rightarrow> [] | Some xs \<Rightarrow> xs)"

text \<open>The \<open>try\<close> block (lines 119 to 175): the dict it returns, or the exception it raises.\<close>

definition planner_try ::
  "'w services \<Rightarrow> TripPlanningState \<Rightarrow> TripRequest \<Rightarrow> 'w
     \<Rightarrow> (error + TripPlanningState) \<times> 'w" where
  "planner_try svc state req w =
     (if get_list (attractions state) = []
      then (case create_fallback_plan req of
              Inl e \<Rightarrow> (Inl e, w)
            | Inr plan \<Rightarrow> (Inr (planner_fallback svc state plan w), w))
      else
     (case build_planner_input svc req (get_list (attractions state))
             (get_list (weather state)) (get_list (hotels state)) of
        Inl e \<Rightarrow> (Inl e, w)
      | Inr input_data \<Rightarrow>
     (case llm_invoke svc PLANNER_SYSTEM_PROMPT input_data w of
        (Inl e, w1) \<Rightarrow> (Inl e, w1)
      | (Inr content, w1) \<Rightarrow>
     (case parse_planner_response svc content req of
        Inl e \<Rightarrow> (Inl e, w1)
      | Inr plan \<Rightarrow> (Inr (planner_done svc state plan w1), w1)))))"

text \<open>
  The step. It reads the request, then calls the gate with the state alone, although the
  gate has the two required parameters \<open>state\<close> and \<open>nodes\<close>; this call is outside the
  \<open>try\<close> block. The handler of the block builds the fallback plan, which may raise again.
\<close>

definition planner_node ::
  "'w services \<Rightarrow> TripPlanningState \<Rightarrow> 'w \<Rightarrow> (error + TripPlanningState) \<times> 'w" where
  "planner_node svc state w =
     (case request state of
        None \<Rightarrow> (Inl (KeyError (quoted ''request'')), w)
      | Some req \<Rightarrow>
     (case call2 ''is_all_parallel_nodes_completed'' (''state'', ''nodes'')
             is_all_parallel_nodes_completed (Some state) None [] of
        Inl e \<Rightarrow> (Inl e, w)
      | Inr ready \<Rightarrow>
          if \<not> ready
          then (Inr (no_keys \<lparr> node_status :=
                        put (node_status state) ''generate_plan'' ''pending'' \<rparr>), w)
          else
     (case planner_try svc state req w of
        (Inr u, w') \<Rightarrow> (Inr u, w')
      | (Inl e, w') \<Rightarrow>
          (case create_fallback_plan req of
             Inl e' \<Rightarrow> (Inl e', w')
           | Inr plan \<Rightarrow> (Inr (planner_failed svc state plan e w'), w')))))"

section \<open>The planning service and the route\<close>

definition zh_no_plan :: string where
  \<comment> \<open>the message of the error raised when the final state has no plan\<close>
  "zh_no_plan =
     [CHR 0xE6, CHR 0x9C, CHR 0xAA, CHR 0xE8, CHR 0x83, CHR 0xBD, CHR 0xE7, CHR 0x94,
     CHR 0x9F, CHR 0xE6, CHR 0x88, CHR 0x90, CHR 0xE6, CHR 0x97, CHR 0x85, CHR 0xE8,
     CHR 0xA1, CHR 0x8C, CHR 0xE8, CHR 0xAE, CHR 0xA1, CHR 0xE5, CHR 0x88, CHR 0x92]"

definition zh_days_range :: string where
  \<comment> \<open>the message of the rejection of a day count outside 1 to 30\<close>
  "zh_days_range =
     [CHR 0xE6, CHR 0x97, CHR 0x85, CHR 0xE8, CHR 0xA1, CHR 0x8C, CHR 0xE5, CHR 0xA4,
     CHR 0xA9, CHR 0xE6, CHR 0x95, CHR 0xB0, CHR 0xE5, CHR 0xBF, CHR 0x85, CHR 0xE9,
     CHR 0xA1, CHR 0xBB, CHR 0xE5, CHR 0x9C, CHR 0xA8] @ ''1-30'' @ [CHR 0xE5, CHR 0xA4,
     CHR 0xA9, CHR 0xE4, CHR 0xB9, CHR 0x8B, CHR 0xE9, CHR 0x97, CHR 0xB4]"

definition zh_plan_ok :: string where
  \<comment> \<open>the message of a successful response\<close>
  "zh_plan_ok =
     [CHR 0xE6, CHR 0x97, CHR 0x85, CHR 0xE8, CHR 0xA1, CHR 0x8C, CHR 0xE8, CHR 0xAE,
     CHR 0xA1, CHR 0xE5, CHR 0x88, CHR 0x92, CHR 0xE7, CHR 0x94, CHR 0x9F, CHR 0xE6,
     CHR 0x88, CHR 0x90, CHR 0xE6, CHR 0x88, CHR 0x90, CHR 0xE5, CHR 0x8A, CHR 0x9F]"

definition zh_plan_failed :: string where
  \<comment> \<open>the prefix of the detail of a planning error\<close>
  "zh_plan_failed =
     [CHR 0xE7, CHR 0x94, CHR 0x9F, CHR 0xE6, CHR 0x88, CHR 0x90, CHR 0xE6, CHR 0x97,
     CHR 0x85, CHR 0xE8, CHR 0xA1, CHR 0x8C, CHR 0xE8, CHR 0xAE, CHR 0xA1, CHR 0xE5,
     CHR 0x88, CHR 0x92, CHR 0xE5, CHR 0xA4, CHR 0xB1, CHR 0xE8, CHR 0xB4, CHR 0xA5] @
     '': ''"

definition zh_internal_error :: string where
  \<comment> \<open>the detail of an unexpected error\<close>
  "zh_internal_error =
     [CHR 0xE6, CHR 0x9C, CHR 0x8D, CHR 0xE5, CHR 0x8A, CHR 0xA1, CHR 0xE5, CHR 0x99,
     CHR 0xA8, CHR 0xE5, CHR 0x86, CHR 0x85, CHR 0xE9, CHR 0x83, CHR 0xA8, CHR 0xE9,
     CHR 0x94, CHR 0x99, CHR 0xE8, CHR 0xAF, CHR 0xAF, CHR 0xEF, CHR 0xBC, CHR 0x8C,
     CHR 0xE8, CHR 0xAF, CHR 0xB7, CHR 0xE7, CHR 0xA8, CHR 0x8D, CHR 0xE5, CHR 0x90,
     CHR 0x8E, CHR 0xE9, CHR 0x87, CHR 0x8D, CHR 0xE8, CHR 0xAF, CHR 0x95]"

text \<open>
  \<open>TripPlanningService.plan_trip\<close> (app/services/trip\_planning\_service.py). The compiled
  graph is a parameter: it takes the initial state and gives the final state or raises.
  The service calls \<open>create_initial_state\<close>, whose parameters are \<open>user_id\<close> and
  \<open>request\<close>, with the keywords \<open>request\<close>, \<open>trace_id\<close> and \<open>user_id\<close>. Every exception
  is logged and raised again. \<open>ms\<close> is the elapsed time the service measures.
\<close>

definition TripPlanningService_plan_trip ::
  "(TripPlanningState \<Rightarrow> 'w \<Rightarrow> (error + TripPlanningState) \<times> 'w) \<Rightarrow> int \<Rightarrow> TripRequest
     \<Rightarrow> string option \<Rightarrow> 'w \<Rightarrow> (error + TripPlan) \<times> 'w" where
  "TripPlanningService_plan_trip graph ms req uid w =
     (case call2 ''create_initial_state'' (''user_id'', ''request'') create_initial_state
             (Some uid) (Some req) [''request'', ''trace_id'', ''user_id''] of
        Inl e \<Rightarrow> (Inl e, w)
      | Inr initial_state \<Rightarrow>
          (case graph initial_state w of
             (Inl e, w') \<Rightarrow> (Inl e, w')
           | (Inr final_state, w') \<Rightarrow>
               (case trip_plan final_state of
                  None \<Rightarrow> (Inl (ValueError zh_no_plan), w')
                | Some plan \<Rightarrow> (Inr (plan \<lparr> p_execution_time_ms := Some ms \<rparr>), w'))))"

text \<open>
  The route \<open>POST /trip/plan\<close> (app/api/routes/trip\_v2.py, \<open>plan_trip\<close>), for a request
  object that the framework has built. \<open>built\<close> is what getting the service gives: the
  compiled graph, or the exception building it raised.
\<close>

record TripPlanResponse =
  r_success :: bool
  r_message :: string
  r_data :: TripPlan

definition plan_trip ::
  "error + (TripPlanningState \<Rightarrow> 'w \<Rightarrow> (error + TripPlanningState) \<times> 'w) \<Rightarrow> int \<Rightarrow> TripRequest
     \<Rightarrow> string option \<Rightarrow> 'w \<Rightarrow> (error + TripPlanResponse) \<times> 'w" where
  "plan_trip built ms req uid w =
     (if travel_days req < 1 \<or> travel_days req > 30
      then (Inl (HTTPException 400 zh_days_range), w)
      else
        (case built of
           Inl e \<Rightarrow> (Inl (HTTPException 500 zh_internal_error), w)
         | Inr graph \<Rightarrow>
             (case TripPlanningService_plan_trip graph ms req uid w of
                (Inr plan, w') \<Rightarrow>
                  (Inr \<lparr> r_success = True, r_message = zh_plan_ok, r_data = plan \<rparr>, w')
              | (Inl (ValidationError m), w') \<Rightarrow> (Inl (HTTPException 400 m), w')
              | (Inl (TripPlanningError m), w') \<Rightarrow>
                  (Inl (HTTPException 500 (zh_plan_failed @ m)), w')
              | (Inl e, w') \<Rightarrow> (Inl (HTTPException 500 zh_internal_error), w'))))"

text \<open>
  A graph for examples: it runs the synthesis step on the state it is given (the three
  data-gathering steps left out).
\<close>

definition planner_only_graph ::
  "world services \<Rightarrow> TripPlanningState \<Rightarrow> world \<Rightarrow> (error + TripPlanningState) \<times> world" where
  "planner_only_graph svc state w = planner_node svc state w"

text \<open>States of the scenario in which the three data-gathering steps have run.\<close>

definition gathered_state :: "(string \<rightharpoonup> string) \<Rightarrow> item list \<Rightarrow> TripPlanningState" where
  "gathered_state status found =
     beijing_state \<lparr> attractions := Some found, weather := Some [], hotels := Some [],
       node_status := Some status \<rparr>"

section \<open>Properties\<close>

subsection \<open>The completion gate\<close>

text \<open>
  C3 (as stated, refuted): the gate is claimed to hold exactly when every required step
  is terminal. In the state where the weather step failed and the other two steps
  completed, every required step is terminal and the gate is false.
\<close>

theorem gate_rejects_failed_step:
  "all_terminal (no_keys \<lparr> node_status := Some weather_failed_status \<rparr>) required_steps
   \<and> \<not> is_all_parallel_nodes_completed
         (no_keys \<lparr> node_status := Some weather_failed_status \<rparr>) required_steps"
  by (simp add: all_terminal_def is_all_parallel_nodes_completed_def get_map_def
      required_steps_def weather_failed_status_def no_keys_def)

text \<open>
  C3 (amended): the gate holds exactly when the status of every required step is
  \<open>completed\<close>; a step that is absent, pending, in progress or failed makes it false.
\<close>

theorem gate_iff_all_completed:
  "is_all_parallel_nodes_completed state nodes \<longleftrightarrow>
     (\<forall>n \<in> set nodes. get_map (node_status state) n = Some ''completed'')"
  by (simp add: is_all_parallel_nodes_completed_def list_all_iff)

theorem gate_iff_all_completed_witness:
  "is_all_parallel_nodes_completed
     (no_keys \<lparr> node_status := Some all_completed_status \<rparr>) required_steps"
  using gate_iff_all_completed
    [of "no_keys \<lparr> node_status := Some all_completed_status \<rparr>" required_steps]
  by (simp add: get_map_def required_steps_def all_completed_status_def no_keys_def)

subsection \<open>The deterministic fallback plan\<close>

lemma collect_all_Inr:
  "list_all (\<lambda>r. \<not> isl r) rs \<Longrightarrow> collect rs = Inr (map projr rs)"
  by (induction rs) (auto split: sum.splits)

lemma collect_map_Inr:
  "(\<And>x. x \<in> set xs \<Longrightarrow> f x = Inr (g x)) \<Longrightarrow> collect (map f xs) = Inr (map g xs)"
  by (induction xs) auto

lemma py_sum_from_const:
  "py_sum_from (PInt a) (map (\<lambda>_. PInt c) xs) = Inr (PInt (a + c * int (length xs)))"
  by (induction xs arbitrary: a) (auto simp: algebra_simps)

lemma py_sum_fallback_meals:
  "py_sum (map m_estimated_cost fallback_meals) = Inr (PInt 190)"
  by (simp add: py_sum_def fallback_meals_def)

lemma fallback_day_Inr:
  assumes "toordinal start + i \<le> MAXORDINAL"
  shows "\<exists>d. fallback_day req start i = Inr d \<and> length (d_attractions d) = 2
               \<and> d_meals d = fallback_meals"
  using assms by (simp add: fallback_day_def add_days_def py_range_def)

lemma fallback_days_Inr:
  assumes "toordinal start + nat n \<le> MAXORDINAL + 1"
  shows "\<exists>ds. collect (map (fallback_day req start) (py_range n)) = Inr ds
               \<and> length ds = nat n
               \<and> list_all (\<lambda>d. length (d_attractions d) = 2 \<and> d_meals d = fallback_meals) ds"
proof -
  have ok: "list_all (\<lambda>r. \<not> isl r) (map (fallback_day req start) (py_range n))"
    unfolding list_all_iff
  proof
    fix r assume "r \<in> set (map (fallback_day req start) (py_range n))"
    then obtain i where i: "i < nat n" and r: "r = fallback_day req start i"
      by (auto simp: py_range_def)
    from i assms have "toordinal start + i \<le> MAXORDINAL" by simp
    from fallback_day_Inr [OF this, of req] r show "\<not> isl r" by auto
  qed
  have each: "list_all (\<lambda>d. length (d_attractions d) = 2 \<and> d_meals d = fallback_meals)
                (map projr (map (fallback_day req start) (py_range n)))"
    unfolding list_all_iff
  proof
    fix d assume "d \<in> set (map projr (map (fallback_day req start) (py_range n)))"
    then obtain i where i: "i < nat n" and d: "d = projr (fallback_day req start i)"
      by (auto simp: py_range_def)
    from i assms have "toordinal start + i \<le> MAXORDINAL" by simp
    from fallback_day_Inr [OF this, of req] d
    show "length (d_attractions d) = 2 \<and> d_meals d = fallback_meals" by auto
  qed
  from collect_all_Inr [OF ok] each show ?thesis
    by (intro exI conjI) (assumption, simp add: py_range_def, assumption)
qed

lemma sum_attractions:
  "list_all (\<lambda>d. length (d_attractions d) = 2 \<and> d_meals d = fallback_meals) ds \<Longrightarrow>
   sum_list (map (\<lambda>d. int (length (d_attractions d)) * 50) ds) = 100 * int (length ds)"
  by (induction ds) auto

lemma meals_of_days:
  "list_all (\<lambda>d. length (d_attractions d) = 2 \<and> d_meals d = fallback_meals) ds \<Longrightarrow>
   collect (map (\<lambda>d. py_sum (map m_estimated_cost (d_meals d))) ds)
     = Inr (map (\<lambda>_. PInt 190) ds)"
  by (rule collect_map_Inr) (simp add: list_all_iff py_sum_fallback_meals)

lemma meal_costs_of_fallback_meals:
  "map m_estimated_cost fallback_meals = [PInt 30, PInt 60, PInt 100]"
  by (simp add: fallback_meals_def)

text \<open>
  A start date that the parser accepts and that lies before the year 9999 leaves room for
  thirty more days below the largest ordinal, so the day arithmetic of a plan of at most
  thirty days cannot overflow.
\<close>

lemma month_alternatives_bound:
  "(m, r) \<in> set (month_alternatives s) \<Longrightarrow> 1 \<le> m \<and> m \<le> 12"
  by (cases s; cases "tl s")
     (auto simp: digit_val_def split: if_splits)

lemma day_alternatives_bound:
  "(d, r) \<in> set (day_alternatives s) \<Longrightarrow> d \<le> 31"
  by (cases s; cases "tl s")
     (auto simp: digit_val_def is_digit_def split: if_splits)

lemma digit_val_bound:
  "is_digit c \<Longrightarrow> digit_val c \<le> 9"
  by (auto simp: is_digit_def digit_val_def)

lemma month_day_matches_bound:
  assumes "(m, d, rest) \<in> set (month_day_matches r)"
  shows "1 \<le> m \<and> m \<le> 12 \<and> d \<le> 31"
proof -
  from assms obtain x where x: "x \<in> set (month_alternatives r)"
    and in_x: "(m, d, rest) \<in> set (case x of (m, r1) \<Rightarrow>
                (case r1 of
                   h2 # r2 \<Rightarrow>
                     if h2 = CHR ''-''
                     then map (\<lambda>(d, r3). (m, d, r3)) (day_alternatives r2)
                     else []
                 | [] \<Rightarrow> []))"
    unfolding month_day_matches_def set_concat set_map by blast
  obtain m' r1 where x_def: "x = (m', r1)" by (cases x)
  from in_x x_def obtain h2 r2 where r1: "r1 = h2 # r2"
    by (cases r1) simp_all
  from in_x x_def r1 have "(m, d, rest) \<in> set (map (\<lambda>(d, r3). (m', d, r3)) (day_alternatives r2))"
    by (simp split: if_splits)
  then obtain z where "z \<in> set (day_alternatives r2)"
    and "(m, d, rest) = (case z of (d, r3) \<Rightarrow> (m', d, r3))"
    unfolding set_map by (rule imageE)
  then have "m = m'" and "(d, rest) \<in> set (day_alternatives r2)"
    by (simp_all add: case_prod_beta prod_eq_iff)
  with x x_def month_alternatives_bound [of m r1 r] day_alternatives_bound [of d rest r2]
  show ?thesis by simp
qed

lemma match_ymd_bounds:
  assumes "match_ymd s = Some (y, m, d, rest)"
  shows "y \<le> 9999 \<and> 1 \<le> m \<and> m \<le> 12 \<and> d \<le> 31"
proof -
  from assms obtain y1 y2 y3 y4 h1 r where s: "s = y1 # y2 # y3 # y4 # h1 # r"
    unfolding match_ymd_def by (simp split: list.splits)
  from assms s have dig: "is_digit y1" "is_digit y2" "is_digit y3" "is_digit y4"
    unfolding match_ymd_def by (simp_all split: if_splits)
  from assms s dig obtain rest' where
    hd: "month_day_matches r = (m, d, rest) # rest'"
    and y: "y = 1000 * digit_val y1 + 100 * digit_val y2 + 10 * digit_val y3 + digit_val y4"
    unfolding match_ymd_def by (simp split: if_splits list.splits prod.splits)
  from hd have "(m, d, rest) \<in> set (month_day_matches r)" by simp
  from month_day_matches_bound [OF this] y dig [THEN digit_val_bound]
  show ?thesis by simp
qed


lemma days_before_month_bound:
  assumes "1 \<le> m" and "m \<le> 12"
  shows "days_before_month y m \<le> 335"
proof -
  from assms have "m \<in> {1, 2, 3, 4, 5, 6, 7, 8, 9, 10, 11, 12}" by simp arith
  then have "DAYS_BEFORE_MONTH ! m \<le> 334"
    unfolding DAYS_BEFORE_MONTH_def by auto
  then show ?thesis unfolding days_before_month_def by simp
qed

lemma days_before_year_bound:
  assumes "y \<le> 9998"
  shows "days_before_year y \<le> 3651428"
proof -
  define k where "k = y - 1"
  from assms have "k \<le> 9997" unfolding k_def by simp
  then have "k * 365 \<le> 9997 * 365" and "k div 4 \<le> 9997 div 4"
    and "k div 400 \<le> 9997 div 400"
    by (simp_all only: mult_le_mono1 div_le_mono)
  then have "k * 365 + k div 4 + k div 400 \<le> 3651428" by simp
  moreover have "k * 365 + k div 4 - k div 100 + k div 400 \<le> k * 365 + k div 4 + k div 400"
    by simp
  ultimately have "k * 365 + k div 4 - k div 100 + k div 400 \<le> 3651428"
    by (rule order_trans [rotated])
  then show ?thesis unfolding days_before_year_def k_def .
qed

lemma strptime_ymd_ordinal:
  assumes "strptime_ymd s = Inr start" and "year start \<le> 9998" and "n \<le> 30"
  shows "toordinal start + n \<le> MAXORDINAL + 1"
proof -
  from assms(1) obtain y m d rest where matched: "match_ymd s = Some (y, m, d, rest)"
    unfolding strptime_ymd_def by (cases "match_ymd s") auto
  with assms(1) have start: "start = \<lparr> year = y, month = m, day = d \<rparr>"
    unfolding strptime_ymd_def by (simp split: if_splits)
  from match_ymd_bounds [OF matched] have m: "1 \<le> m" "m \<le> 12" and d: "d \<le> 31"
    by simp_all
  from assms(2) start have y: "days_before_year y \<le> 3651428"
    by (simp add: days_before_year_bound)
  from start have "toordinal start = days_before_year y + days_before_month y m + d"
    unfolding toordinal_def by simp
  with y days_before_month_bound [OF m, of y] d assms(3) show ?thesis
    unfolding MAXORDINAL_def by simp
qed

text \<open>
  C5: for a request with a day count \<open>d\<close> from 1 to 30 whose start date parses and whose
  last day is a date of the calendar, the fallback generator returns a plan with \<open>d\<close> day
  plans, each with two placeholder attractions and meals costing 30, 60 and 100; the
  budget has the subtotals \<open>50 * 2 * d\<close>, \<open>400 * d\<close>, \<open>190 * d\<close> and 100, and its total is
  their sum.
\<close>

theorem fallback_plan_budget:
  assumes "1 \<le> travel_days req" and "travel_days req \<le> 30"
    and "strptime_ymd (start_date req) = Inr start"
    and "toordinal start + nat (travel_days req) \<le> MAXORDINAL + 1"
  shows "\<exists>plan. create_fallback_plan req = Inr plan
     \<and> int (length (days plan)) = travel_days req
     \<and> list_all (\<lambda>d. length (d_attractions d) = 2
                     \<and> map m_estimated_cost (d_meals d) = [PInt 30, PInt 60, PInt 100])
          (days plan)
     \<and> total_attractions (budget plan) = PInt (50 * 2 * travel_days req)
     \<and> total_hotels (budget plan) = PInt (400 * travel_days req)
     \<and> total_meals (budget plan) = PInt (190 * travel_days req)
     \<and> total_transportation (budget plan) = PInt 100
     \<and> total (budget plan) =
         PInt (50 * 2 * travel_days req + 400 * travel_days req + 190 * travel_days req + 100)"
proof -
  from fallback_days_Inr [OF assms(4), of req] obtain ds where
    ds: "collect (map (fallback_day req start) (py_range (travel_days req))) = Inr ds"
    and len: "length ds = nat (travel_days req)"
    and each: "list_all (\<lambda>d. length (d_attractions d) = 2 \<and> d_meals d = fallback_meals) ds"
    by blast
  have len': "int (length ds) = travel_days req"
    using len assms(1) by simp
  have meals: "py_sum (map (\<lambda>_. PInt 190) ds) = Inr (PInt (190 * travel_days req))"
    using py_sum_from_const [of 0 190 ds] len' by (simp add: py_sum_def)
  have each': "list_all (\<lambda>d. length (d_attractions d) = 2
        \<and> map m_estimated_cost (d_meals d) = [PInt 30, PInt 60, PInt 100]) ds"
    using each by (simp add: list_all_iff meal_costs_of_fallback_meals)
  show ?thesis
    using assms(3) ds len' each' meals
    by (simp add: create_fallback_plan_def meals_of_days [OF each] sum_attractions [OF each])
qed

theorem fallback_plan_budget_witness:
  "\<exists>plan. create_fallback_plan beijing_request = Inr plan
     \<and> length (days plan) = 3
     \<and> list_all (\<lambda>d. length (d_attractions d) = 2
                     \<and> map m_estimated_cost (d_meals d) = [PInt 30, PInt 60, PInt 100])
          (days plan)
     \<and> total_attractions (budget plan) = PInt 300
     \<and> total_hotels (budget plan) = PInt 1200
     \<and> total_meals (budget plan) = PInt 570
     \<and> total_transportation (budget plan) = PInt 100
     \<and> total (budget plan) = PInt 2170"
proof -
  have start: "strptime_ymd (start_date beijing_request)
                 = Inr \<lparr> year = 2025, month = 6, day = 1 \<rparr>"
    by (simp add: beijing_request_def strptime_ymd_def match_ymd_def month_day_matches_def is_digit_def
        digit_val_def days_in_month_def DAYS_IN_MONTH_def)
  have last: "toordinal \<lparr> year = 2025, month = 6, day = 1 \<rparr>
                + nat (travel_days beijing_request) \<le> MAXORDINAL + 1"
    by (simp add: beijing_request_def toordinal_def days_before_year_def
        days_before_month_def DAYS_BEFORE_MONTH_def MAXORDINAL_def)
  have d: "travel_days beijing_request = 3"
    by (simp add: beijing_request_def)
  from fallback_plan_budget [OF _ _ start last] d show ?thesis
    by simp
qed

subsection \<open>The in-memory cache\<close>

lemma get_redis_memory_path:
  "memory_path w \<Longrightarrow> get_redis w = (False, w)"
  by (auto simp: memory_path_def get_redis_def)

text \<open>
  C10: on the in-memory path, \<open>set\<close> succeeds and records the value together with the
  expiry time \<open>now + ttl\<close>. In every later state of the world that is still on the
  in-memory path and holds the same in-memory dict, whatever its clock shows, \<open>get\<close>
  returns the value unchanged and leaves the dict as it is: the recorded expiry is never
  read.
\<close>

theorem memory_cache_never_expires:
  assumes "memory_path w"
    and "ttl \<noteq> 0"
    and "memory_path w2"
    and "memory_cache w2 = memory_cache (snd (CacheService_set k v (Some ttl) w))"
  shows "fst (CacheService_set k v (Some ttl) w)
     \<and> memory_cache (snd (CacheService_set k v (Some ttl) w)) k
         = Some \<lparr> e_value = v, e_expires = now w + ttl \<rparr>
     \<and> fst (CacheService_get k w2) = Some v
     \<and> memory_cache (snd (CacheService_get k w2)) = memory_cache w2"
proof -
  have set_w: "CacheService_set k v (Some ttl) w =
      (True, w \<lparr> memory_cache :=
                   (memory_cache w)(k \<mapsto> \<lparr> e_value = v, e_expires = now w + ttl \<rparr>) \<rparr>)"
    using assms(1,2) get_redis_memory_path [OF assms(1)]
    by (simp add: CacheService_set_def memory_path_def)
  have entry: "memory_cache w2 k = Some \<lparr> e_value = v, e_expires = now w + ttl \<rparr>"
    using assms(4) set_w by simp
  have get_w2: "CacheService_get k w2 = (Some v, w2)"
    using assms(3) get_redis_memory_path [OF assms(3)] entry
    by (simp add: CacheService_get_def memory_path_def)
  show ?thesis
    using set_w get_w2 by simp
qed

theorem memory_cache_never_expires_witness:
  "fst (CacheService_set ''weather:Beijing'' [] (Some 1800) fresh_world)
   \<and> memory_cache (snd (CacheService_set ''weather:Beijing'' [] (Some 1800) fresh_world))
        ''weather:Beijing'' = Some \<lparr> e_value = [], e_expires = 1800 \<rparr>
   \<and> fst (CacheService_get ''weather:Beijing''
        (snd (CacheService_set ''weather:Beijing'' [] (Some 1800) fresh_world)
           \<lparr> now := 1000000 \<rparr>)) = Some []"
proof -
  let ?w1 = "snd (CacheService_set ''weather:Beijing'' [] (Some 1800) fresh_world)"
  have 1: "memory_path fresh_world"
    by (simp add: memory_path_def fresh_world_def)
  have 2: "memory_path (?w1 \<lparr> now := 1000000 \<rparr>)"
    by (simp add: memory_path_def fresh_world_def CacheService_set_def get_redis_def)
  have 3: "memory_cache (?w1 \<lparr> now := 1000000 \<rparr>) = memory_cache ?w1"
    by simp
  from memory_cache_never_expires [OF 1 _ 2 3] show ?thesis
    by (simp add: fresh_world_def)
qed

subsection \<open>The data-gathering steps\<close>

lemma attraction_try_raises:
  "fst (attraction_try svc state req w) = Inl e \<longleftrightarrow> step_raises svc ''search_attractions'' req w e"
  unfolding step_raises_def attraction_try_def step_cache_key_def step_provider_def
    step_convert_def step_ttl_def Let_def
  by (auto split: prod.splits sum.splits)

lemma weather_try_raises:
  "fst (weather_try svc state req w) = Inl e \<longleftrightarrow> step_raises svc ''query_weather'' req w e"
  unfolding step_raises_def weather_try_def step_cache_key_def step_provider_def
    step_convert_def step_ttl_def Let_def
  by (auto split: prod.splits sum.splits)

lemma hotel_try_raises:
  "fst (hotel_try svc state req w) = Inl e \<longleftrightarrow> step_raises svc ''search_hotels'' req w e"
  unfolding step_raises_def hotel_try_def step_cache_key_def step_provider_def
    step_convert_def step_ttl_def Let_def
  by (auto split: prod.splits sum.splits)

lemma attraction_try_returns:
  "attraction_try svc state req w = (Inr u, w') \<Longrightarrow>
     get_map (node_timings u) ''search_attractions'' = Some (elapsed_ms svc w')
     \<and> get_map (node_status u) ''search_attractions'' = Some ''completed''
     \<and> node_errors u = None"
  unfolding attraction_try_def Let_def
  by (auto simp: attraction_done_def put_def get_map_def no_keys_def
      split: prod.splits sum.splits if_splits)

lemma weather_try_returns:
  "weather_try svc state req w = (Inr u, w') \<Longrightarrow>
     get_map (node_timings u) ''query_weather'' = Some (elapsed_ms svc w')
     \<and> get_map (node_status u) ''query_weather'' = Some ''completed''
     \<and> node_errors u = None"
  unfolding weather_try_def Let_def
  by (auto simp: weather_done_def put_def get_map_def no_keys_def
      split: prod.splits sum.splits if_splits)

lemma hotel_try_returns:
  "hotel_try svc state req w = (Inr u, w') \<Longrightarrow>
     get_map (node_timings u) ''search_hotels'' = Some (elapsed_ms svc w')
     \<and> get_map (node_status u) ''search_hotels'' = Some ''completed''
     \<and> node_errors u = None"
  unfolding hotel_try_def Let_def
  by (auto simp: hotel_done_def put_def get_map_def no_keys_def
      split: prod.splits sum.splits if_splits)

text \<open>
  What a step returns, by what its \<open>try\<close> block does: an exception gives the dict of the
  handler, a return value is passed on.
\<close>

lemma attraction_node_cases:
  assumes "request state = Some req"
  shows "(\<exists>e w'. attraction_try svc state req w = (Inl e, w')
           \<and> attraction_node svc state w = (Inr (attraction_failed svc state e w'), w'))
       \<or> (\<exists>u w'. attraction_try svc state req w = (Inr u, w')
           \<and> attraction_node svc state w = (Inr u, w'))"
  using assms by (cases "attraction_try svc state req w")
    (auto simp: attraction_node_def split: sum.splits)

lemma weather_node_cases:
  assumes "request state = Some req"
  shows "(\<exists>e w'. weather_try svc state req w = (Inl e, w')
           \<and> weather_node svc state w = (Inr (weather_failed svc state e w'), w'))
       \<or> (\<exists>u w'. weather_try svc state req w = (Inr u, w')
           \<and> weather_node svc state w = (Inr u, w'))"
  using assms by (cases "weather_try svc state req w")
    (auto simp: weather_node_def split: sum.splits)

lemma hotel_node_cases:
  assumes "request state = Some req"
  shows "(\<exists>e w'. hotel_try svc state req w = (Inl e, w')
           \<and> hotel_node svc state w = (Inr (hotel_failed svc state e w'), w'))
       \<or> (\<exists>u w'. hotel_try svc state req w = (Inr u, w')
           \<and> hotel_node svc state w = (Inr u, w'))"
  using assms by (cases "hotel_try svc state req w")
    (auto simp: hotel_node_def split: sum.splits)

lemma attraction_node_never_raises:
  assumes "request state = Some req"
  shows "\<exists>u w'. attraction_node svc state w = (Inr u, w')
     \<and> get_map (node_timings u) ''search_attractions'' = Some (elapsed_ms svc w')
     \<and> (\<forall>e. step_raises svc ''search_attractions'' req w e \<longrightarrow>
           get_map (node_status u) ''search_attractions'' = Some ''failed''
           \<and> attractions u = Some []
           \<and> get_map (node_errors u) ''search_attractions'' = Some (str_of_error e))
     \<and> ((\<forall>e. \<not> step_raises svc ''search_attractions'' req w e) \<longrightarrow>
           get_map (node_status u) ''search_attractions'' = Some ''completed''
           \<and> node_errors u = None)"
  using attraction_node_cases [OF assms, of svc w]
proof (elim disjE exE conjE)
  fix e w'
  assume t: "attraction_try svc state req w = (Inl e, w')"
    and n: "attraction_node svc state w = (Inr (attraction_failed svc state e w'), w')"
  have only: "step_raises svc ''search_attractions'' req w e' \<longleftrightarrow> e' = e" for e'
    using t attraction_try_raises [of svc state req w e'] by auto
  show ?thesis
    using n only
    by (auto simp: attraction_failed_def put_def get_map_def no_keys_def)
next
  fix u w'
  assume t: "attraction_try svc state req w = (Inr u, w')"
    and n: "attraction_node svc state w = (Inr u, w')"
  have none: "\<not> step_raises svc ''search_attractions'' req w e" for e
    using t attraction_try_raises [of svc state req w e] by auto
  show ?thesis
    using n none attraction_try_returns [OF t] by auto
qed

lemma weather_node_never_raises:
  assumes "request state = Some req"
  shows "\<exists>u w'. weather_node svc state w = (Inr u, w')
     \<and> get_map (node_timings u) ''query_weather'' = Some (elapsed_ms svc w')
     \<and> (\<forall>e. step_raises svc ''query_weather'' req w e \<longrightarrow>
           get_map (node_status u) ''query_weather'' = Some ''failed''
           \<and> weather u = Some []
           \<and> get_map (node_errors u) ''query_weather'' = Some (str_of_error e))
     \<and> ((\<forall>e. \<not> step_raises svc ''query_weather'' req w e) \<longrightarrow>
           get_map (node_status u) ''query_weather'' = Some ''completed''
           \<and> node_errors u = None)"
  using weather_node_cases [OF assms, of svc w]
proof (elim disjE exE conjE)
  fix e w'
  assume t: "weather_try svc state req w = (Inl e, w')"
    and n: "weather_node svc state w = (Inr (weather_failed svc state e w'), w')"
  have only: "step_raises svc ''query_weather'' req w e' \<longleftrightarrow> e' = e" for e'
    using t weather_try_raises [of svc state req w e'] by auto
  show ?thesis
    using n only
    by (auto simp: weather_failed_def put_def get_map_def no_keys_def)
next
  fix u w'
  assume t: "weather_try svc state req w = (Inr u, w')"
    and n: "weather_node svc state w = (Inr u, w')"
  have none: "\<not> step_raises svc ''query_weather'' req w e" for e
    using t weather_try_raises [of svc state req w e] by auto
  show ?thesis
    using n none weather_try_returns [OF t] by auto
qed

lemma hotel_node_never_raises:
  assumes "request state = Some req"
  shows "\<exists>u w'. hotel_node svc state w = (Inr u, w')
     \<and> get_map (node_timings u) ''search_hotels'' = Some (elapsed_ms svc w')
     \<and> (\<forall>e. step_raises svc ''search_hotels'' req w e \<longrightarrow>
           get_map (node_status u) ''search_hotels'' = Some ''failed''
           \<and> hotels u = Some []
           \<and> get_map (node_errors u) ''search_hotels'' = Some (str_of_error e))
     \<and> ((\<forall>e. \<not> step_raises svc ''search_hotels'' req w e) \<longrightarrow>
           get_map (node_status u) ''search_hotels'' = Some ''completed''
           \<and> node_errors u = None)"
  using hotel_node_cases [OF assms, of svc w]
proof (elim disjE exE conjE)
  fix e w'
  assume t: "hotel_try svc state req w = (Inl e, w')"
    and n: "hotel_node svc state w = (Inr (hotel_failed svc state e w'), w')"
  have only: "step_raises svc ''search_hotels'' req w e' \<longleftrightarrow> e' = e" for e'
    using t hotel_try_raises [of svc state req w e'] by auto
  show ?thesis
    using n only
    by (auto simp: hotel_failed_def put_def get_map_def no_keys_def)
next
  fix u w'
  assume t: "hotel_try svc state req w = (Inr u, w')"
    and n: "hotel_node svc state w = (Inr u, w')"
  have none: "\<not> step_raises svc ''search_hotels'' req w e" for e
    using t hotel_try_raises [of svc state req w e] by auto
  show ?thesis
    using n none hotel_try_returns [OF t] by auto
qed

text \<open>
  C6: each data-gathering step, run on a state that contains a request, returns a dict
  and never an exception, whatever the cache, the provider and the decoder do. The dict
  has the elapsed time under the step's name in the timings. Whenever the cache lookup,
  the provider call, the parsing or the cache write throws \<open>e\<close>, the dict has the status
  \<open>failed\<close> for the step, an empty result list, and the text of \<open>e\<close> under the step's name
  in the errors; when none of them throws, the status is \<open>completed\<close>.
\<close>

theorem gathering_step_never_raises:
  assumes "step \<in> set required_steps" and "request state = Some req"
  shows "\<exists>u w'. run_step svc step state w = (Inr u, w')
     \<and> get_map (node_timings u) step = Some (elapsed_ms svc w')
     \<and> (\<forall>e. step_raises svc step req w e \<longrightarrow>
           get_map (node_status u) step = Some ''failed''
           \<and> result_list step u = Some []
           \<and> get_map (node_errors u) step = Some (str_of_error e))
     \<and> ((\<forall>e. \<not> step_raises svc step req w e) \<longrightarrow>
           get_map (node_status u) step = Some ''completed''
           \<and> node_errors u = None)"
proof -
  from assms(1) consider "step = ''search_attractions''" | "step = ''query_weather''"
    | "step = ''search_hotels''"
    by (auto simp: required_steps_def)
  then show ?thesis
  proof cases
    case 1
    with attraction_node_never_raises [OF assms(2), of svc w] show ?thesis
      by (simp add: run_step_def result_list_def)
  next
    case 2
    with weather_node_never_raises [OF assms(2), of svc w] show ?thesis
      by (simp add: run_step_def result_list_def)
  next
    case 3
    with hotel_node_never_raises [OF assms(2), of svc w] show ?thesis
      by (simp add: run_step_def result_list_def)
  qed
qed

theorem gathering_step_never_raises_witness:
  "step_raises (the_services example_answers) ''search_hotels'' beijing_request fresh_world
     (Raised ''provider down'')
   \<and> (\<exists>u w'. run_step (the_services example_answers) ''search_hotels''
                 (create_initial_state None beijing_request) fresh_world = (Inr u, w')
        \<and> get_map (node_timings u) ''search_hotels'' = Some 5
        \<and> get_map (node_status u) ''search_hotels'' = Some ''failed''
        \<and> hotels u = Some []
        \<and> get_map (node_errors u) ''search_hotels'' = Some ''provider down'')"
proof -
  let ?svc = "the_services example_answers"
  have raises: "step_raises ?svc ''search_hotels'' beijing_request fresh_world
      (Raised ''provider down'')"
    by (simp add: step_raises_def the_services_def example_answers_def step_cache_key_def
        step_provider_def CacheService_get_def get_redis_def fresh_world_def truthy_def)
  have step: "''search_hotels'' \<in> set required_steps"
    by (simp add: required_steps_def)
  have req: "request (create_initial_state None beijing_request) = Some beijing_request"
    by (simp add: create_initial_state_def no_keys_def)
  from gathering_step_never_raises [OF step req, of ?svc fresh_world] raises
  show ?thesis
    by (auto simp: result_list_def the_services_def example_answers_def)
qed

subsection \<open>Caching in the data-gathering steps\<close>

lemma CacheService_get_world:
  "snd (CacheService_get k w) = (if cache_enabled w then snd (get_redis w) else w)"
  by (auto simp: CacheService_get_def Let_def split: prod.splits sum.splits option.splits)

lemma get_redis_ready:
  assumes "cache_ready w"
  shows "cache_ready (snd (get_redis w))"
    "now (snd (get_redis w)) = now w"
    "poi_calls (snd (get_redis w)) = poi_calls w"
    "weather_calls (snd (get_redis w)) = weather_calls w"
    "hotel_calls (snd (get_redis w)) = hotel_calls w"
  using assms by (auto simp: cache_ready_def memory_path_def redis_path_def get_redis_def)

lemma CacheService_get_keeps:
  assumes "cache_ready w"
  shows "cache_ready (snd (CacheService_get k w))"
    "now (snd (CacheService_get k w)) = now w"
    "poi_calls (snd (CacheService_get k w)) = poi_calls w"
    "weather_calls (snd (CacheService_get k w)) = weather_calls w"
    "hotel_calls (snd (CacheService_get k w)) = hotel_calls w"
  using get_redis_ready [OF assms] assms by (simp_all add: CacheService_get_world)

lemma counters_ready:
  "cache_ready (w \<lparr> poi_calls := n \<rparr>) = cache_ready w"
  "cache_ready (w \<lparr> weather_calls := n \<rparr>) = cache_ready w"
  "cache_ready (w \<lparr> hotel_calls := n \<rparr>) = cache_ready w"
  by (simp_all add: cache_ready_def memory_path_def redis_path_def)

text \<open>
  With a backend that answers, a write succeeds, records the expiry \<open>now + ttl\<close>, and is
  read back at any time before that expiry.
\<close>

lemma CacheService_set_ready:
  assumes "cache_ready w" and "0 < ttl"
  shows "\<exists>w'. CacheService_set k v (Some ttl) w = (True, w')
     \<and> cached_until w' k = Some (now w + ttl)
     \<and> (\<forall>t. t < now w + ttl \<longrightarrow>
           CacheService_get k (w' \<lparr> now := t \<rparr>) = (Some v, w' \<lparr> now := t \<rparr>))"
  using assms
  by (auto simp: cache_ready_def memory_path_def redis_path_def get_redis_def
      CacheService_set_def CacheService_get_def redis_setex_def redis_get_def cached_until_def
      Let_def)

lemma attraction_try_the_services:
  "attraction_try (the_services a) state req w =
     (let k = attraction_cache_key req;
          g = CacheService_get k w;
          w0 = snd g
      in if truthy (fst g)
         then (Inr (attraction_done (the_services a) state (the (fst g)) w0), w0)
         else
           let w2 = w0 \<lparr> poi_calls := Suc (poi_calls w0) \<rparr>
           in case poi_answer a (poi_calls w0) (attraction_keywords req) (city req) of
                Inl e \<Rightarrow> (Inl e, w2)
              | Inr s \<Rightarrow>
                  (case decode a s of
                     Inl e \<Rightarrow> (Inl e, w2)
                   | Inr r \<Rightarrow>
                       (case parse_pois (the_services a) r of
                          Inl e \<Rightarrow> (Inl e, w2)
                        | Inr found \<Rightarrow>
                            (Inr (attraction_done (the_services a) state found
                                    (snd (CacheService_set k found (Some 7200) w2))),
                             snd (CacheService_set k found (Some 7200) w2)))))"
  by (simp add: attraction_try_def the_services_def Let_def split: sum.splits)

lemma attraction_first_miss:
  assumes ready: "cache_ready w"
      and first: "attraction_try (the_services a) state req w = (Inr u, w1)"
      and invoked: "poi_calls w1 = Suc (poi_calls w)"
      and res: "attractions u = Some found"
  shows "cached_until w1 (attraction_cache_key req) = Some (now w + 7200)
     \<and> (\<forall>t. t < now w + 7200 \<longrightarrow>
           CacheService_get (attraction_cache_key req) (w1 \<lparr> now := t \<rparr>)
             = (Some found, w1 \<lparr> now := t \<rparr>))"
proof -
  define k where "k = attraction_cache_key req"
  define w0 where "w0 = snd (CacheService_get k w)"
  define w2 where "w2 = w0 \<lparr> poi_calls := Suc (poi_calls w0) \<rparr>"
  note keeps = CacheService_get_keeps [OF ready, of k, folded w0_def]
  have ready2: "cache_ready w2" and now2: "now w2 = now w"
    using keeps by (simp_all add: counters_ready w2_def)
  show ?thesis
  proof (cases "truthy (fst (CacheService_get k w))")
    case True
    with first have "w1 = w0"
      by (simp add: attraction_try_the_services Let_def k_def w0_def)
    with invoked keeps show ?thesis by simp
  next
    case False
    with first obtain found' where
      u: "u = attraction_done (the_services a) state found'
                (snd (CacheService_set k found' (Some 7200) w2))"
      and w1: "w1 = snd (CacheService_set k found' (Some 7200) w2)"
      by (auto simp: attraction_try_the_services Let_def k_def w0_def w2_def
          split: sum.splits)
    from u res have "found' = found"
      by (simp add: attraction_done_def no_keys_def)
    with CacheService_set_ready [OF ready2, of 7200 k found] w1 now2 show ?thesis
      by (auto simp: k_def)
  qed
qed

lemma attraction_node_hit:
  assumes "request state = Some req"
    and "CacheService_get (attraction_cache_key req) w = (Some found, w')"
    and "found \<noteq> []"
  shows "attraction_node (the_services a) state w
           = (Inr (attraction_done (the_services a) state found w'), w')"
  using assms
  by (simp add: attraction_node_def attraction_try_the_services Let_def truthy_def)

lemma attraction_second_call:
  assumes req: "request state = Some req" and req': "request state' = Some req"
    and ready: "cache_ready w"
    and first: "attraction_node (the_services a) state w = (Inr u, w1)"
    and invoked: "poi_calls w1 = Suc (poi_calls w)"
    and completed: "get_map (node_status u) ''search_attractions'' = Some ''completed''"
    and res: "attractions u = Some found" and nonempty: "found \<noteq> []"
    and t: "t < now w + 7200"
  shows "\<exists>u'. attraction_node (the_services a) state' (w1 \<lparr> now := t \<rparr>)
                 = (Inr u', w1 \<lparr> now := t \<rparr>)
     \<and> attractions u' = Some found
     \<and> get_map (node_status u') ''search_attractions'' = Some ''completed''
     \<and> cached_until w1 (attraction_cache_key req) = Some (now w + 7200)"
proof -
  from attraction_node_cases [OF req, of "the_services a" w] first completed
  have tried: "attraction_try (the_services a) state req w = (Inr u, w1)"
    by (auto simp: attraction_failed_def put_def get_map_def no_keys_def)
  from attraction_first_miss [OF ready tried invoked res] t
  have until: "cached_until w1 (attraction_cache_key req) = Some (now w + 7200)"
    and hit: "CacheService_get (attraction_cache_key req) (w1 \<lparr> now := t \<rparr>)
                = (Some found, w1 \<lparr> now := t \<rparr>)"
    by simp_all
  from attraction_node_hit [OF req' hit nonempty, of a] until show ?thesis
    by (simp add: attraction_done_def put_def get_map_def no_keys_def)
qed

lemma weather_try_the_services:
  "weather_try (the_services a) state req w =
     (let k = weather_cache_key req;
          g = CacheService_get k w;
          w0 = snd g
      in if truthy (fst g)
         then (Inr (weather_done (the_services a) state (the (fst g)) w0), w0)
         else
           let w2 = w0 \<lparr> weather_calls := Suc (weather_calls w0) \<rparr>
           in case weather_answer a (weather_calls w0) (city req) of
                Inl e \<Rightarrow> (Inl e, w2)
              | Inr s \<Rightarrow>
                  (case decode a s of
                     Inl e \<Rightarrow> (Inl e, w2)
                   | Inr r \<Rightarrow>
                       (case parse_forecast r of
                          Inl e \<Rightarrow> (Inl e, w2)
                        | Inr found \<Rightarrow>
                            (Inr (weather_done (the_services a) state found
                                    (snd (CacheService_set k found (Some 1800) w2))),
                             snd (CacheService_set k found (Some 1800) w2)))))"
  by (simp add: weather_try_def the_services_def Let_def split: sum.splits)

lemma weather_first_miss:
  assumes ready: "cache_ready w"
      and first: "weather_try (the_services a) state req w = (Inr u, w1)"
      and invoked: "weather_calls w1 = Suc (weather_calls w)"
      and res: "weather u = Some found"
  shows "cached_until w1 (weather_cache_key req) = Some (now w + 1800)
     \<and> (\<forall>t. t < now w + 1800 \<longrightarrow>
           CacheService_get (weather_cache_key req) (w1 \<lparr> now := t \<rparr>)
             = (Some found, w1 \<lparr> now := t \<rparr>))"
proof -
  define k where "k = weather_cache_key req"
  define w0 where "w0 = snd (CacheService_get k w)"
  define w2 where "w2 = w0 \<lparr> weather_calls := Suc (weather_calls w0) \<rparr>"
  note keeps = CacheService_get_keeps [OF ready, of k, folded w0_def]
  have ready2: "cache_ready w2" and now2: "now w2 = now w"
    using keeps by (simp_all add: counters_ready w2_def)
  show ?thesis
  proof (cases "truthy (fst (CacheService_get k w))")
    case True
    with first have "w1 = w0"
      by (simp add: weather_try_the_services Let_def k_def w0_def)
    with invoked keeps show ?thesis by simp
  next
    case False
    with first obtain found' where
      u: "u = weather_done (the_services a) state found'
                (snd (CacheService_set k found' (Some 1800) w2))"
      and w1: "w1 = snd (CacheService_set k found' (Some 1800) w2)"
      by (auto simp: weather_try_the_services Let_def k_def w0_def w2_def
          split: sum.splits)
    from u res have "found' = found"
      by (simp add: weather_done_def no_keys_def)
    with CacheService_set_ready [OF ready2, of 1800 k found] w1 now2 show ?thesis
      by (auto simp: k_def)
  qed
qed

lemma weather_node_hit:
  assumes "request state = Some req"
    and "CacheService_get (weather_cache_key req) w = (Some found, w')"
    and "found \<noteq> []"
  shows "weather_node (the_services a) state w
           = (Inr (weather_done (the_services a) state found w'), w')"
  using assms
  by (simp add: weather_node_def weather_try_the_services Let_def truthy_def)

lemma weather_second_call:
  assumes req: "request state = Some req" and req': "request state' = Some req"
    and ready: "cache_ready w"
    and first: "weather_node (the_services a) state w = (Inr u, w1)"
    and invoked: "weather_calls w1 = Suc (weather_calls w)"
    and completed: "get_map (node_status u) ''query_weather'' = Some ''completed''"
    and res: "weather u = Some found" and nonempty: "found \<noteq> []"
    and t: "t < now w + 1800"
  shows "\<exists>u'. weather_node (the_services a) state' (w1 \<lparr> now := t \<rparr>)
                 = (Inr u', w1 \<lparr> now := t \<rparr>)
     \<and> weather u' = Some found
     \<and> get_map (node_status u') ''query_weather'' = Some ''completed''
     \<and> cached_until w1 (weather_cache_key req) = Some (now w + 1800)"
proof -
  from weather_node_cases [OF req, of "the_services a" w] first completed
  have tried: "weather_try (the_services a) state req w = (Inr u, w1)"
    by (auto simp: weather_failed_def put_def get_map_def no_keys_def)
  from weather_first_miss [OF ready tried invoked res] t
  have until: "cached_until w1 (weather_cache_key req) = Some (now w + 1800)"
    and hit: "CacheService_get (weather_cache_key req) (w1 \<lparr> now := t \<rparr>)
                = (Some found, w1 \<lparr> now := t \<rparr>)"
    by simp_all
  from weather_node_hit [OF req' hit nonempty, of a] until show ?thesis
    by (simp add: weather_done_def put_def get_map_def no_keys_def)
qed

lemma hotel_try_the_services:
  "hotel_try (the_services a) state req w =
     (let k = hotel_cache_key req;
          g = CacheService_get k w;
          w0 = snd g
      in if truthy (fst g)
         then (Inr (hotel_done (the_services a) state (the (fst g)) w0), w0)
         else
           let w2 = w0 \<lparr> hotel_calls := Suc (hotel_calls w0) \<rparr>
           in case hotel_answer a (hotel_calls w0) (city req) (hotel_keywords req) of
                Inl e \<Rightarrow> (Inl e, w2)
              | Inr s \<Rightarrow>
                  (case decode a s of
                     Inl e \<Rightarrow> (Inl e, w2)
                   | Inr r \<Rightarrow>
                       (case parse_hotels r of
                          Inl e \<Rightarrow> (Inl e, w2)
                        | Inr found \<Rightarrow>
                            (Inr (hotel_done (the_services a) state found
                                    (snd (CacheService_set k found (Some 7200) w2))),
                             snd (CacheService_set k found (Some 7200) w2)))))"
  by (simp add: hotel_try_def the_services_def Let_def split: sum.splits)

lemma hotel_first_miss:
  assumes ready: "cache_ready w"
      and first: "hotel_try (the_services a) state req w = (Inr u, w1)"
      and invoked: "hotel_calls w1 = Suc (hotel_calls w)"
      and res: "hotels u = Some found"
  shows "cached_until w1 (hotel_cache_key req) = Some (now w + 7200)
     \<and> (\<forall>t. t < now w + 7200 \<longrightarrow>
           CacheService_get (hotel_cache_key req) (w1 \<lparr> now := t \<rparr>)
             = (Some found, w1 \<lparr> now := t \<rparr>))"
proof -
  define k where "k = hotel_cache_key req"
  define w0 where "w0 = snd (CacheService_get k w)"
  define w2 where "w2 = w0 \<lparr> hotel_calls := Suc (hotel_calls w0) \<rparr>"
  note keeps = CacheService_get_keeps [OF ready, of k, folded w0_def]
  have ready2: "cache_ready w2" and now2: "now w2 = now w"
    using keeps by (simp_all add: counters_ready w2_def)
  show ?thesis
  proof (cases "truthy (fst (CacheService_get k w))")
    case True
    with first have "w1 = w0"
      by (simp add: hotel_try_the_services Let_def k_def w0_def)
    with invoked keeps show ?thesis by simp
  next
    case False
    with first obtain found' where
      u: "u = hotel_done (the_services a) state found'
                (snd (CacheService_set k found' (Some 7200) w2))"
      and w1: "w1 = snd (CacheService_set k found' (Some 7200) w2)"
      by (auto simp: hotel_try_the_services Let_def k_def w0_def w2_def
          split: sum.splits)
    from u res have "found' = found"
      by (simp add: hotel_done_def no_keys_def)
    with CacheService_set_ready [OF ready2, of 7200 k found] w1 now2 show ?thesis
      by (auto simp: k_def)
  qed
qed

lemma hotel_node_hit:
  assumes "request state = Some req"
    and "CacheService_get (hotel_cache_key req) w = (Some found, w')"
    and "found \<noteq> []"
  shows "hotel_node (the_services a) state w
           = (Inr (hotel_done (the_services a) state found w'), w')"
  using assms
  by (simp add: hotel_node_def hotel_try_the_services Let_def truthy_def)

lemma hotel_second_call:
  assumes req: "request state = Some req" and req': "request state' = Some req"
    and ready: "cache_ready w"
    and first: "hotel_node (the_services a) state w = (Inr u, w1)"
    and invoked: "hotel_calls w1 = Suc (hotel_calls w)"
    and completed: "get_map (node_status u) ''search_hotels'' = Some ''completed''"
    and res: "hotels u = Some found" and nonempty: "found \<noteq> []"
    and t: "t < now w + 7200"
  shows "\<exists>u'. hotel_node (the_services a) state' (w1 \<lparr> now := t \<rparr>)
                 = (Inr u', w1 \<lparr> now := t \<rparr>)
     \<and> hotels u' = Some found
     \<and> get_map (node_status u') ''search_hotels'' = Some ''completed''
     \<and> cached_until w1 (hotel_cache_key req) = Some (now w + 7200)"
proof -
  from hotel_node_cases [OF req, of "the_services a" w] first completed
  have tried: "hotel_try (the_services a) state req w = (Inr u, w1)"
    by (auto simp: hotel_failed_def put_def get_map_def no_keys_def)
  from hotel_first_miss [OF ready tried invoked res] t
  have until: "cached_until w1 (hotel_cache_key req) = Some (now w + 7200)"
    and hit: "CacheService_get (hotel_cache_key req) (w1 \<lparr> now := t \<rparr>)
                = (Some found, w1 \<lparr> now := t \<rparr>)"
    by simp_all
  from hotel_node_hit [OF req' hit nonempty, of a] until show ?thesis
    by (simp add: hotel_done_def put_def get_map_def no_keys_def)
qed

text \<open>
  C8 (as stated, refuted): two calls of a step on the same request, with the cache enabled
  and no time passing between them, may both invoke the provider. Here the lodging
  provider is down: the first call caches nothing, and the second call invokes the provider
  again.
\<close>

theorem failed_call_invokes_provider_again:
  "cache_enabled fresh_world
   \<and> provider_calls ''search_hotels''
       (snd (run_step (the_services example_answers) ''search_hotels''
               beijing_state
               (snd (run_step (the_services example_answers) ''search_hotels''
                       beijing_state fresh_world)))) = 2"
  by (simp add: run_step_def hotel_node_def hotel_try_the_services Let_def
      beijing_state_def create_initial_state_def no_keys_def CacheService_get_def get_redis_def
      fresh_world_def truthy_def example_answers_def provider_calls_def)

text \<open>
  C8 (amended): with a cache backend that answers, when a first call of a step invokes the
  provider and completes with a result list that is not empty, the entry it writes expires
  7200 seconds later for attractions and lodging and 1800 seconds later for weather, and a
  second call on a state with the same request, at any time before that expiry, leaves
  the world as it is (so it does not invoke the provider) and returns the first call's list,
  with status \<open>completed\<close>.
\<close>

theorem second_call_served_from_cache:
  assumes "step \<in> set required_steps"
    and "request state = Some req" and "request state' = Some req"
    and "cache_ready w"
    and "run_step (the_services a) step state w = (Inr u, w1)"
    and "provider_calls step w1 = Suc (provider_calls step w)"
    and "get_map (node_status u) step = Some ''completed''"
    and "result_list step u = Some found" and "found \<noteq> []"
    and "now w \<le> t" and "t < now w + step_ttl step"
  shows "\<exists>u'. run_step (the_services a) step state' (w1 \<lparr> now := t \<rparr>)
                 = (Inr u', w1 \<lparr> now := t \<rparr>)
     \<and> result_list step u' = Some found
     \<and> get_map (node_status u') step = Some ''completed''
     \<and> provider_calls step (w1 \<lparr> now := t \<rparr>) = Suc (provider_calls step w)
     \<and> cached_until w1 (step_cache_key step req) = Some (now w + step_ttl step)
     \<and> step_ttl ''search_attractions'' = 7200 \<and> step_ttl ''search_hotels'' = 7200
     \<and> step_ttl ''query_weather'' = 1800"
proof -
  from assms(1) consider "step = ''search_attractions''" | "step = ''query_weather''"
    | "step = ''search_hotels''"
    by (auto simp: required_steps_def)
  then show ?thesis
  proof cases
    case 1
    with assms have
      "attraction_node (the_services a) state w = (Inr u, w1)"
      "poi_calls w1 = Suc (poi_calls w)"
      "get_map (node_status u) ''search_attractions'' = Some ''completed''"
      "attractions u = Some found" "t < now w + 7200"
      by (simp_all add: run_step_def provider_calls_def result_list_def step_ttl_def)
    from attraction_second_call [OF assms(2,3,4) this(1,2,3,4) assms(9) this(5)] 1 assms(6)
    show ?thesis
      by (simp add: run_step_def provider_calls_def result_list_def step_ttl_def
          step_cache_key_def)
  next
    case 2
    with assms have
      "weather_node (the_services a) state w = (Inr u, w1)"
      "weather_calls w1 = Suc (weather_calls w)"
      "get_map (node_status u) ''query_weather'' = Some ''completed''"
      "weather u = Some found" "t < now w + 1800"
      by (simp_all add: run_step_def provider_calls_def result_list_def step_ttl_def)
    from weather_second_call [OF assms(2,3,4) this(1,2,3,4) assms(9) this(5)] 2 assms(6)
    show ?thesis
      by (simp add: run_step_def provider_calls_def result_list_def step_ttl_def
          step_cache_key_def)
  next
    case 3
    with assms have
      "hotel_node (the_services a) state w = (Inr u, w1)"
      "hotel_calls w1 = Suc (hotel_calls w)"
      "get_map (node_status u) ''search_hotels'' = Some ''completed''"
      "hotels u = Some found" "t < now w + 7200"
      by (simp_all add: run_step_def provider_calls_def result_list_def step_ttl_def)
    from hotel_second_call [OF assms(2,3,4) this(1,2,3,4) assms(9) this(5)] 3 assms(6)
    show ?thesis
      by (simp add: run_step_def provider_calls_def result_list_def step_ttl_def
          step_cache_key_def)
  qed
qed

theorem second_call_served_from_cache_witness:
  "\<exists>u'. run_step (the_services example_answers) ''search_attractions'' beijing_state
           (snd (run_step (the_services example_answers) ''search_attractions''
                   beijing_state fresh_world) \<lparr> now := 100 \<rparr>)
         = (Inr u',
            snd (run_step (the_services example_answers) ''search_attractions''
                   beijing_state fresh_world) \<lparr> now := 100 \<rparr>)
     \<and> attractions u' = Some [forbidden_city]
     \<and> get_map (node_status u') ''search_attractions'' = Some ''completed''
     \<and> poi_calls (snd (run_step (the_services example_answers) ''search_attractions''
                          beijing_state fresh_world) \<lparr> now := 100 \<rparr>) = 1
     \<and> cached_until (snd (run_step (the_services example_answers) ''search_attractions''
                             beijing_state fresh_world))
          ''attractions:Beijing:history'' = Some 7200"
proof -
  let ?svc = "the_services example_answers"
  let ?step = "''search_attractions''"
  let ?r = "run_step ?svc ?step beijing_state fresh_world"
  note defs = Let_def beijing_state_def create_initial_state_def no_keys_def
    CacheService_get_def CacheService_set_def get_redis_def fresh_world_def truthy_def
    example_answers_def attraction_cache_key_def attraction_keywords_def beijing_request_def
    parse_pois_def parse_poi_def py_get_def py_iter_def attraction_done_def put_def
    get_map_def py_str_def the_services_def forbidden_city_def
  have run: "?r = (Inr (projr (fst ?r)), snd ?r)"
    unfolding run_step_def attraction_node_def attraction_try_the_services
    by (simp add: defs)
  have calls: "provider_calls ?step (snd ?r) = Suc (provider_calls ?step fresh_world)"
    unfolding run_step_def attraction_node_def attraction_try_the_services
    by (simp add: defs provider_calls_def)
  have status: "get_map (node_status (projr (fst ?r))) ?step = Some ''completed''"
    unfolding run_step_def attraction_node_def attraction_try_the_services
    by (simp add: defs)
  have found: "result_list ?step (projr (fst ?r)) = Some [forbidden_city]"
    unfolding run_step_def attraction_node_def attraction_try_the_services
    by (simp add: defs result_list_def)
  have step: "?step \<in> set required_steps"
    by (simp add: required_steps_def)
  have req: "request beijing_state = Some beijing_request"
    by (simp add: beijing_state_def create_initial_state_def no_keys_def)
  have ready: "cache_ready fresh_world"
    by (simp add: cache_ready_def memory_path_def fresh_world_def)
  have t: "now fresh_world \<le> 100" "100 < now fresh_world + step_ttl ?step"
    by (simp_all add: fresh_world_def step_ttl_def)
  from second_call_served_from_cache [OF step req req ready run calls status found _ t]
  show ?thesis
    by (simp add: result_list_def provider_calls_def step_cache_key_def step_ttl_def
        attraction_cache_key_def attraction_keywords_def beijing_request_def fresh_world_def)
qed

subsection \<open>The response parser\<close>

text \<open>
  Splitting in terms of the first occurrence of the separator: the first part is the text
  before it, the second part the text between it and the next occurrence.
\<close>

lemma find_from_shift:
  "find_from sep i s = map_option (\<lambda>j. j + i) (find_from sep 0 s)"
proof (induction s arbitrary: i)
  case Nil
  then show ?case by simp
next
  case (Cons c s)
  show ?case
    using Cons.IH [of "Suc i"] Cons.IH [of "Suc 0"]
    by (simp add: option.map_comp comp_def)
qed

lemma find_Cons:
  "py_find sep (c # s) = (if starts_with sep (c # s) then Some 0 else map_option Suc (py_find sep s))"
  using find_from_shift [of sep "Suc 0" s] by (simp add: py_find_def)

lemma split_from_find:
  assumes "sep \<noteq> []"
  shows "split_from sep cur s =
     (case py_find sep s of
        None \<Rightarrow> [rev cur @ s]
      | Some i \<Rightarrow> (rev cur @ take i s) # split_from sep [] (drop (i + length sep) s))"
proof (induction s arbitrary: cur)
  case Nil
  then show ?case using assms by (simp add: py_find_def)
next
  case (Cons c s)
  show ?case
  proof (cases "starts_with sep (c # s)")
    case True
    then show ?thesis using assms by (simp add: find_Cons)
  next
    case False
    then show ?thesis
      using assms Cons.IH [of "c # cur"]
      by (simp add: find_Cons split: option.splits)
  qed
qed

lemma py_split_find:
  assumes "sep \<noteq> []"
  shows "py_split sep s =
     (case py_find sep s of
        None \<Rightarrow> [s]
      | Some i \<Rightarrow> take i s # py_split sep (drop (i + length sep) s))"
  using split_from_find [OF assms, of "[]"] by (simp add: py_split_def split: option.splits)

lemma py_split_first:
  assumes "sep \<noteq> []"
  shows "index (py_split sep s) 0 = Inr (text_before sep s)"
  by (subst py_split_find [OF assms]) (simp add: index_def text_before_def split: option.splits)

lemma py_split_second:
  assumes "sep \<noteq> []" and "contains sep s"
  shows "index (py_split sep s) (Suc 0) = Inr (text_before sep (text_after sep s))"
proof -
  from assms(2) obtain i where i: "py_find sep s = Some i"
    by (auto simp: contains_def)
  have "py_split sep s = take i s # py_split sep (drop (i + length sep) s)"
    by (subst py_split_find [OF assms(1)]) (simp add: i)
  moreover have "index (py_split sep (drop (i + length sep) s)) 0
      = Inr (text_before sep (drop (i + length sep) s))"
    by (rule py_split_first [OF assms(1)])
  ultimately show ?thesis
    using i by (auto simp: index_def text_after_def split: if_splits)
qed

lemma find_Some_D:
  "py_find sep s = Some i \<Longrightarrow>
     i \<le> length s \<and> starts_with sep (drop i s) \<and> (\<forall>j<i. \<not> starts_with sep (drop j s))"
proof (induction s arbitrary: i)
  case Nil
  then show ?case by (simp add: py_find_def starts_with_def split: if_splits)
next
  case (Cons c s)
  show ?case
  proof (cases "starts_with sep (c # s)")
    case True
    with Cons.prems show ?thesis by (simp add: find_Cons)
  next
    case False
    with Cons.prems obtain i' where i': "py_find sep s = Some i'" "i = Suc i'"
      by (auto simp: find_Cons)
    from Cons.IH [OF i'(1)] False i'(2) show ?thesis
      by (auto simp: less_Suc_eq_0_disj)
  qed
qed

lemma find_None_I:
  "(\<And>j. j \<le> length s \<Longrightarrow> \<not> starts_with sep (drop j s)) \<Longrightarrow> py_find sep s = None"
proof (induction s)
  case Nil
  then show ?case by (auto simp: py_find_def starts_with_def)
next
  case (Cons c s)
  have "\<not> starts_with sep (c # s)"
    using Cons.prems [of 0] by simp
  moreover have "py_find sep s = None"
  proof (rule Cons.IH)
    fix j assume "j \<le> length s"
    then show "\<not> starts_with sep (drop j s)"
      using Cons.prems [of "Suc j"] by simp
  qed
  ultimately show ?case by (simp add: find_Cons)
qed

lemma find_take_first:
  assumes "sep \<noteq> []" and "py_find sep s = Some i"
  shows "py_find sep (take i s) = None"
proof (rule find_None_I)
  fix j assume j: "j \<le> length (take i s)"
  from find_Some_D [OF assms(2)] have i: "i \<le> length s"
    and first: "\<forall>j<i. \<not> starts_with sep (drop j s)" by auto
  show "\<not> starts_with sep (drop j (take i s))"
  proof
    assume st: "starts_with sep (drop j (take i s))"
    then have eq: "take (length sep) (take (i - j) (drop j s)) = sep"
      by (simp add: starts_with_def drop_take)
    then have "length sep \<le> i - j"
      by (metis length_take min.cobounded1 min.cobounded2 take_take le_trans min_def)
    with assms(1) have "j < i" by (cases sep) auto
    moreover from eq \<open>length sep \<le> i - j\<close> have "take (length sep) (drop j s) = sep"
      by (simp add: min_def)
    ultimately show False using first by (auto simp: starts_with_def)
  qed
qed

lemma text_before_idem:
  assumes "sep \<noteq> []"
  shows "text_before sep (text_before sep s) = text_before sep s"
  using find_take_first [OF assms, of s]
  by (auto simp: text_before_def split: option.splits)

lemma contains_prefix:
  "contains (a @ b) s \<Longrightarrow> contains a s"
proof (induction s)
  case Nil
  then show ?case by (auto simp: contains_def py_find_def split: if_splits)
next
  case (Cons c s)
  show ?case
  proof (cases "starts_with (a @ b) (c # s)")
    case True
    then have "starts_with a (c # s)"
      by (metis append_eq_conv_conj starts_with_def take_take length_append le_add1 min_absorb1)
    then show ?thesis by (simp add: contains_def find_Cons)
  next
    case False
    with Cons show ?thesis
      by (auto simp: contains_def find_Cons split: if_splits)
  qed
qed

lemma fence_not_empty:
  "fence \<noteq> []" "fence_json \<noteq> []"
  by (simp_all add: fence_def fence_json_def)

lemma extract_json_payload:
  "extract_json content = Inr (payload content)"
proof (cases "contains fence_json content")
  case True
  then show ?thesis
    by (simp add: extract_json_def payload_def py_split_second [OF fence_not_empty(2) True]
        py_split_first [OF fence_not_empty(1)])
next
  case no_json: False
  show ?thesis
  proof (cases "contains fence content")
    case True
    with no_json show ?thesis
      by (simp add: extract_json_def payload_def py_split_second [OF fence_not_empty(1) True]
          py_split_first [OF fence_not_empty(1)] text_before_idem [OF fence_not_empty(1)])
  next
    case False
    with no_json show ?thesis
      by (simp add: extract_json_def payload_def)
  qed
qed

text \<open>
  What the parser builds from a decoded object: every field is read with \<open>get\<close> and the
  default of the source.
\<close>

lemma py_get_dict:
  "py_get (PDict kvs) k dflt = Inr (dict_get kvs k dflt)"
  by (simp add: py_get_def dict_get_def)

lemma parse_hotel_dict:
  "parse_hotel (PDict kv) =
     Inr \<lparr> h_name = dict_get kv ''name'' (PStr []),
           h_address = dict_get kv ''address'' (PStr []),
           h_location = None, h_type = None, h_price_range = None, h_rating = None,
           h_distance = None,
           h_estimated_cost = Some (dict_get kv ''estimated_cost'' (PInt 0)) \<rparr>"
  by (simp add: parse_hotel_def py_get_dict)

lemma parse_attraction_dict:
  "parse_attraction (PDict kv) =
     Inr \<lparr> a_name = dict_get kv ''name'' (PStr []),
           a_address = dict_get kv ''address'' (PStr []),
           a_location = \<lparr> longitude = PInt 0, latitude = PInt 0 \<rparr>,
           a_visit_duration = dict_get kv ''visit_duration'' (PInt 120),
           a_description = dict_get kv ''description'' (PStr []),
           a_category = None, a_poi_id = None,
           a_ticket_price = Some (dict_get kv ''ticket_price'' (PInt 0)) \<rparr>"
  by (simp add: parse_attraction_def py_get_dict)

lemma parse_meal_dict:
  "parse_meal (PDict kv) =
     Inr \<lparr> m_type = dict_get kv ''type'' (PStr ''lunch''),
           m_name = dict_get kv ''name'' (PStr []),
           m_description = Some (dict_get kv ''description'' (PStr [])),
           m_estimated_cost = dict_get kv ''estimated_cost'' (PInt 0) \<rparr>"
  by (simp add: parse_meal_def py_get_dict)

lemma collect_map_dicts:
  "(\<And>kv. f (PDict kv) = Inr (g kv)) \<Longrightarrow> collect (map (f \<circ> PDict) kvs) = Inr (map g kvs)"
  by (induction kvs) auto

lemma parse_day_dict:
  assumes "dict_get kv ''hotel'' (PDict []) = PDict hotel_kv"
    and "dict_get kv ''attractions'' (PList []) = PList (map PDict attraction_kvs)"
    and "dict_get kv ''meals'' (PList []) = PList (map PDict meal_kvs)"
  shows "parse_day req (PDict kv) =
     Inr \<lparr> d_date = dict_get kv ''date'' (PStr []),
           d_day_index = dict_get kv ''day_index'' (PInt 0),
           d_description = dict_get kv ''description'' (PStr []),
           d_transportation = dict_get kv ''transportation'' (PStr (transportation req)),
           d_accommodation = dict_get kv ''accommodation'' (PStr (accommodation req)),
           d_hotel =
             \<lparr> h_name = dict_get hotel_kv ''name'' (PStr []),
               h_address = dict_get hotel_kv ''address'' (PStr []),
               h_location = None, h_type = None, h_price_range = None, h_rating = None,
               h_distance = None,
               h_estimated_cost = Some (dict_get hotel_kv ''estimated_cost'' (PInt 0)) \<rparr>,
           d_attractions =
             map (\<lambda>a. \<lparr> a_name = dict_get a ''name'' (PStr []),
                        a_address = dict_get a ''address'' (PStr []),
                        a_location = \<lparr> longitude = PInt 0, latitude = PInt 0 \<rparr>,
                        a_visit_duration = dict_get a ''visit_duration'' (PInt 120),
                        a_description = dict_get a ''description'' (PStr []),
                        a_category = None, a_poi_id = None,
                        a_ticket_price = Some (dict_get a ''ticket_price'' (PInt 0)) \<rparr>)
               attraction_kvs,
           d_meals =
             map (\<lambda>m. \<lparr> m_type = dict_get m ''type'' (PStr ''lunch''),
                        m_name = dict_get m ''name'' (PStr []),
                        m_description = Some (dict_get m ''description'' (PStr [])),
                        m_estimated_cost = dict_get m ''estimated_cost'' (PInt 0) \<rparr>)
               meal_kvs \<rparr>"
  using assms
  by (simp add: parse_day_def py_get_dict py_iter_def parse_hotel_dict
      collect_map_dicts [of parse_attraction, OF parse_attraction_dict]
      collect_map_dicts [of parse_meal, OF parse_meal_dict])

lemma build_trip_plan_dict:
  assumes "dict_get kv ''days'' (PList []) = PList day_data"
    and "collect (map (parse_day req) day_data) = Inr ds"
    and "dict_get kv ''budget'' (PDict []) = PDict budget_kv"
  shows "build_trip_plan req (PDict kv) =
     Inr \<lparr> p_city = dict_get kv ''city'' (PStr (city req)),
           p_start_date = start_date req, p_end_date = end_date req,
           days = ds, weather_info = [],
           overall_suggestions = dict_get kv ''overall_suggestions'' (PStr []),
           budget =
             \<lparr> total_attractions = dict_get budget_kv ''total_attractions'' (PInt 0),
               total_hotels = dict_get budget_kv ''total_hotels'' (PInt 0),
               total_meals = dict_get budget_kv ''total_meals'' (PInt 0),
               total_transportation = dict_get budget_kv ''total_transportation'' (PInt 0),
               total = dict_get budget_kv ''total'' (PInt 0) \<rparr>,
           p_execution_time_ms = None \<rparr>"
  using assms by (simp add: build_trip_plan_def py_get_dict py_iter_def)

text \<open>
  C9 (as stated, refuted): a response with no fenced block but a valid JSON object inline
  is claimed to be parsed and used, and the content of a fenced block to be what is
  parsed. In the response \<open>Sure! {}\<close> there is no fence and the object \<open>{}\<close>, which the
  decoder accepts, is inline; the parser hands the whole text to the decoder and raises its
  error. In the response whose block opens with the tag \<open>JSON\<close> in capitals, the parser
  hands the tag and the object to the decoder and raises its error too.
\<close>

theorem inline_json_object_not_extracted:
  "json_loads (the_services parser_answers) ''{}'' = Inr (PDict [])
   \<and> contains ''{}'' inline_response
   \<and> \<not> contains fence inline_response
   \<and> extract_json inline_response = Inr ''Sure! {}''
   \<and> parse_planner_response (the_services parser_answers) inline_response beijing_request
       = Inl (ValueError ''Expecting value: line 1 column 1 (char 0)'')
   \<and> \<not> contains fence_json tagged_response
   \<and> contains fence tagged_response
   \<and> extract_json tagged_response = Inr (''JSON'' @ [CHR 0x0A] @ ''{}'')
   \<and> parse_planner_response (the_services parser_answers) tagged_response beijing_request
       = Inl (ValueError ''Expecting value: line 1 column 1 (char 0)'')"
proof -
  have 0: "contains ''{}'' inline_response" by code_simp
  have 1: "\<not> contains fence inline_response" by code_simp
  have 2: "extract_json inline_response = Inr ''Sure! {}''" by code_simp
  have 3: "\<not> contains fence_json tagged_response" by code_simp
  have 4: "contains fence tagged_response" by code_simp
  have 5: "extract_json tagged_response = Inr (''JSON'' @ [CHR 0x0A] @ ''{}'')" by code_simp
  have 6: "sample_document \<noteq> ''Sure! {}''" "sample_document \<noteq> ''JSON'' @ [CHR 0x0A] @ ''{}''"
    by (simp_all add: sample_document_def)
  from 0 1 2 3 4 5 6 show ?thesis
    by (simp add: parse_planner_response_def decode_and_build_def the_services_def
        parser_answers_def)
qed

text \<open>
  C9 (amended): the text that is decoded is chosen by precedence. When the raw text
  contains the marker of a fenced json block, it is the text after the first such marker,
  up to the next fence marker, stripped (a second json marker, if one comes earlier, ends
  it too). Else, when the raw text contains a fence marker, it is the stripped text between
  the first fence marker and the next, with whatever follows the opening marker. Else it is
  the whole raw text. The chosen text is decoded as one document: when the decoder raises,
  the parser raises the same error; when it returns an object whose days are a list and
  whose budget is an object, the parser returns the plan with city, days, suggestions and
  budget read from the object and the dates of the request, and a day whose hotel is an
  object and whose attractions and meals are lists of objects is read field by field.
\<close>

theorem parse_planner_response_precedence:
  "(contains fence_json content \<longrightarrow>
      parse_planner_response svc content req =
        decode_and_build svc req
          (strip (text_before fence (text_before fence_json (text_after fence_json content)))))
   \<and> (\<not> contains fence_json content \<and> contains fence content \<longrightarrow>
      parse_planner_response svc content req =
        decode_and_build svc req (strip (text_before fence (text_after fence content))))
   \<and> (\<not> contains fence content \<longrightarrow>
      parse_planner_response svc content req = decode_and_build svc req content)
   \<and> (json_loads svc json_str = Inl e \<longrightarrow> decode_and_build svc req json_str = Inl e)
   \<and> (json_loads svc json_str = Inr (PDict kv)
        \<and> dict_get kv ''days'' (PList []) = PList day_data
        \<and> collect (map (parse_day req) day_data) = Inr ds
        \<and> dict_get kv ''budget'' (PDict []) = PDict budget_kv \<longrightarrow>
      decode_and_build svc req json_str =
        Inr \<lparr> p_city = dict_get kv ''city'' (PStr (city req)),
              p_start_date = start_date req, p_end_date = end_date req,
              days = ds, weather_info = [],
              overall_suggestions = dict_get kv ''overall_suggestions'' (PStr []),
              budget =
                \<lparr> total_attractions = dict_get budget_kv ''total_attractions'' (PInt 0),
                  total_hotels = dict_get budget_kv ''total_hotels'' (PInt 0),
                  total_meals = dict_get budget_kv ''total_meals'' (PInt 0),
                  total_transportation = dict_get budget_kv ''total_transportation'' (PInt 0),
                  total = dict_get budget_kv ''total'' (PInt 0) \<rparr>,
              p_execution_time_ms = None \<rparr>)
   \<and> (dict_get day_kv ''hotel'' (PDict []) = PDict hotel_kv
        \<and> dict_get day_kv ''attractions'' (PList []) = PList (map PDict attraction_kvs)
        \<and> dict_get day_kv ''meals'' (PList []) = PList (map PDict meal_kvs) \<longrightarrow>
      parse_day req (PDict day_kv) =
        Inr \<lparr> d_date = dict_get day_kv ''date'' (PStr []),
              d_day_index = dict_get day_kv ''day_index'' (PInt 0),
              d_description = dict_get day_kv ''description'' (PStr []),
              d_transportation =
                dict_get day_kv ''transportation'' (PStr (transportation req)),
              d_accommodation = dict_get day_kv ''accommodation'' (PStr (accommodation req)),
              d_hotel =
                \<lparr> h_name = dict_get hotel_kv ''name'' (PStr []),
                  h_address = dict_get hotel_kv ''address'' (PStr []),
                  h_location = None, h_type = None, h_price_range = None, h_rating = None,
                  h_distance = None,
                  h_estimated_cost = Some (dict_get hotel_kv ''estimated_cost'' (PInt 0)) \<rparr>,
              d_attractions =
                map (\<lambda>a. \<lparr> a_name = dict_get a ''name'' (PStr []),
                           a_address = dict_get a ''address'' (PStr []),
                           a_location = \<lparr> longitude = PInt 0, latitude = PInt 0 \<rparr>,
                           a_visit_duration = dict_get a ''visit_duration'' (PInt 120),
                           a_description = dict_get a ''description'' (PStr []),
                           a_category = None, a_poi_id = None,
                           a_ticket_price = Some (dict_get a ''ticket_price'' (PInt 0)) \<rparr>)
                  attraction_kvs,
              d_meals =
                map (\<lambda>m. \<lparr> m_type = dict_get m ''type'' (PStr ''lunch''),
                           m_name = dict_get m ''name'' (PStr []),
                           m_description = Some (dict_get m ''description'' (PStr [])),
                           m_estimated_cost = dict_get m ''estimated_cost'' (PInt 0) \<rparr>)
                  meal_kvs \<rparr>)"
proof -
  have no_fence: "\<not> contains fence content \<Longrightarrow> \<not> contains fence_json content"
    using contains_prefix [of fence "''json''" content] by (auto simp: fence_json_def)
  have selected: "parse_planner_response svc content req
                    = decode_and_build svc req (payload content)"
    by (simp add: parse_planner_response_def extract_json_payload)
  have 1: "contains fence_json content \<longrightarrow>
      parse_planner_response svc content req =
        decode_and_build svc req
          (strip (text_before fence (text_before fence_json (text_after fence_json content))))"
    by (simp add: selected payload_def)
  have 2: "\<not> contains fence_json content \<and> contains fence content \<longrightarrow>
      parse_planner_response svc content req =
        decode_and_build svc req (strip (text_before fence (text_after fence content)))"
    by (simp add: selected payload_def)
  have 3: "\<not> contains fence content \<longrightarrow>
      parse_planner_response svc content req = decode_and_build svc req content"
    using no_fence by (simp add: selected payload_def)
  have 4: "json_loads svc json_str = Inl e \<longrightarrow> decode_and_build svc req json_str = Inl e"
    by (simp add: decode_and_build_def)
  show ?thesis
    apply (intro conjI)
         apply (rule 1)
        apply (rule 2)
       apply (rule 3)
      apply (rule 4)
     apply (simp add: decode_and_build_def build_trip_plan_dict)
    apply (simp add: parse_day_dict)
    done
qed

theorem parse_planner_response_precedence_witness:
  "parse_planner_response (the_services parser_answers) sample_response beijing_request
     = Inr \<lparr> p_city = PStr ''Beijing'', p_start_date = ''2025-06-01'',
             p_end_date = ''2025-06-03'',
             days =
               [\<lparr> d_date = PStr ''2025-06-01'', d_day_index = PInt 0,
                  d_description = PStr [], d_transportation = PStr ''public_transit'',
                  d_accommodation = PStr ''budget_hotel'',
                  d_hotel =
                    \<lparr> h_name = PStr ''Inn'', h_address = PStr [], h_location = None,
                      h_type = None, h_price_range = None, h_rating = None,
                      h_distance = None, h_estimated_cost = Some (PInt 0) \<rparr>,
                  d_attractions =
                    [\<lparr> a_name = PStr ''Forbidden City'', a_address = PStr [],
                       a_location = \<lparr> longitude = PInt 0, latitude = PInt 0 \<rparr>,
                       a_visit_duration = PInt 120, a_description = PStr [],
                       a_category = None, a_poi_id = None,
                       a_ticket_price = Some (PInt 60) \<rparr>],
                  d_meals =
                    [\<lparr> m_type = PStr ''dinner'', m_name = PStr [],
                       m_description = Some (PStr []), m_estimated_cost = PInt 100 \<rparr>] \<rparr>],
             weather_info = [], overall_suggestions = PStr [],
             budget =
               \<lparr> total_attractions = PInt 0, total_hotels = PInt 0, total_meals = PInt 0,
                 total_transportation = PInt 0, total = PInt 560 \<rparr>,
             p_execution_time_ms = None \<rparr>
   \<and> parse_planner_response (the_services parser_answers) fenced_response beijing_request
     = Inr \<lparr> p_city = PStr ''Beijing'', p_start_date = ''2025-06-01'',
             p_end_date = ''2025-06-03'', days = [], weather_info = [],
             overall_suggestions = PStr [],
             budget =
               \<lparr> total_attractions = PInt 0, total_hotels = PInt 0, total_meals = PInt 0,
                 total_transportation = PInt 0, total = PInt 0 \<rparr>,
             p_execution_time_ms = None \<rparr>
   \<and> parse_planner_response (the_services parser_answers) raw_response beijing_request
     = parse_planner_response (the_services parser_answers) fenced_response beijing_request
   \<and> parse_planner_response (the_services parser_answers) ''Unable to plan.'' beijing_request
     = Inl (ValueError ''Expecting value: line 1 column 1 (char 0)'')"
proof -
  let ?svc = "the_services parser_answers"
  let ?day_kv = "[(''date'', PStr ''2025-06-01''),
                  (''hotel'', PDict [(''name'', PStr ''Inn'')]),
                  (''attractions'',
                   PList [PDict [(''name'', PStr ''Forbidden City''),
                                 (''ticket_price'', PInt 60)]]),
                  (''meals'',
                   PList [PDict [(''type'', PStr ''dinner''),
                                 (''estimated_cost'', PInt 100)]])]"
  let ?kv = "[(''city'', PStr ''Beijing''), (''days'', PList [PDict ?day_kv]),
              (''budget'', PDict [(''total'', PInt 560)])]"
  let ?day = "\<lparr> d_date = PStr ''2025-06-01'', d_day_index = PInt 0,
                  d_description = PStr [], d_transportation = PStr ''public_transit'',
                  d_accommodation = PStr ''budget_hotel'',
                  d_hotel =
                    \<lparr> h_name = PStr ''Inn'', h_address = PStr [], h_location = None,
                      h_type = None, h_price_range = None, h_rating = None,
                      h_distance = None, h_estimated_cost = Some (PInt 0) \<rparr>,
                  d_attractions =
                    [\<lparr> a_name = PStr ''Forbidden City'', a_address = PStr [],
                       a_location = \<lparr> longitude = PInt 0, latitude = PInt 0 \<rparr>,
                       a_visit_duration = PInt 120, a_description = PStr [],
                       a_category = None, a_poi_id = None,
                       a_ticket_price = Some (PInt 60) \<rparr>],
                  d_meals =
                    [\<lparr> m_type = PStr ''dinner'', m_name = PStr [],
                       m_description = Some (PStr []), m_estimated_cost = PInt 100 \<rparr>] \<rparr>"
  have decoded_empty: "json_loads ?svc ''{}'' = Inr (PDict [])"
    by (simp add: the_services_def parser_answers_def)
  have decoded_sample: "json_loads ?svc sample_document = Inr (PDict ?kv)"
    by (simp add: the_services_def parser_answers_def sample_document_def sample_data_def)
  have refused: "json_loads ?svc ''Unable to plan.''
                   = Inl (ValueError ''Expecting value: line 1 column 1 (char 0)'')"
    by (simp add: the_services_def parser_answers_def sample_document_def)
  have json: "contains fence_json sample_response"
    by code_simp
  have json_payload:
    "strip (text_before fence (text_before fence_json
        (text_after fence_json sample_response))) = sample_document"
    by code_simp
  have other: "\<not> contains fence_json fenced_response \<and> contains fence fenced_response"
    by code_simp
  have other_payload: "strip (text_before fence (text_after fence fenced_response)) = ''{}''"
    by code_simp
  have raw: "\<not> contains fence raw_response" and raw_text: "raw_response = ''{}''"
    by code_simp (simp add: raw_response_def)
  have plain: "\<not> contains fence ''Unable to plan.''"
    by code_simp
  from parse_planner_response_precedence
         [where content = sample_response and svc = "?svc" and req = beijing_request
            and json_str = sample_document and kv = "?kv" and day_data = "[PDict ?day_kv]"
            and ds = "[?day]" and budget_kv = "[(''total'', PInt 560)]"
            and day_kv = "?day_kv" and hotel_kv = "[(''name'', PStr ''Inn'')]"
            and attraction_kvs = "[[(''name'', PStr ''Forbidden City''),
                                    (''ticket_price'', PInt 60)]]"
            and meal_kvs = "[[(''type'', PStr ''dinner''), (''estimated_cost'', PInt 100)]]"]
  have day: "parse_day beijing_request (PDict ?day_kv) = Inr ?day"
    by (simp add: dict_get_def beijing_request_def)
  from parse_planner_response_precedence
         [where content = sample_response and svc = "?svc" and req = beijing_request
            and json_str = sample_document and kv = "?kv" and day_data = "[PDict ?day_kv]"
            and ds = "[?day]" and budget_kv = "[(''total'', PInt 560)]"
            and day_kv = "?day_kv" and hotel_kv = "[(''name'', PStr ''Inn'')]"
            and attraction_kvs = "[[(''name'', PStr ''Forbidden City''),
                                    (''ticket_price'', PInt 60)]]"
            and meal_kvs = "[[(''type'', PStr ''dinner''), (''estimated_cost'', PInt 100)]]"]
       json json_payload decoded_sample day
  have 1: "parse_planner_response ?svc sample_response beijing_request
             = Inr \<lparr> p_city = PStr ''Beijing'', p_start_date = ''2025-06-01'',
                     p_end_date = ''2025-06-03'', days = [?day], weather_info = [],
                     overall_suggestions = PStr [],
                     budget =
                       \<lparr> total_attractions = PInt 0, total_hotels = PInt 0,
                         total_meals = PInt 0, total_transportation = PInt 0,
                         total = PInt 560 \<rparr>,
                     p_execution_time_ms = None \<rparr>"
    by (simp add: dict_get_def beijing_request_def)
  from parse_planner_response_precedence
         [where content = fenced_response and svc = "?svc" and req = beijing_request
            and json_str = "''{}''" and kv = "[]" and day_data = "[]" and ds = "[]"
            and budget_kv = "[]"]
       other other_payload decoded_empty
  have 2: "parse_planner_response ?svc fenced_response beijing_request
     = Inr \<lparr> p_city = PStr ''Beijing'', p_start_date = ''2025-06-01'',
             p_end_date = ''2025-06-03'', days = [], weather_info = [],
             overall_suggestions = PStr [],
             budget =
               \<lparr> total_attractions = PInt 0, total_hotels = PInt 0, total_meals = PInt 0,
                 total_transportation = PInt 0, total = PInt 0 \<rparr>,
             p_execution_time_ms = None \<rparr>"
    by (simp add: dict_get_def beijing_request_def)
  from parse_planner_response_precedence
         [where content = raw_response and svc = "?svc" and req = beijing_request
            and json_str = "''{}''" and kv = "[]" and day_data = "[]" and ds = "[]"
            and budget_kv = "[]"]
       raw raw_text decoded_empty
  have 3: "parse_planner_response ?svc raw_response beijing_request
     = Inr \<lparr> p_city = PStr ''Beijing'', p_start_date = ''2025-06-01'',
             p_end_date = ''2025-06-03'', days = [], weather_info = [],
             overall_suggestions = PStr [],
             budget =
               \<lparr> total_attractions = PInt 0, total_hotels = PInt 0, total_meals = PInt 0,
                 total_transportation = PInt 0, total = PInt 0 \<rparr>,
             p_execution_time_ms = None \<rparr>"
    by (simp add: dict_get_def beijing_request_def)
  from parse_planner_response_precedence
         [where content = "''Unable to plan.''" and svc = "?svc" and req = beijing_request
            and json_str = "''Unable to plan.''"
            and e = "ValueError ''Expecting value: line 1 column 1 (char 0)''"]
       plain refused
  have 4: "parse_planner_response ?svc ''Unable to plan.'' beijing_request
             = Inl (ValueError ''Expecting value: line 1 column 1 (char 0)'')"
    by simp
  from 1 2 3 4 show ?thesis by simp
qed

subsection \<open>The synthesis step, the service and the route\<close>

text \<open>The two calls whose arguments do not fit the parameters of the callee.\<close>

lemma gate_call_raises:
  "call2 ''is_all_parallel_nodes_completed'' (''state'', ''nodes'')
     is_all_parallel_nodes_completed (Some state) None []
   = Inl (TypeError (''is_all_parallel_nodes_completed() missing 1 required positional ''
                     @ ''argument: '' @ quoted ''nodes''))"
  by (simp add: call2_def)

lemma create_initial_state_call_raises:
  "call2 ''create_initial_state'' (''user_id'', ''request'') create_initial_state
     (Some uid) (Some req) [''request'', ''trace_id'', ''user_id'']
   = Inl (TypeError (''create_initial_state() got an unexpected keyword argument ''
                     @ quoted ''trace_id''))"
  by (simp add: call2_def)

text \<open>
  Whatever the state, the synthesis step raises before its \<open>try\<close> block: \<open>KeyError\<close>
  without a request, and else the \<open>TypeError\<close> of the gate call. The world is left as it
  is, so the engine is not invoked either.
\<close>

lemma planner_node_raises:
  "planner_node svc state w =
     (case request state of
        None \<Rightarrow> (Inl (KeyError (quoted ''request'')), w)
      | Some req \<Rightarrow>
          (Inl (TypeError (''is_all_parallel_nodes_completed() missing 1 required positional ''
                           @ ''argument: '' @ quoted ''nodes'')), w))"
  by (simp add: planner_node_def gate_call_raises split: option.splits)

text \<open>
  What the \<open>try\<close> block of the step would do if it were reached: without an attraction it
  returns the fallback plan with \<open>fallback_activated\<close> set and the status \<open>completed\<close>,
  and leaves the world as it is.
\<close>

lemma planner_try_without_attractions:
  assumes "get_list (attractions state) = []" and "create_fallback_plan req = Inr plan"
  shows "planner_try svc state req w = (Inr (planner_fallback svc state plan w), w)"
    and "trip_plan (planner_fallback svc state plan w) = Some plan"
    and "fallback_activated (planner_fallback svc state plan w) = Some True"
    and "get_map (node_status (planner_fallback svc state plan w)) ''generate_plan''
           = Some ''completed''"
  using assms
  by (simp_all add: planner_try_def planner_fallback_def put_def get_map_def no_keys_def)

text \<open>
  C1 (the code falls short of the claim): the service raises for every request, before it
  invokes the graph: \<open>create_initial_state\<close> does not accept the keyword \<open>trace_id\<close>, and
  the handler of the service raises the exception again. No itinerary is returned.
\<close>

theorem plan_trip_service_raises:
  "TripPlanningService_plan_trip graph ms req uid w =
     (Inl (TypeError (''create_initial_state() got an unexpected keyword argument ''
                      @ quoted ''trace_id'')), w)"
  by (simp add: TripPlanningService_plan_trip_def create_initial_state_call_raises)

text \<open>
  C2 (the code falls short of the claim): in the state where the attractions step
  completed with one attraction and the weather step failed, the synthesis step raises
  \<open>TypeError\<close> and produces no itinerary. In the same state the gate, asked about the
  three steps, is false.
\<close>

theorem planner_raises_after_weather_failure:
  "planner_node (the_services example_answers)
     (gathered_state weather_failed_status [forbidden_city]) fresh_world
   = (Inl (TypeError (''is_all_parallel_nodes_completed() missing 1 required positional ''
                      @ ''argument: '' @ quoted ''nodes'')), fresh_world)
   \<and> \<not> is_all_parallel_nodes_completed
         (gathered_state weather_failed_status [forbidden_city]) required_steps"
  by (simp add: planner_node_raises gathered_state_def beijing_state_def
      create_initial_state_def no_keys_def is_all_parallel_nodes_completed_def get_map_def
      required_steps_def weather_failed_status_def)

text \<open>
  C4 (the code falls short of the claim): in the state where the three steps completed
  and the attractions list is empty, the gate, asked about the three steps, reports
  readiness, and the synthesis step raises \<open>TypeError\<close> instead of returning the fallback
  itinerary.
\<close>

theorem planner_raises_without_attractions:
  "is_all_parallel_nodes_completed (gathered_state all_completed_status []) required_steps
   \<and> attractions (gathered_state all_completed_status []) = Some []
   \<and> planner_node (the_services example_answers)
        (gathered_state all_completed_status []) fresh_world
      = (Inl (TypeError (''is_all_parallel_nodes_completed() missing 1 required positional ''
                         @ ''argument: '' @ quoted ''nodes'')), fresh_world)"
  by (simp add: planner_node_raises gathered_state_def beijing_state_def
      create_initial_state_def no_keys_def is_all_parallel_nodes_completed_def get_map_def
      required_steps_def all_completed_status_def)

text \<open>
  C7: a request whose day count is below 1 or above 30 is rejected with the validation
  message and status 400, whatever the graph is and with the world left as it is: neither
  the service nor the graph nor any step has run. For a day count from 1 to 30 the answer
  is not this rejection: the check passes and the service is called (its exception makes
  the route answer with status 500).
\<close>

theorem day_count_checked_before_graph:
  "(travel_days req < 1 \<or> 30 < travel_days req \<longrightarrow>
      plan_trip built ms req uid w = (Inl (HTTPException 400 zh_days_range), w))
   \<and> (1 \<le> travel_days req \<and> travel_days req \<le> 30 \<longrightarrow>
      fst (plan_trip built ms req uid w) \<noteq> Inl (HTTPException 400 zh_days_range)
      \<and> plan_trip built ms req uid w = (Inl (HTTPException 500 zh_internal_error), w))"
  by (auto simp: plan_trip_def TripPlanningService_plan_trip_def
      create_initial_state_call_raises split: sum.splits)

theorem day_count_checked_before_graph_witness:
  "plan_trip (Inr (planner_only_graph (the_services example_answers))) 5
     (beijing_request \<lparr> travel_days := 31 \<rparr>) None fresh_world
     = (Inl (HTTPException 400 zh_days_range), fresh_world)
   \<and> plan_trip (Inr (planner_only_graph (the_services example_answers))) 5
       beijing_request None fresh_world
     = (Inl (HTTPException 500 zh_internal_error), fresh_world)"
  using day_count_checked_before_graph
      [of "beijing_request \<lparr> travel_days := 31 \<rparr>"
          "Inr (planner_only_graph (the_services example_answers))" 5 None fresh_world]
    day_count_checked_before_graph
      [of beijing_request "Inr (planner_only_graph (the_services example_answers))" 5 None
          fresh_world]
  by (simp add: beijing_request_def)

end
